theory Spec2Isabelle
  imports Complex_Main "HOL-Library.Word" "HOL-Library.Sublist"
begin

unbundle bit_operations_syntax

section \<open>The OpenGL renderer of libs/hwui as a state transformer\<close>

text \<open>
  The development embeds \<^verbatim>\<open>libs/hwui/OpenGLRenderer.cpp\<close>. The renderer object is a
  record of its member variables. Every call that leaves the file (a GL entry point, a
  method of the \<^verbatim>\<open>Caches\<close> facade, of a layer, a texture, a program or a functor) is
  appended to the field \<open>calls\<close>, in program order, so that a statement about "the GPU
  commands issued" is a statement about that list. What such a call returns is not decided
  by this file: it is read from an environment \<open>E\<close> of collaborator functions that thread
  an external state \<open>'w\<close>. The theorems hold for every environment.

  C \<^verbatim>\<open>float\<close> values are exact rationals here: rounding, infinities and NaN are outside
  the model. Pointers are addresses (\<open>nat\<close>) and \<open>None\<close> is the null pointer. A
  dereference of null inside the renderer sets the field \<open>fault\<close>; the public operations
  return \<open>Inl NullDereference\<close> then, and a state with a fault is never a result.
\<close>

subsection \<open>Status bits\<close>

type_synonym status_t = "32 word"

text \<open>
  Modelled from the spec: the values of \<^verbatim>\<open>DrawGlInfo::Status\<close> (the header
  \<^verbatim>\<open>private/hwui/DrawGlInfo.h\<close> is not among the sources). The spec calls them "an
  orthogonal status bitset": nothing drawn is the empty set, the others are single bits.
\<close>

definition kStatusDone :: status_t where "kStatusDone = 0"
definition kStatusDraw :: status_t where "kStatusDraw = 1"
definition kStatusInvoke :: status_t where "kStatusInvoke = 2"
definition kStatusDrew :: status_t where "kStatusDrew = 4"

datatype DrawMode = kModeDraw | kModeProcess

datatype fault = NullDereference

subsection \<open>Rectangles\<close>

record Rect =
  left :: rat
  topR :: rat
  right :: rat
  bottom :: rat

definition mkRect :: "rat \<Rightarrow> rat \<Rightarrow> rat \<Rightarrow> rat \<Rightarrow> Rect" where
  "mkRect l t r b = \<lparr>left = l, topR = t, right = r, bottom = b\<rparr>"

text \<open>
  Modelled from the spec: the methods of \<^verbatim>\<open>Rect\<close> (\<^verbatim>\<open>Rect.h\<close> is not among the
  sources). A rectangle is "degenerate" when its width or height is not positive; two
  rectangles are disjoint when their intersection is degenerate; snapping moves every edge
  to a pixel boundary, \<open>floor (x + 1/2)\<close>, the rule the source itself uses for
  pixel-snapped placement (\<^verbatim>\<open>floorf(left + tx + 0.5f)\<close>).
\<close>

definition isEmptyRect :: "Rect \<Rightarrow> bool" where
  "isEmptyRect r \<longleftrightarrow> right r \<le> left r \<or> bottom r \<le> topR r"

definition setEmptyRect :: Rect where
  "setEmptyRect = mkRect 0 0 0 0"

definition getWidth :: "Rect \<Rightarrow> rat" where
  "getWidth r = right r - left r"

definition getHeight :: "Rect \<Rightarrow> rat" where
  "getHeight r = bottom r - topR r"

definition intersectWith :: "Rect \<Rightarrow> Rect \<Rightarrow> Rect" where
  "intersectWith a b =
     mkRect (max (left a) (left b)) (max (topR a) (topR b))
            (min (right a) (right b)) (min (bottom a) (bottom b))"

definition intersects :: "Rect \<Rightarrow> Rect \<Rightarrow> bool" where
  "intersects a b \<longleftrightarrow> \<not> isEmptyRect (intersectWith a b)"

definition intersectRect :: "Rect \<Rightarrow> Rect \<Rightarrow> bool \<times> Rect" where
  \<comment> \<open>\<^verbatim>\<open>a.intersect(b)\<close>: \<open>a\<close> becomes the intersection when there is one, else is kept\<close>
  "intersectRect a b =
     (if intersects a b then (True, intersectWith a b) else (False, a))"

definition containsRect :: "Rect \<Rightarrow> Rect \<Rightarrow> bool" where
  "containsRect a b \<longleftrightarrow>
     left a \<le> left b \<and> topR a \<le> topR b \<and> right b \<le> right a \<and> bottom b \<le> bottom a"

definition unionWith :: "Rect \<Rightarrow> Rect \<Rightarrow> Rect" where
  "unionWith a b =
     (if isEmptyRect b then a
      else if isEmptyRect a then b
      else mkRect (min (left a) (left b)) (min (topR a) (topR b))
                  (max (right a) (right b)) (max (bottom a) (bottom b)))"

definition snapToPixelBoundaries :: "Rect \<Rightarrow> Rect" where
  "snapToPixelBoundaries r =
     mkRect (of_int \<lfloor>left r + 1/2\<rfloor>) (of_int \<lfloor>topR r + 1/2\<rfloor>)
            (of_int \<lfloor>right r + 1/2\<rfloor>) (of_int \<lfloor>bottom r + 1/2\<rfloor>)"

definition float_to_int :: "rat \<Rightarrow> int" where
  \<comment> \<open>the C conversion of a float to an int: towards zero\<close>
  "float_to_int q = (if 0 \<le> q then \<lfloor>q\<rfloor> else \<lceil>q\<rceil>)"

subsection \<open>Transforms\<close>

text \<open>
  \<^verbatim>\<open>Matrix.cpp\<close> is not among the sources. A 4x4 matrix is taken as a parameter: it is
  represented by what the renderer asks of it. Nothing relates these observations to each
  other, so a statement for every \<open>mat4\<close> holds for every matrix.
\<close>

record mat4 =
  mapRect :: "Rect \<Rightarrow> Rect"
  rectToRect :: bool
  isPureTranslate :: bool
  getTranslateX :: rat
  getTranslateY :: rat

datatype matdesc =
    MatIdentity
  | MatOrtho rat rat rat rat rat rat
  | MatTranslate rat rat rat
  | MatTranslateScale rat rat rat rat rat rat
  | MatInverseOfTransform

subsection \<open>Enumerations of GL and Skia\<close>

datatype GLenum =
    GL_ZERO | GL_ONE
  | GL_SRC_ALPHA | GL_ONE_MINUS_SRC_ALPHA
  | GL_DST_ALPHA | GL_ONE_MINUS_DST_ALPHA
  | GL_SRC_COLOR | GL_ONE_MINUS_SRC_COLOR
  | GL_DST_COLOR | GL_ONE_MINUS_DST_COLOR
  | GL_BLEND | GL_DITHER | GL_SCISSOR_TEST
  | GL_COLOR_BUFFER_BIT
  | GL_TRIANGLE_STRIP | GL_TRIANGLES | GL_POINTS
  | GL_LINEAR | GL_NEAREST | GL_CLAMP_TO_EDGE
  | GL_FUNC_ADD | GL_TEXTURE_2D | GL_TEXTURE_EXTERNAL_OES

text \<open>
  The transfer modes of \<^verbatim>\<open>SkXfermode\<close>, in the order of the enumeration. The source
  compares modes with \<^verbatim>\<open>kScreen_Mode\<close> and indexes its two tables with them, so each
  mode has its index. \<open>kOverlay_Mode\<close> and \<open>kDarken_Mode\<close> stand for the modes after
  \<open>kScreen_Mode\<close>, which the tables do not cover.
\<close>

datatype Mode =
    kClear_Mode | kSrc_Mode | kDst_Mode | kSrcOver_Mode | kDstOver_Mode
  | kSrcIn_Mode | kDstIn_Mode | kSrcOut_Mode | kDstOut_Mode
  | kSrcATop_Mode | kDstATop_Mode | kXor_Mode | kPlus_Mode
  | kModulate_Mode | kScreen_Mode | kOverlay_Mode | kDarken_Mode

fun modeIndex :: "Mode \<Rightarrow> nat" where
  "modeIndex kClear_Mode = 0"
| "modeIndex kSrc_Mode = 1"
| "modeIndex kDst_Mode = 2"
| "modeIndex kSrcOver_Mode = 3"
| "modeIndex kDstOver_Mode = 4"
| "modeIndex kSrcIn_Mode = 5"
| "modeIndex kDstIn_Mode = 6"
| "modeIndex kSrcOut_Mode = 7"
| "modeIndex kDstOut_Mode = 8"
| "modeIndex kSrcATop_Mode = 9"
| "modeIndex kDstATop_Mode = 10"
| "modeIndex kXor_Mode = 11"
| "modeIndex kPlus_Mode = 12"
| "modeIndex kModulate_Mode = 13"
| "modeIndex kScreen_Mode = 14"
| "modeIndex kOverlay_Mode = 15"
| "modeIndex kDarken_Mode = 16"

record Blender =
  blenderMode :: Mode
  src :: GLenum
  dst :: GLenum

definition mkBlender :: "Mode \<Rightarrow> GLenum \<Rightarrow> GLenum \<Rightarrow> Blender" where
  "mkBlender m s d = \<lparr>blenderMode = m, src = s, dst = d\<rparr>"

definition gBlends :: "Blender list" where
  "gBlends =
    [ mkBlender kClear_Mode    GL_ZERO                GL_ONE_MINUS_SRC_ALPHA,
      mkBlender kSrc_Mode      GL_ONE                 GL_ZERO,
      mkBlender kDst_Mode      GL_ZERO                GL_ONE,
      mkBlender kSrcOver_Mode  GL_ONE                 GL_ONE_MINUS_SRC_ALPHA,
      mkBlender kDstOver_Mode  GL_ONE_MINUS_DST_ALPHA GL_ONE,
      mkBlender kSrcIn_Mode    GL_DST_ALPHA           GL_ZERO,
      mkBlender kDstIn_Mode    GL_ZERO                GL_SRC_ALPHA,
      mkBlender kSrcOut_Mode   GL_ONE_MINUS_DST_ALPHA GL_ZERO,
      mkBlender kDstOut_Mode   GL_ZERO                GL_ONE_MINUS_SRC_ALPHA,
      mkBlender kSrcATop_Mode  GL_DST_ALPHA           GL_ONE_MINUS_SRC_ALPHA,
      mkBlender kDstATop_Mode  GL_ONE_MINUS_DST_ALPHA GL_SRC_ALPHA,
      mkBlender kXor_Mode      GL_ONE_MINUS_DST_ALPHA GL_ONE_MINUS_SRC_ALPHA,
      mkBlender kPlus_Mode     GL_ONE                 GL_ONE,
      mkBlender kModulate_Mode GL_ZERO                GL_SRC_COLOR,
      mkBlender kScreen_Mode   GL_ONE                 GL_ONE_MINUS_SRC_COLOR ]"

definition gBlendsSwap :: "Blender list" where
  "gBlendsSwap =
    [ mkBlender kClear_Mode    GL_ONE_MINUS_DST_ALPHA GL_ZERO,
      mkBlender kSrc_Mode      GL_ZERO                GL_ONE,
      mkBlender kDst_Mode      GL_ONE                 GL_ZERO,
      mkBlender kSrcOver_Mode  GL_ONE_MINUS_DST_ALPHA GL_ONE,
      mkBlender kDstOver_Mode  GL_ONE                 GL_ONE_MINUS_SRC_ALPHA,
      mkBlender kSrcIn_Mode    GL_ZERO                GL_SRC_ALPHA,
      mkBlender kDstIn_Mode    GL_DST_ALPHA           GL_ZERO,
      mkBlender kSrcOut_Mode   GL_ZERO                GL_ONE_MINUS_SRC_ALPHA,
      mkBlender kDstOut_Mode   GL_ONE_MINUS_DST_ALPHA GL_ZERO,
      mkBlender kSrcATop_Mode  GL_ONE_MINUS_DST_ALPHA GL_SRC_ALPHA,
      mkBlender kDstATop_Mode  GL_DST_ALPHA           GL_ONE_MINUS_SRC_ALPHA,
      mkBlender kXor_Mode      GL_ONE_MINUS_DST_ALPHA GL_ONE_MINUS_SRC_ALPHA,
      mkBlender kPlus_Mode     GL_ONE                 GL_ONE,
      mkBlender kModulate_Mode GL_DST_COLOR           GL_ZERO,
      mkBlender kScreen_Mode   GL_ONE_MINUS_DST_COLOR GL_ONE ]"

subsection \<open>Calls that leave the file\<close>

datatype gl_call =
    glClear GLenum
  | glDrawArrays GLenum int int
  | glDrawElements GLenum int
  | glViewport rat rat rat rat
  | glBindFramebuffer nat
  | glEnable GLenum
  | glDisable GLenum
  | glBlendFunc GLenum GLenum
  | glBlendEquation GLenum
  | glClearColor rat rat rat rat
  | glDiscardFramebufferEXT
  | glFramebufferTexture2D nat
  | glUniform1f rat
  | glUniformMatrix4fv
  | glEnableVertexAttribArray int
  | glDisableVertexAttribArray int
  | glVertexAttribPointer int
  | glBindTexture GLenum nat

datatype caches_call =
    Caches_clearGarbage
  | Caches_enableScissor
  | Caches_disableScissor
  | Caches_setScissor rat rat rat rat
  | Caches_resetScissor
  | Caches_setScissorEnabled bool
  | Caches_activeTexture nat
  | Caches_bindMeshBuffer "nat option"
  | Caches_unbindMeshBuffer
  | Caches_unbindIndicesBuffer
  | Caches_resetVertexPointers
  | Caches_bindPositionVertexPointer bool
  | Caches_bindTexCoordsVertexPointer bool
  | Caches_resetTexCoordsVertexPointer
  | Caches_enableTexCoordsVertexArray
  | Caches_disableTexCoordsVertexArray
  | Caches_startTiling
  | Caches_endTiling
  | Caches_startMark
  | Caches_endMark
  | Caches_getRegionMesh
  | Caches_stencil_clear
  | Caches_stencil_enableDebugWrite
  | Caches_stencil_disable
  | Caches_stencil_enableWrite
  | Caches_stencil_enableTest
  | Caches_resourceCache_decrementRefcount nat
  | Caches_layerCache_put nat

datatype object_call =
    Program_use
  | Program_remove
  | Program_set matdesc matdesc bool bool
  | Program_setColor rat rat rat rat
  | Layer_bindTexture
  | Layer_setFilter GLenum bool
  | Layer_getTexTransform
  | Layer_removeFbo
  | Layer_setStencilRenderBuffer
  | LayerRenderer_update
  | Texture_setWrap GLenum
  | Texture_setFilter GLenum
  | Shader_setupProgram matdesc nat
  | Shader_setupProgramIdentity nat
  | ColorFilter_setupProgram
  | Functor_invoke DrawMode

datatype event =
    GL gl_call
  | CachesCall caches_call
  | ObjectCall nat object_call

subsection \<open>Snapshots, layers, the state cache\<close>

datatype SaveFlag =
    kMatrix_SaveFlag | kClip_SaveFlag | kHasAlphaLayer_SaveFlag
  | kFullColorLayer_SaveFlag | kClipToLayer_SaveFlag

datatype SnapshotFlag =
    kFlagClipSet | kFlagIsLayer | kFlagIsFboLayer | kFlagDirtyOrtho | kFlagFboTarget

text \<open>
  A \<^verbatim>\<open>Snapshot\<close> (\<^verbatim>\<open>Snapshot.h\<close> is not among the sources; the fields are the ones
  this file reads and writes). The link \<^verbatim>\<open>previous\<close> is the position in the list
  \<open>mSnapshot\<close> of the renderer: the head is the current snapshot, its tail is the chain
  of \<^verbatim>\<open>previous\<close> links, and the empty list is the null pointer. The clip region is the
  list of rectangles its iterator yields, \<open>[]\<close> when the clip is a plain rectangle.
  \<open>layer\<close> and \<open>region\<close> are addresses of layers: \<open>region\<close> points to the dirty
  region of the layer at that address.
\<close>

record Snapshot =
  flags :: "SnapshotFlag set"
  transform :: mat4
  clipRect :: Rect
  clipRegion :: "Rect list"
  alpha :: rat
  layer :: "nat option"
  region :: "nat option"
  fbo :: nat
  viewport :: Rect
  height :: int
  invisible :: bool
  emptyS :: bool
  orthoMatrix :: matdesc
  ownsTransform :: bool
  ownsClip :: bool

definition isIgnored :: "Snapshot \<Rightarrow> bool" where
  "isIgnored sn \<longleftrightarrow> invisible sn \<or> emptyS sn"

text \<open>
  Modelled from the spec: the constructor \<^verbatim>\<open>Snapshot(previous, saveFlags)\<close>
  (\<^verbatim>\<open>Snapshot.cpp\<close> is not among the sources). "Push a new Snapshot copying parent
  transform/clip per flags (matrix-only, clip-only, or both)": with
  \<^verbatim>\<open>kMatrix_SaveFlag\<close> the snapshot gets a transform of its own, a copy of the parent's,
  and without it the pointer \<^verbatim>\<open>transform\<close> is the parent's; the same holds for
  \<^verbatim>\<open>kClip_SaveFlag\<close> and the clip. \<open>ownsTransform\<close> and \<open>ownsClip\<close> record which it is.
  The values are the parent's in both cases; what differs is who sees a later write
  (\<open>shareClip\<close> below). The new snapshot starts with no flag of its own except the render
  target it inherits. The layer pointer is inherited with the target: the source reads
  \<^verbatim>\<open>mSnapshot->layer\<close> in \<^verbatim>\<open>ensureStencilBuffer\<close> whenever the snapshot draws
  into a layer, whichever snapshot created that layer.
\<close>

definition newSnapshot :: "Snapshot \<Rightarrow> SaveFlag set \<Rightarrow> Snapshot" where
  "newSnapshot s saveFlags =
     s\<lparr>flags := (if kFlagFboTarget \<in> flags s then {kFlagFboTarget} else {}),
       region := (if kFlagFboTarget \<in> flags s then region s else None),
       emptyS := False,
       ownsTransform := (kMatrix_SaveFlag \<in> saveFlags),
       ownsClip := (kClip_SaveFlag \<in> saveFlags)\<rparr>"

text \<open>
  A write through the clip pointers of a snapshot that shares its clip is a write to the
  clip of the snapshot below it, and so on down the chain as far as the clip is shared.
  \<open>shareClip sn chain\<close> is the chain below \<open>sn\<close> after such a write.
\<close>

fun shareClip :: "Snapshot \<Rightarrow> Snapshot list \<Rightarrow> Snapshot list" where
  "shareClip sn [] = []"
| "shareClip sn (p # rest) =
     (if ownsClip sn then p # rest
      else (p\<lparr>clipRect := clipRect sn, clipRegion := clipRegion sn\<rparr>)
             # shareClip (p\<lparr>clipRect := clipRect sn, clipRegion := clipRegion sn\<rparr>) rest)"

record Layer =
  layer_alpha :: int
  layer_mode :: Mode
  layer_rect :: Rect
  layer_texCoords :: Rect
  layer_clipRect :: Rect
  layer_region :: "Rect list"
  layer_regionRect :: Rect
  layer_width :: nat
  layer_height :: nat
  layer_texture :: nat
  layer_blend :: bool
  layer_colorFilter :: "nat option"
  layer_isTextureLayer :: bool
  layer_renderTarget :: GLenum
  layer_stencil :: "nat option"
  layer_deferredUpdateScheduled :: bool
  layer_renderer :: "nat option"
  layer_displayList :: "nat option"
  layer_dirtyRect :: Rect
  layer_debugDrawUpdate :: bool

datatype StencilClipDebug = kStencilHide | kStencilShowHighlight | kStencilShowRegion

text \<open>The public fields of \<^verbatim>\<open>Caches\<close> that the renderer reads and writes itself.\<close>

record Caches =
  scissorEnabled :: bool
  blend :: bool
  lastSrcMode :: GLenum
  lastDstMode :: GLenum
  currentProgram :: "nat option"
  debugOverdrawFlag :: bool
  debugLayersUpdates :: bool
  debugStencilClip :: StencilClipDebug
  maxTextureSize :: rat

record ProgramDescription =
  hasTexture :: bool
  hasAlpha8Texture :: bool
  hasExternalTexture :: bool
  hasColors :: bool
  hasTextureTransform :: bool
  isAA :: bool
  isPoint :: bool
  pointSize :: rat
  modulate :: bool
  framebufferMode :: "Mode option"
  swapSrcDst :: bool
  hasDebugHighlight :: bool
  described :: "nat list"

definition description_reset :: ProgramDescription where
  "description_reset =
     \<lparr>hasTexture = False, hasAlpha8Texture = False, hasExternalTexture = False,
      hasColors = False, hasTextureTransform = False, isAA = False, isPoint = False,
      pointSize = 0, modulate = False, framebufferMode = None, swapSrcDst = False,
      hasDebugHighlight = False, described = []\<rparr>"

record DrawGlInfo =
  clipLeft :: int
  clipTop :: int
  clipRight :: int
  clipBottom :: int
  info_width :: int
  info_height :: int
  isLayer :: bool
  info_transform :: "rat list"
  dirtyLeft :: rat
  dirtyTop :: rat
  dirtyRight :: rat
  dirtyBottom :: rat

record SkPaint =
  paint_alpha :: int
  paint_color :: "32 word"
  paint_xfermode :: Mode
  paint_filterBitmap :: bool
  paint_strokeWidth :: rat

record SkBitmap =
  bitmap_id :: nat
  bitmap_width :: int
  bitmap_height :: int
  bitmap_isA8 :: bool

record Texture =
  texture_id :: nat
  texture_width :: nat
  texture_height :: nat
  texture_blend :: bool

record Patch =
  patch_verticesCount :: nat
  patch_meshBuffer :: nat
  patch_hasEmptyQuads :: bool
  patch_quads :: "Rect list"

datatype reentry = Reenter_attachFunctor nat | Reenter_detachFunctor nat

datatype RegionOp =
    kDifference_Op | kIntersect_Op | kUnion_Op | kXOR_Op | kReverseDifference_Op | kReplace_Op

datatype SkPath = Path_addRect rat rat rat rat | Path_at nat

subsection \<open>The collaborators, as parameters\<close>

text \<open>
  What the collaborators answer. \<open>cachesImpl\<close> is the body of every method of the
  \<^verbatim>\<open>Caches\<close> facade: given the call, the public field \<^verbatim>\<open>scissorEnabled\<close> and the
  external state, it returns the method's boolean result (ignored where the method returns
  nothing), the new \<^verbatim>\<open>scissorEnabled\<close> and the new state. The other public fields are
  written by the renderer only. \<open>functorImpl\<close> is a functor's \<^verbatim>\<open>operator()\<close>: it returns the
  status, the \<^verbatim>\<open>DrawGlInfo\<close> it wrote, and the calls it made back into the renderer
  while it ran. The remaining fields are the caches' \<^verbatim>\<open>get\<close> methods, pure queries of
  shaders and colour filters, the extension flags and the virtual \<^verbatim>\<open>getTargetFbo\<close>.
  A dirty region of a layer (\<^verbatim>\<open>android::Region\<close>) is the array of rectangles that
  \<^verbatim>\<open>getArray\<close> returns; its other methods are parameters as well. So are the
  operations of Skia on clip regions: \<open>skRegion_op a b op\<close> is \<^verbatim>\<open>a.op(b, op)\<close>, and
  \<open>skRegion_setPath p m clip\<close> is the region of the path \<open>p\<close> transformed by \<open>m\<close> and
  clipped to \<open>clip\<close> (\<^verbatim>\<open>path->transform\<close> followed by \<^verbatim>\<open>region.setPath\<close>).
\<close>

record 'w env =
  cachesImpl :: "caches_call \<Rightarrow> bool \<Rightarrow> 'w \<Rightarrow> bool \<times> bool \<times> 'w"
  functorImpl :: "nat \<Rightarrow> DrawMode \<Rightarrow> DrawGlInfo \<Rightarrow> 'w
                  \<Rightarrow> status_t \<times> DrawGlInfo \<times> reentry list \<times> 'w"
  glIsEnabled :: "GLenum \<Rightarrow> 'w \<Rightarrow> bool"
  stencil_isTestEnabled :: "'w \<Rightarrow> bool"
  hasRegisteredFunctors :: "'w \<Rightarrow> bool"
  textureCache_get :: "SkBitmap \<Rightarrow> 'w \<Rightarrow> (nat \<times> Texture) option \<times> 'w"
  textureCache_getTransient :: "SkBitmap \<Rightarrow> 'w \<Rightarrow> (nat \<times> Texture) option \<times> 'w"
  patchCache_get :: "SkBitmap \<Rightarrow> rat \<Rightarrow> rat \<Rightarrow> 'w \<Rightarrow> Patch option \<times> 'w"
  programCache_get :: "ProgramDescription \<Rightarrow> 'w \<Rightarrow> nat \<times> 'w"
  program_texCoords :: "nat \<Rightarrow> int"
  program_getAttrib :: "nat \<Rightarrow> int"
  renderBufferCache_get :: "nat \<Rightarrow> nat \<Rightarrow> 'w \<Rightarrow> nat option \<times> 'w"
  region_orSelf :: "Rect list \<Rightarrow> Rect \<Rightarrow> Rect list"
  region_isRect :: "Rect list \<Rightarrow> bool"
  region_isEmpty :: "Rect list \<Rightarrow> bool"
  region_getBounds :: "Rect list \<Rightarrow> Rect"
  region_clear :: "Rect list"
  skRegion_op :: "Rect list \<Rightarrow> Rect list \<Rightarrow> RegionOp \<Rightarrow> Rect list"
  skRegion_setPath :: "SkPath \<Rightarrow> mat4 \<Rightarrow> Rect list \<Rightarrow> Rect list"
  createTJunctionFreeRegion :: "Rect list \<Rightarrow> Rect list"
  shader_blend :: "nat \<Rightarrow> bool"
  shader_describe :: "nat \<Rightarrow> ProgramDescription \<Rightarrow> ProgramDescription"
  shader_textureUnit :: "nat \<Rightarrow> nat \<Rightarrow> nat"
  colorFilter_blend :: "nat \<Rightarrow> bool"
  colorFilter_describe :: "nat \<Rightarrow> ProgramDescription \<Rightarrow> ProgramDescription"
  description_setColor :: "rat \<Rightarrow> rat \<Rightarrow> rat \<Rightarrow> rat \<Rightarrow> ProgramDescription
                           \<Rightarrow> bool \<times> ProgramDescription"
  description_setAlpha8Color :: "rat \<Rightarrow> rat \<Rightarrow> rat \<Rightarrow> rat \<Rightarrow> ProgramDescription
                           \<Rightarrow> bool \<times> ProgramDescription"
  hasDiscardFramebuffer :: bool
  hasFramebufferFetch :: bool
  getTargetFbo :: nat
  REGION_MESH_QUAD_COUNT :: nat

subsection \<open>The renderer\<close>

record 'w renderer =
  calls :: "event list"
  world :: 'w
  fault :: "fault option"
  caches :: Caches
  layerAt :: "nat \<Rightarrow> Layer"
  programInUse :: "nat \<Rightarrow> bool"
  mWidth :: int
  mHeight :: int
  mSaveCount :: int
  mFirstSnapshot :: Snapshot
  mSnapshot :: "Snapshot list"
  mDirtyClip :: bool
  mSuppressTiling :: bool
  mScissorOptimizationDisabled :: bool
  mOrthoMatrix :: matdesc
  mModelView :: matdesc
  mDescription :: ProgramDescription
  mColorSet :: bool
  mSetShaderColor :: bool
  mColorA :: rat
  mColorR :: rat
  mColorG :: rat
  mColorB :: rat
  mTextureUnit :: nat
  mTrackDirtyRegions :: bool
  mShader :: "nat option"
  mColorFilter :: "nat option"
  mMeshTexCoords :: "(rat \<times> rat) list"
  mLayers :: "Rect list"
  mLayerUpdates :: "nat list"
  mFunctors :: "nat list"

definition gl :: "gl_call \<Rightarrow> 'w renderer \<Rightarrow> 'w renderer" where
  "gl c s = s\<lparr>calls := calls s @ [GL c]\<rparr>"

definition objectCall :: "nat \<Rightarrow> object_call \<Rightarrow> 'w renderer \<Rightarrow> 'w renderer" where
  "objectCall p c s = s\<lparr>calls := calls s @ [ObjectCall p c]\<rparr>"

definition callCaches :: "'w env \<Rightarrow> caches_call \<Rightarrow> 'w renderer \<Rightarrow> bool \<times> 'w renderer" where
  "callCaches E c s =
     (case cachesImpl E c (scissorEnabled (caches s)) (world s) of
        (b, sc, w') \<Rightarrow>
          (b, s\<lparr>calls := calls s @ [CachesCall c], world := w',
                caches := (caches s)\<lparr>scissorEnabled := sc\<rparr>\<rparr>))"

definition doCaches :: "'w env \<Rightarrow> caches_call \<Rightarrow> 'w renderer \<Rightarrow> 'w renderer" where
  "doCaches E c s = snd (callCaches E c s)"

definition dirtyClip :: "'w renderer \<Rightarrow> 'w renderer" where
  "dirtyClip s = s\<lparr>mDirtyClip := True\<rparr>"

subsection \<open>Interrupting and resuming the GL state\<close>

definition debugOverdraw :: "'w env \<Rightarrow> bool \<Rightarrow> bool \<Rightarrow> 'w renderer \<Rightarrow> 'w renderer" where
  "debugOverdraw E enable clear s =
     (if debugOverdrawFlag (caches s) \<and> getTargetFbo E = 0 then
        let s1 = (if clear
                  then doCaches E Caches_stencil_clear (doCaches E Caches_disableScissor s)
                  else s)
        in if enable then doCaches E Caches_stencil_enableDebugWrite s1
           else doCaches E Caches_stencil_disable s1
      else s)"

text \<open>
  Modelled from the spec: \<^verbatim>\<open>Program::isInUse\<close>, \<^verbatim>\<open>use\<close> and \<^verbatim>\<open>remove\<close>
  (\<^verbatim>\<open>Program.h\<close> is not among the sources): binding a program is a "no-op if already
  bound", so each program carries the flag \<open>programInUse\<close>.
\<close>

definition program_remove :: "nat \<Rightarrow> 'w renderer \<Rightarrow> 'w renderer" where
  "program_remove p s = (objectCall p Program_remove s)\<lparr>programInUse := (programInUse s)(p := False)\<rparr>"

definition program_use :: "nat \<Rightarrow> 'w renderer \<Rightarrow> 'w renderer" where
  "program_use p s = (objectCall p Program_use s)\<lparr>programInUse := (programInUse s)(p := True)\<rparr>"

definition setCurrentProgram :: "nat option \<Rightarrow> 'w renderer \<Rightarrow> 'w renderer" where
  "setCurrentProgram p s = s\<lparr>caches := (caches s)\<lparr>currentProgram := p\<rparr>\<rparr>"

definition interrupt :: "'w env \<Rightarrow> 'w renderer \<Rightarrow> 'w renderer" where
  "interrupt E s =
     (let s1 = (case currentProgram (caches s) of
                  None \<Rightarrow> s
                | Some p \<Rightarrow>
                    if programInUse s p then setCurrentProgram None (program_remove p s) else s);
          s2 = doCaches E Caches_unbindMeshBuffer s1;
          s3 = doCaches E Caches_unbindIndicesBuffer s2;
          s4 = doCaches E Caches_resetVertexPointers s3;
          s5 = doCaches E Caches_disableTexCoordsVertexArray s4
      in debugOverdraw E False False s5)"

definition currentOrFirst :: "'w renderer \<Rightarrow> Snapshot" where
  \<comment> \<open>\<^verbatim>\<open>(mSnapshot != NULL) ? mSnapshot : mFirstSnapshot\<close>\<close>
  "currentOrFirst s = (case mSnapshot s of [] \<Rightarrow> mFirstSnapshot s | sn # _ \<Rightarrow> sn)"

definition resume :: "'w env \<Rightarrow> 'w renderer \<Rightarrow> 'w renderer" where
  "resume E s =
     (let snapshot = currentOrFirst s;
          s1 = gl (glViewport 0 0 (getWidth (viewport snapshot)) (getHeight (viewport snapshot))) s;
          s2 = gl (glBindFramebuffer (fbo snapshot)) s1;
          s3 = debugOverdraw E True False s2;
          s4 = gl (glClearColor 0 0 0 0) s3;
          s5 = s4\<lparr>caches := (caches s4)\<lparr>scissorEnabled := glIsEnabled E GL_SCISSOR_TEST (world s4)\<rparr>\<rparr>;
          s6 = doCaches E Caches_enableScissor s5;
          s7 = doCaches E Caches_resetScissor s6;
          s8 = dirtyClip s7;
          s9 = doCaches E (Caches_activeTexture 0) s8;
          s10 = s9\<lparr>caches := (caches s9)\<lparr>blend := True\<rparr>\<rparr>;
          s11 = gl (glEnable GL_BLEND) s10;
          s12 = gl (glBlendFunc (lastSrcMode (caches s11)) (lastDstMode (caches s11))) s11
      in gl (glBlendEquation GL_FUNC_ADD) s12)"

subsection \<open>Functors\<close>

text \<open>
  \<^verbatim>\<open>mFunctors\<close> is a \<^verbatim>\<open>SortedVector<Functor*>\<close> (the container is not among the
  sources): it is kept as a list of addresses in increasing order, \<^verbatim>\<open>add\<close> puts an
  address in its place unless it is there already, \<^verbatim>\<open>remove\<close> takes it out.
\<close>

definition sortedVector_add :: "nat \<Rightarrow> nat list \<Rightarrow> nat list" where
  "sortedVector_add f fs = (if f \<in> set fs then fs else insort f fs)"

definition sortedVector_remove :: "nat \<Rightarrow> nat list \<Rightarrow> nat list" where
  "sortedVector_remove f fs = removeAll f fs"

definition detachFunctor :: "nat \<Rightarrow> 'w renderer \<Rightarrow> 'w renderer" where
  "detachFunctor f s = s\<lparr>mFunctors := sortedVector_remove f (mFunctors s)\<rparr>"

definition attachFunctor :: "nat \<Rightarrow> 'w renderer \<Rightarrow> 'w renderer" where
  "attachFunctor f s = s\<lparr>mFunctors := sortedVector_add f (mFunctors s)\<rparr>"

fun reenter :: "reentry list \<Rightarrow> 'w renderer \<Rightarrow> 'w renderer" where
  "reenter [] s = s"
| "reenter (Reenter_attachFunctor f # as) s = reenter as (attachFunctor f s)"
| "reenter (Reenter_detachFunctor f # as) s = reenter as (detachFunctor f s)"

definition invokeFunctor :: "'w env \<Rightarrow> nat \<Rightarrow> DrawMode \<Rightarrow> DrawGlInfo \<Rightarrow> 'w renderer
    \<Rightarrow> status_t \<times> DrawGlInfo \<times> 'w renderer" where
  \<comment> \<open>\<^verbatim>\<open>(*f)(mode, &info)\<close>: the call, then what the functor did to the renderer meanwhile\<close>
  "invokeFunctor E f m info s =
     (case functorImpl E f m info (world s) of
        (r, info', acts, w') \<Rightarrow>
          (r, info', reenter acts ((objectCall f (Functor_invoke m) s)\<lparr>world := w'\<rparr>)))"

definition localDirty :: "DrawGlInfo \<Rightarrow> Rect" where
  "localDirty info = mkRect (dirtyLeft info) (dirtyTop info) (dirtyRight info) (dirtyBottom info)"

text \<open>
  The loop of \<^verbatim>\<open>invokeFunctors\<close> over the copy \<^verbatim>\<open>functors\<close>, from index \<open>i\<close> on;
  \<open>result\<close>, \<open>info\<close> and \<open>dirty\<close> are the loop's variables of these names.
\<close>

fun invokeFunctors_loop :: "'w env \<Rightarrow> nat list \<Rightarrow> status_t \<Rightarrow> DrawGlInfo \<Rightarrow> Rect \<Rightarrow> 'w renderer
    \<Rightarrow> status_t \<times> DrawGlInfo \<times> Rect \<times> 'w renderer" where
  "invokeFunctors_loop E [] result info dirty s = (result, info, dirty, s)"
| "invokeFunctors_loop E (f # functors) result info dirty s =
     (case invokeFunctor E f kModeProcess info s of
        (r, info', s1) \<Rightarrow>
          let result' = result OR r;
              dirty' = (if result' AND kStatusDraw \<noteq> 0
                        then unionWith dirty (localDirty info') else dirty);
              s2 = (if result' AND kStatusInvoke \<noteq> 0 then attachFunctor f s1 else s1)
          in invokeFunctors_loop E functors result' info' dirty' s2)"

definition initialInfo :: "Rect \<Rightarrow> DrawGlInfo" where
  \<comment> \<open>the fields \<^verbatim>\<open>invokeFunctors\<close> sets; the dirty fields are whatever \<open>u\<close> holds\<close>
  "initialInfo u =
     \<lparr>clipLeft = 0, clipTop = 0, clipRight = 0, clipBottom = 0,
      info_width = 0, info_height = 0, isLayer = False, info_transform = replicate 16 0,
      dirtyLeft = left u, dirtyTop = topR u, dirtyRight = right u, dirtyBottom = bottom u\<rparr>"

definition invokeFunctors :: "'w env \<Rightarrow> Rect \<Rightarrow> Rect \<Rightarrow> 'w renderer
    \<Rightarrow> status_t \<times> Rect \<times> 'w renderer" where
  \<comment> \<open>\<open>u\<close>: the uninitialised dirty fields of the local \<^verbatim>\<open>DrawGlInfo\<close>\<close>
  "invokeFunctors E dirty u s =
     (let result = kStatusDone; count = length (mFunctors s) in
      if count > 0 then
        let s1 = interrupt E s;
            functors = mFunctors s1;
            s2 = s1\<lparr>mFunctors := []\<rparr>
        in case invokeFunctors_loop E functors result (initialInfo u) dirty s2 of
             (result', info', dirty', s3) \<Rightarrow> (result', dirty', resume E s3)
      else (result, dirty, s))"

fun invocations :: "event list \<Rightarrow> nat list" where
  "invocations [] = []"
| "invocations (ObjectCall f (Functor_invoke m) # es) = f # invocations es"
| "invocations (e # es) = invocations es"


subsection \<open>The current snapshot and the layer it draws into\<close>

text \<open>
  \<^verbatim>\<open>mSnapshot->\<close> reads the head of the chain. The public operations check that
  there is one before they start; \<open>current\<close> is only meaningful then.
\<close>

definition current :: "'w renderer \<Rightarrow> Snapshot" where
  "current s = hd (mSnapshot s)"

definition setFault :: "'w renderer \<Rightarrow> 'w renderer" where
  "setFault s = s\<lparr>fault := Some NullDereference\<rparr>"

definition updateCurrent :: "(Snapshot \<Rightarrow> Snapshot) \<Rightarrow> 'w renderer \<Rightarrow> 'w renderer" where
  \<comment> \<open>a write to the current snapshot; the only writes of this model that go through
      shared pointers are writes to the clip\<close>
  "updateCurrent f s =
     (case mSnapshot s of
        [] \<Rightarrow> setFault s
      | sn # rest \<Rightarrow> s\<lparr>mSnapshot := f sn # shareClip (f sn) rest\<rparr>)"

definition isDeferred :: bool where
  "isDeferred = False"

definition hasLayer :: "'w renderer \<Rightarrow> bool" where
  "hasLayer s \<longleftrightarrow> kFlagFboTarget \<in> flags (current s) \<and> region (current s) \<noteq> None"

definition updateLayerAt :: "nat \<Rightarrow> (Layer \<Rightarrow> Layer) \<Rightarrow> 'w renderer \<Rightarrow> 'w renderer" where
  "updateLayerAt a f s = s\<lparr>layerAt := (layerAt s)(a := f (layerAt s a))\<rparr>"

definition dirtyLayerUnchecked :: "'w env \<Rightarrow> Rect \<Rightarrow> nat option \<Rightarrow> 'w renderer \<Rightarrow> 'w renderer" where
  "dirtyLayerUnchecked E bounds rg s =
     (case intersectRect bounds (clipRect (current s)) of
        (hit, b) \<Rightarrow>
          if hit then
            let dirty = snapToPixelBoundaries b in
            if \<not> isEmptyRect dirty then
              (case rg of
                 None \<Rightarrow> setFault s
               | Some a \<Rightarrow> updateLayerAt a (\<lambda>L. L\<lparr>layer_region := region_orSelf E (layer_region L) dirty\<rparr>) s)
            else s
          else s)"

definition dirtyLayer_mapped :: "'w env \<Rightarrow> rat \<Rightarrow> rat \<Rightarrow> rat \<Rightarrow> rat \<Rightarrow> mat4
    \<Rightarrow> 'w renderer \<Rightarrow> 'w renderer" where
  \<comment> \<open>the overload that takes a transform\<close>
  "dirtyLayer_mapped E l t r b m s =
     (if hasLayer s
      then dirtyLayerUnchecked E (mapRect m (mkRect l t r b)) (region (current s)) s
      else s)"

definition dirtyLayer :: "'w env \<Rightarrow> rat \<Rightarrow> rat \<Rightarrow> rat \<Rightarrow> rat \<Rightarrow> 'w renderer \<Rightarrow> 'w renderer" where
  "dirtyLayer E l t r b s =
     (if hasLayer s then dirtyLayerUnchecked E (mkRect l t r b) (region (current s)) s else s)"

text \<open>
  Tiling: the rectangle handed to \<^verbatim>\<open>Caches::startTiling\<close> is not part of the logged
  call.
\<close>

definition startTiling :: "'w env \<Rightarrow> 'w renderer \<Rightarrow> 'w renderer" where
  "startTiling E s = (if \<not> mSuppressTiling s then doCaches E Caches_startTiling s else s)"

definition endTiling :: "'w env \<Rightarrow> 'w renderer \<Rightarrow> 'w renderer" where
  "endTiling E s = (if \<not> mSuppressTiling s then doCaches E Caches_endTiling s else s)"

subsection \<open>Scissor, stencil and quick rejection\<close>

definition setScissorFromClip :: "'w env \<Rightarrow> 'w renderer \<Rightarrow> 'w renderer" where
  "setScissorFromClip E s =
     (let clip = snapToPixelBoundaries (clipRect (current s)) in
      case callCaches E (Caches_setScissor (left clip) (of_int (height (current s)) - bottom clip)
                           (getWidth clip) (getHeight clip)) s of
        (changed, s1) \<Rightarrow> if changed then s1\<lparr>mDirtyClip := False\<rparr> else s1)"

definition attachStencilBufferToLayer :: "'w env \<Rightarrow> nat \<Rightarrow> 'w renderer \<Rightarrow> 'w renderer" where
  "attachStencilBufferToLayer E a s =
     (if layer_stencil (layerAt s a) = None then
        let s1 = endTiling E s in
        case renderBufferCache_get E (layer_width (layerAt s1 a)) (layer_height (layerAt s1 a)) (world s1) of
          (buffer, w') \<Rightarrow>
            let s2 = objectCall a Layer_setStencilRenderBuffer
                       (updateLayerAt a (\<lambda>L. L\<lparr>layer_stencil := buffer\<rparr>) (s1\<lparr>world := w'\<rparr>))
            in startTiling E s2
      else s)"

definition ensureStencilBuffer :: "'w env \<Rightarrow> 'w renderer \<Rightarrow> 'w renderer" where
  "ensureStencilBuffer E s =
     (if hasLayer s then
        (case layer (current s) of
           None \<Rightarrow> setFault s
         | Some a \<Rightarrow> attachStencilBufferToLayer E a s)
      else s)"

definition quickRejectNoScissor :: "rat \<Rightarrow> rat \<Rightarrow> rat \<Rightarrow> rat \<Rightarrow> 'w renderer \<Rightarrow> bool" where
  "quickRejectNoScissor l t r b s =
     (if isIgnored (current s) then True
      else
        let rr = snapToPixelBoundaries (mapRect (transform (current s)) (mkRect l t r b));
            clip = snapToPixelBoundaries (clipRect (current s))
        in \<not> intersects clip rr)"

definition quickReject :: "'w env \<Rightarrow> rat \<Rightarrow> rat \<Rightarrow> rat \<Rightarrow> rat \<Rightarrow> 'w renderer \<Rightarrow> bool \<times> 'w renderer" where
  "quickReject E l t r b s =
     (if isIgnored (current s) \<or> b \<le> t \<or> r \<le> l then (True, s)
      else
        let rr = snapToPixelBoundaries (mapRect (transform (current s)) (mkRect l t r b));
            clip = snapToPixelBoundaries (clipRect (current s));
            rejected = \<not> intersects clip rr
        in if \<not> isDeferred \<and> \<not> rejected
           then (rejected, doCaches E (Caches_setScissorEnabled
                             (mScissorOptimizationDisabled s \<or> \<not> containsRect clip rr)) s)
           else (rejected, s))"

subsection \<open>The draw setup pipeline\<close>

definition updateDescription :: "(ProgramDescription \<Rightarrow> ProgramDescription) \<Rightarrow> 'w renderer \<Rightarrow> 'w renderer" where
  "updateDescription f s = s\<lparr>mDescription := f (mDescription s)\<rparr>"

definition setupDrawWithTexture :: "bool \<Rightarrow> 'w renderer \<Rightarrow> 'w renderer" where
  "setupDrawWithTexture isAlpha8 s =
     updateDescription (\<lambda>d. d\<lparr>hasTexture := True, hasAlpha8Texture := isAlpha8\<rparr>) s"

definition setupDrawWithTextureAndColor :: "bool \<Rightarrow> 'w renderer \<Rightarrow> 'w renderer" where
  "setupDrawWithTextureAndColor isAlpha8 s =
     updateDescription (\<lambda>d. d\<lparr>hasTexture := True, hasColors := True, hasAlpha8Texture := isAlpha8\<rparr>) s"

definition setupDrawWithExternalTexture :: "'w renderer \<Rightarrow> 'w renderer" where
  "setupDrawWithExternalTexture s = updateDescription (\<lambda>d. d\<lparr>hasExternalTexture := True\<rparr>) s"

definition setupDrawNoTexture :: "'w env \<Rightarrow> 'w renderer \<Rightarrow> 'w renderer" where
  "setupDrawNoTexture E s = doCaches E Caches_disableTexCoordsVertexArray s"

definition setupDrawAA :: "'w renderer \<Rightarrow> 'w renderer" where
  "setupDrawAA s = updateDescription (\<lambda>d. d\<lparr>isAA := True\<rparr>) s"

definition setupDrawPoint :: "rat \<Rightarrow> 'w renderer \<Rightarrow> 'w renderer" where
  "setupDrawPoint sz s = updateDescription (\<lambda>d. d\<lparr>isPoint := True, pointSize := sz\<rparr>) s"

definition colorComponent :: "32 word \<Rightarrow> nat \<Rightarrow> rat" where
  \<comment> \<open>\<^verbatim>\<open>(color >> k) & 0xFF\<close>\<close>
  "colorComponent color k = of_nat (unat (drop_bit k color AND 0xFF))"

definition setColorFields :: "rat \<Rightarrow> rat \<Rightarrow> rat \<Rightarrow> rat \<Rightarrow> 'w renderer \<Rightarrow> 'w renderer" where
  "setColorFields r g b a s = s\<lparr>mColorA := a, mColorR := r, mColorG := g, mColorB := b, mColorSet := True\<rparr>"

definition setupDrawColor_float :: "'w env \<Rightarrow> rat \<Rightarrow> rat \<Rightarrow> rat \<Rightarrow> rat \<Rightarrow> 'w renderer \<Rightarrow> 'w renderer" where
  \<comment> \<open>\<^verbatim>\<open>setupDrawColor(float r, float g, float b, float a)\<close>\<close>
  "setupDrawColor_float E r g b a s =
     (let s1 = setColorFields r g b a s in
      case description_setColor E r g b a (mDescription s1) of
        (m, d) \<Rightarrow> s1\<lparr>mSetShaderColor := m, mDescription := d\<rparr>)"

definition setupDrawColor :: "'w env \<Rightarrow> 32 word \<Rightarrow> int \<Rightarrow> 'w renderer \<Rightarrow> 'w renderer" where
  \<comment> \<open>\<^verbatim>\<open>setupDrawColor(int color, int alpha)\<close>\<close>
  "setupDrawColor E color alpha' s =
     (let a = of_int alpha' / 255;
          r = a * colorComponent color 16 / 255;
          g = a * colorComponent color 8 / 255;
          b = a * colorComponent color 0 / 255
      in setupDrawColor_float E r g b a s)"

definition setupDrawAlpha8Color :: "'w env \<Rightarrow> 32 word \<Rightarrow> int \<Rightarrow> 'w renderer \<Rightarrow> 'w renderer" where
  "setupDrawAlpha8Color E color alpha' s =
     (let a = of_int alpha' / 255;
          r = a * colorComponent color 16 / 255;
          g = a * colorComponent color 8 / 255;
          b = a * colorComponent color 0 / 255;
          s1 = setColorFields r g b a s
      in case description_setAlpha8Color E r g b a (mDescription s1) of
           (m, d) \<Rightarrow> s1\<lparr>mSetShaderColor := m, mDescription := d\<rparr>)"

definition setupDrawShader :: "'w env \<Rightarrow> 'w renderer \<Rightarrow> 'w renderer" where
  "setupDrawShader E s =
     (case mShader s of None \<Rightarrow> s | Some sh \<Rightarrow> updateDescription (shader_describe E sh) s)"

definition setupDrawColorFilter :: "'w env \<Rightarrow> 'w renderer \<Rightarrow> 'w renderer" where
  "setupDrawColorFilter E s =
     (case mColorFilter s of None \<Rightarrow> s | Some cf \<Rightarrow> updateDescription (colorFilter_describe E cf) s)"

definition accountForClear :: "Mode \<Rightarrow> 'w renderer \<Rightarrow> 'w renderer" where
  "accountForClear m s =
     (if mColorSet s \<and> m = kClear_Mode then
        (updateDescription (\<lambda>d. d\<lparr>modulate := True\<rparr>) s)
          \<lparr>mColorA := 1, mColorR := 0, mColorG := 0, mColorB := 0, mSetShaderColor := True\<rparr>
      else s)"

definition setBlend :: "bool \<Rightarrow> 'w renderer \<Rightarrow> 'w renderer" where
  "setBlend b s = s\<lparr>caches := (caches s)\<lparr>blend := b\<rparr>\<rparr>"

definition setLastModes :: "GLenum \<Rightarrow> GLenum \<Rightarrow> 'w renderer \<Rightarrow> 'w renderer" where
  "setLastModes sm dm s = s\<lparr>caches := (caches s)\<lparr>lastSrcMode := sm, lastDstMode := dm\<rparr>\<rparr>"

definition chooseBlending :: "'w env \<Rightarrow> bool \<Rightarrow> Mode \<Rightarrow> bool \<Rightarrow> 'w renderer \<Rightarrow> 'w renderer" where
  "chooseBlending E blend0 mode0 swap s =
     (let blend' = blend0 \<or> mode0 \<noteq> kSrcOver_Mode in
      if blend' then
        if modeIndex mode0 > modeIndex kScreen_Mode \<and> hasFramebufferFetch E then
          let s1 = updateDescription (\<lambda>d. d\<lparr>framebufferMode := Some mode0, swapSrcDst := swap\<rparr>) s
          in if blend (caches s1) then setBlend False (gl (glDisable GL_BLEND) s1) else s1
        else
          let m = (if modeIndex mode0 > modeIndex kScreen_Mode then kSrcOver_Mode else mode0);
              s1 = (if \<not> blend (caches s) then gl (glEnable GL_BLEND) s else s);
              sourceMode = (if swap then src (gBlendsSwap ! modeIndex m) else src (gBlends ! modeIndex m));
              destMode = (if swap then dst (gBlendsSwap ! modeIndex m) else dst (gBlends ! modeIndex m));
              s2 = (if sourceMode \<noteq> lastSrcMode (caches s1) \<or> destMode \<noteq> lastDstMode (caches s1)
                    then setLastModes sourceMode destMode (gl (glBlendFunc sourceMode destMode) s1)
                    else s1)
          in setBlend blend' s2
      else
        setBlend blend' (if blend (caches s) then gl (glDisable GL_BLEND) s else s))"

definition shaderBlends :: "'w env \<Rightarrow> 'w renderer \<Rightarrow> bool" where
  \<comment> \<open>\<^verbatim>\<open>mDrawModifiers.mShader && mDrawModifiers.mShader->blend()\<close>\<close>
  "shaderBlends E s = (case mShader s of None \<Rightarrow> False | Some sh \<Rightarrow> shader_blend E sh)"

definition colorFilterBlends :: "'w env \<Rightarrow> 'w renderer \<Rightarrow> bool" where
  "colorFilterBlends E s = (case mColorFilter s of None \<Rightarrow> False | Some cf \<Rightarrow> colorFilter_blend E cf)"

definition setupDrawBlending_mode :: "'w env \<Rightarrow> Mode \<Rightarrow> bool \<Rightarrow> 'w renderer \<Rightarrow> 'w renderer" where
  \<comment> \<open>\<^verbatim>\<open>setupDrawBlending(SkXfermode::Mode mode, bool swapSrcDst)\<close>\<close>
  "setupDrawBlending_mode E m swap s =
     (let s1 = accountForClear m s;
          blend' = (mColorSet s1 \<and> mColorA s1 < 1) \<or> shaderBlends E s1
      in chooseBlending E blend' m swap s1)"

definition setupDrawBlending :: "'w env \<Rightarrow> bool \<Rightarrow> Mode \<Rightarrow> bool \<Rightarrow> 'w renderer \<Rightarrow> 'w renderer" where
  \<comment> \<open>\<^verbatim>\<open>setupDrawBlending(bool blend, SkXfermode::Mode mode, bool swapSrcDst)\<close>\<close>
  "setupDrawBlending E blend0 m swap s =
     (let s1 = accountForClear m s;
          blend' = blend0 \<or> (mColorSet s1 \<and> mColorA s1 < 1) \<or> shaderBlends E s1 \<or> colorFilterBlends E s1
      in chooseBlending E blend' m swap s1)"

definition useProgram :: "nat \<Rightarrow> 'w renderer \<Rightarrow> bool \<times> 'w renderer" where
  "useProgram p s =
     (if \<not> programInUse s p then
        let s1 = (case currentProgram (caches s) of None \<Rightarrow> s | Some q \<Rightarrow> program_remove q s)
        in (False, setCurrentProgram (Some p) (program_use p s1))
      else (True, s))"

definition setupDrawProgram :: "'w env \<Rightarrow> 'w renderer \<Rightarrow> 'w renderer" where
  "setupDrawProgram E s =
     (case programCache_get E (mDescription s) (world s) of
        (p, w') \<Rightarrow> snd (useProgram p (s\<lparr>world := w'\<rparr>)))"

definition setupDrawDirtyRegionsDisabled :: "'w renderer \<Rightarrow> 'w renderer" where
  "setupDrawDirtyRegionsDisabled s = s\<lparr>mTrackDirtyRegions := False\<rparr>"

definition withProgram :: "(nat \<Rightarrow> 'w renderer \<Rightarrow> 'w renderer) \<Rightarrow> 'w renderer \<Rightarrow> 'w renderer" where
  \<comment> \<open>\<^verbatim>\<open>mCaches.currentProgram->\<close>\<close>
  "withProgram f s = (case currentProgram (caches s) of None \<Rightarrow> setFault s | Some p \<Rightarrow> f p s)"

definition setupDrawModelViewTranslate :: "'w env \<Rightarrow> rat \<Rightarrow> rat \<Rightarrow> rat \<Rightarrow> rat \<Rightarrow> bool
    \<Rightarrow> 'w renderer \<Rightarrow> 'w renderer" where
  "setupDrawModelViewTranslate E l t r b ignoreTransform s =
     (let s1 = s\<lparr>mModelView := MatTranslate l t 0\<rparr> in
      if \<not> ignoreTransform then
        let s2 = withProgram (\<lambda>p. objectCall p (Program_set (mOrthoMatrix s1) (mModelView s1) True False)) s1
        in if mTrackDirtyRegions s2 then dirtyLayer_mapped E l t r b (transform (current s2)) s2 else s2
      else
        let s2 = withProgram (\<lambda>p. objectCall p (Program_set (mOrthoMatrix s1) (mModelView s1) False False)) s1
        in if mTrackDirtyRegions s2 then dirtyLayer E l t r b s2 else s2)"

definition setupDrawModelViewIdentity :: "bool \<Rightarrow> 'w renderer \<Rightarrow> 'w renderer" where
  "setupDrawModelViewIdentity offset s =
     withProgram (\<lambda>p. objectCall p (Program_set (mOrthoMatrix s) MatIdentity True offset)) s"

definition setupDrawModelView :: "'w env \<Rightarrow> rat \<Rightarrow> rat \<Rightarrow> rat \<Rightarrow> rat \<Rightarrow> bool \<Rightarrow> bool
    \<Rightarrow> 'w renderer \<Rightarrow> 'w renderer" where
  "setupDrawModelView E l t r b ignoreTransform ignoreModelView s =
     (let s1 = (if \<not> ignoreModelView
                then s\<lparr>mModelView := MatTranslateScale l t 0 (r - l) (b - t) 1\<rparr>
                else s\<lparr>mModelView := MatIdentity\<rparr>);
          dirty = (r - l > 0 \<and> b - t > 0)
      in if \<not> ignoreTransform then
           let s2 = withProgram (\<lambda>p. objectCall p (Program_set (mOrthoMatrix s1) (mModelView s1) True False)) s1
           in if mTrackDirtyRegions s2 \<and> dirty
              then dirtyLayer_mapped E l t r b (transform (current s2)) s2 else s2
         else
           let s2 = withProgram (\<lambda>p. objectCall p (Program_set (mOrthoMatrix s1) (mModelView s1) False False)) s1
           in if mTrackDirtyRegions s2 \<and> dirty then dirtyLayer E l t r b s2 else s2)"

definition setupDrawPointUniforms :: "'w renderer \<Rightarrow> 'w renderer" where
  "setupDrawPointUniforms s = withProgram (\<lambda>p. gl (glUniform1f (pointSize (mDescription s)))) s"

definition programSetColor :: "'w renderer \<Rightarrow> 'w renderer" where
  "programSetColor s =
     withProgram (\<lambda>p. objectCall p (Program_setColor (mColorR s) (mColorG s) (mColorB s) (mColorA s))) s"

definition setupDrawColorUniforms :: "'w renderer \<Rightarrow> 'w renderer" where
  "setupDrawColorUniforms s =
     (if (mColorSet s \<and> mShader s = None) \<or> (mShader s \<noteq> None \<and> mSetShaderColor s)
      then programSetColor s else s)"

definition setupDrawPureColorUniforms :: "'w renderer \<Rightarrow> 'w renderer" where
  "setupDrawPureColorUniforms s = (if mSetShaderColor s then programSetColor s else s)"

definition setupDrawShaderUniforms :: "'w env \<Rightarrow> bool \<Rightarrow> 'w renderer \<Rightarrow> 'w renderer" where
  "setupDrawShaderUniforms E ignoreTransform s =
     (case mShader s of
        None \<Rightarrow> s
      | Some sh \<Rightarrow>
          let s1 = (if ignoreTransform then s\<lparr>mModelView := MatInverseOfTransform\<rparr> else s);
              s2 = objectCall sh (Shader_setupProgram (mModelView s1) (mTextureUnit s1)) s1
          in s2\<lparr>mTextureUnit := shader_textureUnit E sh (mTextureUnit s2)\<rparr>)"

definition setupDrawShaderIdentityUniforms :: "'w env \<Rightarrow> 'w renderer \<Rightarrow> 'w renderer" where
  "setupDrawShaderIdentityUniforms E s =
     (case mShader s of
        None \<Rightarrow> s
      | Some sh \<Rightarrow>
          let s2 = objectCall sh (Shader_setupProgramIdentity (mTextureUnit s)) s
          in s2\<lparr>mTextureUnit := shader_textureUnit E sh (mTextureUnit s2)\<rparr>)"

definition setupDrawColorFilterUniforms :: "'w renderer \<Rightarrow> 'w renderer" where
  "setupDrawColorFilterUniforms s =
     (case mColorFilter s of None \<Rightarrow> s | Some cf \<Rightarrow> objectCall cf ColorFilter_setupProgram s)"

definition setupDrawSimpleMesh :: "'w env \<Rightarrow> 'w renderer \<Rightarrow> 'w renderer" where
  "setupDrawSimpleMesh E s =
     (case callCaches E (Caches_bindMeshBuffer None) s of
        (force, s1) \<Rightarrow>
          doCaches E Caches_unbindIndicesBuffer (doCaches E (Caches_bindPositionVertexPointer force) s1))"

definition setupDrawTexture :: "'w env \<Rightarrow> nat \<Rightarrow> 'w renderer \<Rightarrow> 'w renderer" where
  "setupDrawTexture E texture s =
     (let s1 = gl (glBindTexture GL_TEXTURE_2D texture) s;
          s2 = s1\<lparr>mTextureUnit := mTextureUnit s1 + 1\<rparr>
      in doCaches E Caches_enableTexCoordsVertexArray s2)"

definition setupDrawExternalTexture :: "'w env \<Rightarrow> nat \<Rightarrow> 'w renderer \<Rightarrow> 'w renderer" where
  "setupDrawExternalTexture E texture s =
     (let s1 = gl (glBindTexture GL_TEXTURE_EXTERNAL_OES texture) s;
          s2 = s1\<lparr>mTextureUnit := mTextureUnit s1 + 1\<rparr>
      in doCaches E Caches_enableTexCoordsVertexArray s2)"

definition setupDrawTextureTransform :: "'w renderer \<Rightarrow> 'w renderer" where
  "setupDrawTextureTransform s = updateDescription (\<lambda>d. d\<lparr>hasTextureTransform := True\<rparr>) s"

definition setupDrawTextureTransformUniforms :: "'w renderer \<Rightarrow> 'w renderer" where
  "setupDrawTextureTransformUniforms s = withProgram (\<lambda>p. gl glUniformMatrix4fv) s"

definition bindTexCoordsIfUsed :: "'w env \<Rightarrow> bool \<Rightarrow> 'w renderer \<Rightarrow> 'w renderer" where
  \<comment> \<open>\<^verbatim>\<open>if (mCaches.currentProgram->texCoords >= 0) bindTexCoordsVertexPointer(force, ...)\<close>\<close>
  "bindTexCoordsIfUsed E force s =
     withProgram (\<lambda>p s'. if program_texCoords E p \<ge> 0
                         then doCaches E (Caches_bindTexCoordsVertexPointer force) s' else s') s"

definition setupDrawMesh :: "'w env \<Rightarrow> bool \<Rightarrow> nat \<Rightarrow> 'w renderer \<Rightarrow> 'w renderer" where
  \<comment> \<open>\<open>vertices\<close>: whether the vertex pointer is not null; \<open>vbo\<close>: the buffer, 0 for none\<close>
  "setupDrawMesh E vertices vbo s =
     (case (if \<not> vertices
            then callCaches E (Caches_bindMeshBuffer (if vbo = 0 then None else Some vbo)) s
            else callCaches E Caches_unbindMeshBuffer s) of
        (force, s1) \<Rightarrow>
          let s2 = doCaches E (Caches_bindPositionVertexPointer force) s1;
              s3 = bindTexCoordsIfUsed E force s2
          in doCaches E Caches_unbindIndicesBuffer s3)"

definition setupDrawMesh_colors :: "'w env \<Rightarrow> 'w renderer \<Rightarrow> 'w renderer" where
  \<comment> \<open>\<^verbatim>\<open>setupDrawMesh(GLvoid* vertices, GLvoid* texCoords, GLvoid* colors)\<close>\<close>
  "setupDrawMesh_colors E s =
     (case callCaches E Caches_unbindMeshBuffer s of
        (force, s1) \<Rightarrow>
          let s2 = doCaches E (Caches_bindPositionVertexPointer force) s1;
              s3 = bindTexCoordsIfUsed E force s2;
              s4 = withProgram (\<lambda>p s'.
                     let slot = program_getAttrib E p in
                     if slot \<ge> 0
                     then gl (glVertexAttribPointer slot) (gl (glEnableVertexAttribArray slot) s')
                     else s') s3
          in doCaches E Caches_unbindIndicesBuffer s4)"

definition setupDrawMeshIndices :: "'w env \<Rightarrow> 'w renderer \<Rightarrow> 'w renderer" where
  "setupDrawMeshIndices E s =
     (case callCaches E Caches_unbindMeshBuffer s of
        (force, s1) \<Rightarrow>
          bindTexCoordsIfUsed E force (doCaches E (Caches_bindPositionVertexPointer force) s1))"

definition setupDrawVertices :: "'w env \<Rightarrow> 'w renderer \<Rightarrow> 'w renderer" where
  "setupDrawVertices E s =
     (case callCaches E Caches_unbindMeshBuffer s of
        (force, s1) \<Rightarrow>
          doCaches E Caches_unbindIndicesBuffer (doCaches E (Caches_bindPositionVertexPointer force) s1))"

definition finishDrawTexture :: "'w renderer \<Rightarrow> 'w renderer" where
  "finishDrawTexture s = s"

definition FLT_MAX :: rat where
  "FLT_MAX = 340282346638528859811704183484516925440"

definition FLT_MIN :: rat where
  "FLT_MIN = 1 / 2 ^ 126"

text \<open>
  The first loop of \<^verbatim>\<open>drawColorRects\<close>: it keeps a rectangle unless the bounds
  accumulated so far are rejected, and returns the bounds and the number of vertices.
\<close>

fun drawColorRects_loop :: "bool \<Rightarrow> 'w renderer \<Rightarrow> Rect list \<Rightarrow> Rect \<times> int \<Rightarrow> Rect \<times> int" where
  "drawColorRects_loop ignoreTransform s [] acc = acc"
| "drawColorRects_loop ignoreTransform s (rc # rects) (bounds, vertexCount) =
     (if ignoreTransform \<or>
         \<not> quickRejectNoScissor (left bounds) (topR bounds) (right bounds) (bottom bounds) s
      then drawColorRects_loop ignoreTransform s rects
             (mkRect (min (left bounds) (left rc)) (min (topR bounds) (topR rc))
                     (max (right bounds) (right rc)) (max (bottom bounds) (bottom rc)),
              vertexCount + 6)
      else drawColorRects_loop ignoreTransform s rects (bounds, vertexCount))"

definition resetDrawState :: "'w env \<Rightarrow> 'w renderer \<Rightarrow> 'w renderer" where
  \<comment> \<open>the assignments that end \<^verbatim>\<open>setupDraw\<close>\<close>
  "resetDrawState E s =
     s\<lparr>mDescription := description_reset
          \<lparr>hasDebugHighlight := \<not> debugOverdrawFlag (caches s)
              \<and> debugStencilClip (caches s) = kStencilShowHighlight
              \<and> stencil_isTestEnabled E (world s)\<rparr>,
       mSetShaderColor := False, mColorSet := False,
       mColorA := 0, mColorR := 0, mColorG := 0, mColorB := 0,
       mTextureUnit := 0, mTrackDirtyRegions := True\<rparr>"

definition stencilPrepare :: "'w env \<Rightarrow> 'w renderer \<Rightarrow> 'w renderer" where
  \<comment> \<open>\<^verbatim>\<open>setStencilFromClip\<close> up to the first draw of the region\<close>
  "stencilPrepare E s =
     (let s1 = s\<lparr>mDirtyClip := False\<rparr>;
          s2 = ensureStencilBuffer E s1;
          s3 = doCaches E Caches_stencil_enableWrite s2
      in case callCaches E Caches_enableScissor s3 of
           (resetScissor, s4) \<Rightarrow>
             let s5 = (if resetScissor then setScissorFromClip E s4 else s4);
                 s6 = doCaches E Caches_stencil_clear s5
             in if resetScissor then doCaches E Caches_disableScissor s6 else s6)"

text \<open>
  \<^verbatim>\<open>setupDraw\<close> calls \<^verbatim>\<open>clearLayerRegions\<close> and \<^verbatim>\<open>setStencilFromClip\<close>, which draw
  and so call \<^verbatim>\<open>setupDraw\<close> again. The recursion ends because \<^verbatim>\<open>clearLayerRegions\<close>
  empties \<^verbatim>\<open>mLayers\<close> and \<^verbatim>\<open>setStencilFromClip\<close> resets \<^verbatim>\<open>mDirtyClip\<close> before
  they draw. Two tests below are not in the source: \<open>mDirtyClip s\<close> in \<open>setupDraw\<close> and
  \<open>\<not> mDirtyClip s2\<close> in \<open>setStencilFromClip\<close>. They make the termination argument
  independent of what the inner draws return; the lemmas \<open>setupDraw_source\<close> and
  \<open>setStencilFromClip_source\<close> show that both are redundant.
\<close>

definition pendingWork :: "bool \<Rightarrow> 'w renderer \<Rightarrow> nat" where
  \<comment> \<open>what a draw may still have to do before it draws: apply the clip, clear the layers\<close>
  "pendingWork clear s =
     (if mDirtyClip s then 7 else 0) + (if clear \<and> mLayers s \<noteq> [] then 3 else 0)"

function setupDraw :: "'w env \<Rightarrow> bool \<Rightarrow> 'w renderer \<Rightarrow> 'w renderer"
  and clearLayerRegions :: "'w env \<Rightarrow> 'w renderer \<Rightarrow> 'w renderer"
  and setStencilFromClip :: "'w env \<Rightarrow> 'w renderer \<Rightarrow> 'w renderer"
  and drawRegionRects :: "'w env \<Rightarrow> Rect list \<Rightarrow> 32 word \<Rightarrow> Mode \<Rightarrow> bool \<Rightarrow> 'w renderer \<Rightarrow> 'w renderer"
  and drawColorRects :: "'w env \<Rightarrow> Rect list \<Rightarrow> 32 word \<Rightarrow> Mode \<Rightarrow> bool \<Rightarrow> bool \<Rightarrow> bool
        \<Rightarrow> 'w renderer \<Rightarrow> status_t \<times> 'w renderer"
where
  "setupDraw E clear s =
     (let s1 = (if clear then clearLayerRegions E s else s);
          s2 = (if mDirtyClip s1 \<and> mDirtyClip s then
                  setStencilFromClip E
                    (if scissorEnabled (caches s1) then setScissorFromClip E s1 else s1)
                else s1)
      in resetDrawState E s2)"
| "clearLayerRegions E s =
     (let count = length (mLayers s) in
      if count = 0 then s
      else if \<not> isIgnored (current s) then
        (case callCaches E Caches_disableScissor s of
           (scissorChanged, s1) \<Rightarrow>
             let s2 = s1\<lparr>mLayers := []\<rparr>;
                 s3 = setupDraw E False s2;
                 s4 = setupDrawColor_float E 0 0 0 1 s3;
                 s5 = setupDrawBlending E True kClear_Mode False s4;
                 s6 = setupDrawProgram E s5;
                 s7 = setupDrawPureColorUniforms s6;
                 s8 = setupDrawModelViewTranslate E 0 0 0 0 True s7;
                 s9 = setupDrawVertices E s8;
                 s10 = gl (glDrawArrays GL_TRIANGLES 0 (int count * 6)) s9
             in if scissorChanged then doCaches E Caches_enableScissor s10 else s10)
      else s\<lparr>mLayers := []\<rparr>)"
| "setStencilFromClip E s =
     (if \<not> debugOverdrawFlag (caches s) then
        if clipRegion (current s) \<noteq> [] then
          let s1 = drawRegionRects E (clipRegion (current s)) 0xff000000 kSrc_Mode False
                     (stencilPrepare E s);
              s2 = doCaches E Caches_stencil_enableTest s1
          in if debugStencilClip (caches s2) = kStencilShowRegion \<and> \<not> mDirtyClip s2
             then drawRegionRects E (clipRegion (current s2)) 0x7f0000ff kSrcOver_Mode True s2
             else s2
        else doCaches E Caches_stencil_disable s
      else s)"
| "drawRegionRects E rg color m dirty s =
     snd (drawColorRects E rg color m True dirty False s)"
| "drawColorRects E rects color m ignoreTransform dirty clip s =
     (case drawColorRects_loop ignoreTransform s rects (mkRect FLT_MAX FLT_MAX FLT_MIN FLT_MIN, 0) of
        (bounds, vertexCount) \<Rightarrow>
          (case (if rects = [] then (True, s)
                 else if clip
                 then quickReject E (left bounds) (topR bounds) (right bounds) (bottom bounds) s
                 else (False, s)) of
             (done, s0) \<Rightarrow>
               if done then (kStatusDone, s0)
               else
                 let s1 = setupDraw E True s0;
                     s2 = setupDrawNoTexture E s1;
                     s3 = setupDrawColor E color
                            (float_to_int (colorComponent color 24 * alpha (current s2))) s2;
                     s4 = setupDrawShader E s3;
                     s5 = setupDrawColorFilter E s4;
                     s6 = setupDrawBlending_mode E m False s5;
                     s7 = setupDrawProgram E s6;
                     s8 = setupDrawDirtyRegionsDisabled s7;
                     s9 = setupDrawModelView E 0 0 1 1 ignoreTransform True s8;
                     s10 = setupDrawColorUniforms s9;
                     s11 = setupDrawShaderUniforms E False s10;
                     s12 = setupDrawColorFilterUniforms s11;
                     s13 = setupDrawVertices E s12;
                     s14 = (if dirty \<and> hasLayer s13
                            then dirtyLayer_mapped E (left bounds) (topR bounds) (right bounds)
                                   (bottom bounds) (transform (current s13)) s13
                            else s13)
                 in (kStatusDrew, gl (glDrawArrays GL_TRIANGLES 0 vertexCount) s14)))"
  by pat_completeness auto

termination
proof (relation "measure (\<lambda>x. case x of
          Inl (Inl (E, clear, s)) \<Rightarrow> pendingWork clear s + 1
        | Inl (Inr (E, s)) \<Rightarrow> pendingWork True s
        | Inr (Inl (E, s)) \<Rightarrow> 7
        | Inr (Inr (Inl (E, rg, color, m, dirty, s))) \<Rightarrow> pendingWork True s + 3
        | Inr (Inr (Inr (E, rects, color, m, ignoreTransform, dirty, clip, s))) \<Rightarrow>
            pendingWork True s + 2)", goal_cases)
  case 1
  show ?case by simp
next
  case (2 E clear s)
  then show ?case by (simp add: pendingWork_def)
next
  case (3 E clear s x)
  then show ?case by (simp add: pendingWork_def)
next
  case (4 E s x xa y xb)
  then have "mDirtyClip xb = mDirtyClip s" and "mLayers xb = []"
    by (auto simp: callCaches_def split: prod.splits)
  with 4 show ?case by (simp add: pendingWork_def)
next
  case (5 E s)
  have call: "mDirtyClip (snd (callCaches E c t)) = mDirtyClip t" for c and t :: "'a renderer"
    by (simp add: callCaches_def split: prod.splits)
  have do: "mDirtyClip (doCaches E c t) = mDirtyClip t" for c and t :: "'a renderer"
    by (simp add: doCaches_def call)
  have tiling: "mDirtyClip (endTiling E t) = mDirtyClip t"
               "mDirtyClip (startTiling E t) = mDirtyClip t" for t :: "'a renderer"
    by (simp_all add: endTiling_def startTiling_def do)
  have attach: "mDirtyClip (attachStencilBufferToLayer E a t) = mDirtyClip t"
    for a and t :: "'a renderer"
    by (simp add: attachStencilBufferToLayer_def Let_def tiling objectCall_def updateLayerAt_def
        split: prod.splits)
  have ensure: "mDirtyClip (ensureStencilBuffer E t) = mDirtyClip t" for t :: "'a renderer"
    by (simp add: ensureStencilBuffer_def attach setFault_def split: option.splits)
  have scissor: "\<not> mDirtyClip t \<Longrightarrow> \<not> mDirtyClip (setScissorFromClip E t)" for t :: "'a renderer"
    using call [of _ t]
    by (auto simp: setScissorFromClip_def Let_def split: prod.splits) (metis snd_conv)
  have "\<not> mDirtyClip (stencilPrepare E s)"
  proof -
    let ?s3 = "doCaches E Caches_stencil_enableWrite (ensureStencilBuffer E (s\<lparr>mDirtyClip := False\<rparr>))"
    have s3: "\<not> mDirtyClip ?s3" by (simp add: do ensure)
    obtain resetScissor s4 where c: "callCaches E Caches_enableScissor ?s3 = (resetScissor, s4)"
      by (cases "callCaches E Caches_enableScissor ?s3") auto
    have s4: "\<not> mDirtyClip s4" using call [of Caches_enableScissor ?s3] c s3 by simp
    have "\<not> mDirtyClip (if resetScissor then setScissorFromClip E s4 else s4)"
      using s4 scissor by simp
    then show ?thesis
      using c by (auto simp: stencilPrepare_def Let_def do split: if_splits)
  qed
  then show ?case by (simp add: pendingWork_def)
next
  case (6 E s x xa)
  then show ?case by (simp add: pendingWork_def)
next
  case (7 E rg color m dirty s)
  show ?case by simp
next
  case (8 E rects color m ignoreTransform dirty clip s x y xa ya)
  then have "mDirtyClip ya = mDirtyClip s" and "mLayers ya = mLayers s"
    by (auto simp: quickReject_def doCaches_def callCaches_def Let_def split: prod.splits if_splits)
  then show ?case by (simp add: pendingWork_def)
qed

declare setupDraw.simps [simp del]
declare clearLayerRegions.simps [simp del]
declare setStencilFromClip.simps [simp del]
declare drawRegionRects.simps [simp del]
declare drawColorRects.simps [simp del]


subsection \<open>Drawing implementation\<close>

definition gMeshCount :: int where
  \<comment> \<open>the unit quad of \<^verbatim>\<open>mMeshVertices\<close> has four vertices\<close>
  "gMeshCount = 4"

definition requireSnapshot :: "'w renderer \<Rightarrow> 'w renderer" where
  \<comment> \<open>a dereference of \<^verbatim>\<open>mSnapshot\<close> follows\<close>
  "requireSnapshot s = (if mSnapshot s = [] then setFault s else s)"

definition resetDrawTextureTexCoords :: "rat \<Rightarrow> rat \<Rightarrow> rat \<Rightarrow> rat \<Rightarrow> 'w renderer \<Rightarrow> 'w renderer" where
  "resetDrawTextureTexCoords u1 v1 u2 v2 s =
     s\<lparr>mMeshTexCoords := [(u1, v1), (u2, v1), (u1, v2), (u2, v2)]\<rparr>"

definition getAlphaAndModeDirect :: "SkPaint option \<Rightarrow> int \<times> Mode" where
  "getAlphaAndModeDirect paint =
     (case paint of None \<Rightarrow> (255, kSrcOver_Mode) | Some p \<Rightarrow> (paint_alpha p, paint_xfermode p))"

definition getAlphaAndMode :: "SkPaint option \<Rightarrow> 'w renderer \<Rightarrow> int \<times> Mode" where
  "getAlphaAndMode paint s =
     (case getAlphaAndModeDirect paint of
        (a, m) \<Rightarrow> (float_to_int (of_int a * alpha (current s)), m))"

definition FILTER :: "SkPaint option \<Rightarrow> GLenum" where
  "FILTER paint =
     (case paint of
        None \<Rightarrow> GL_LINEAR
      | Some p \<Rightarrow> if paint_filterBitmap p then GL_LINEAR else GL_NEAREST)"

definition drawColorRect :: "'w env \<Rightarrow> rat \<Rightarrow> rat \<Rightarrow> rat \<Rightarrow> rat \<Rightarrow> 32 word \<Rightarrow> Mode \<Rightarrow> bool
    \<Rightarrow> 'w renderer \<Rightarrow> 'w renderer" where
  "drawColorRect E l t r b color0 m ignoreTransform s =
     (let color = (if mShader s \<noteq> None then color0 OR 0x00ffffff else color0);
          s1 = setupDraw E True s;
          s2 = setupDrawNoTexture E s1;
          s3 = setupDrawColor E color (float_to_int (colorComponent color 24 * alpha (current s2))) s2;
          s4 = setupDrawShader E s3;
          s5 = setupDrawColorFilter E s4;
          s6 = setupDrawBlending_mode E m False s5;
          s7 = setupDrawProgram E s6;
          s8 = setupDrawModelView E l t r b ignoreTransform False s7;
          s9 = setupDrawColorUniforms s8;
          s10 = setupDrawShaderUniforms E ignoreTransform s9;
          s11 = setupDrawColorFilterUniforms s10;
          s12 = setupDrawSimpleMesh E s11
      in gl (glDrawArrays GL_TRIANGLE_STRIP 0 gMeshCount) s12)"

definition drawTextureMesh :: "'w env \<Rightarrow> rat \<Rightarrow> rat \<Rightarrow> rat \<Rightarrow> rat \<Rightarrow> nat \<Rightarrow> rat \<Rightarrow> Mode \<Rightarrow> bool
    \<Rightarrow> bool \<Rightarrow> GLenum \<Rightarrow> int \<Rightarrow> bool \<Rightarrow> bool \<Rightarrow> nat \<Rightarrow> bool \<Rightarrow> bool
    \<Rightarrow> 'w renderer \<Rightarrow> 'w renderer" where
  "drawTextureMesh E l t r b texture a m blend0 vertices drawMode elementsCount
       swap ignoreTransform vbo ignoreScale dirty s =
     (let s1 = setupDraw E True s;
          s2 = setupDrawWithTexture False s1;
          s3 = setupDrawColor_float E a a a a s2;
          s4 = setupDrawColorFilter E s3;
          s5 = setupDrawBlending E blend0 m swap s4;
          s6 = setupDrawProgram E s5;
          s7 = (if \<not> dirty then setupDrawDirtyRegionsDisabled s6 else s6);
          s8 = (if \<not> ignoreScale
                then setupDrawModelView E l t r b ignoreTransform False s7
                else setupDrawModelViewTranslate E l t r b ignoreTransform s7);
          s9 = setupDrawTexture E texture s8;
          s10 = setupDrawPureColorUniforms s9;
          s11 = setupDrawColorFilterUniforms s10;
          s12 = setupDrawMesh E vertices vbo s11
      in finishDrawTexture (gl (glDrawArrays drawMode 0 elementsCount) s12))"

definition drawAlpha8TextureMesh :: "'w env \<Rightarrow> rat \<Rightarrow> rat \<Rightarrow> rat \<Rightarrow> rat \<Rightarrow> nat \<Rightarrow> bool \<Rightarrow> 32 word
    \<Rightarrow> int \<Rightarrow> Mode \<Rightarrow> bool \<Rightarrow> GLenum \<Rightarrow> int \<Rightarrow> bool \<Rightarrow> bool
    \<Rightarrow> 'w renderer \<Rightarrow> 'w renderer" where
  "drawAlpha8TextureMesh E l t r b texture hasColor color a m vertices drawMode elementsCount
       ignoreTransform dirty s =
     (let s1 = setupDraw E True s;
          s2 = setupDrawWithTexture True s1;
          s3 = (if hasColor then setupDrawAlpha8Color E color a s2 else s2);
          s4 = setupDrawColorFilter E s3;
          s5 = setupDrawShader E s4;
          s6 = setupDrawBlending E True m False s5;
          s7 = setupDrawProgram E s6;
          s8 = (if \<not> dirty then setupDrawDirtyRegionsDisabled s7 else s7);
          s9 = setupDrawModelView E l t r b ignoreTransform False s8;
          s10 = setupDrawTexture E texture s9;
          s11 = setupDrawPureColorUniforms s10;
          s12 = setupDrawColorFilterUniforms s11;
          s13 = setupDrawShaderUniforms E False s12;
          s14 = setupDrawMesh E vertices 0 s13
      in finishDrawTexture (gl (glDrawArrays drawMode 0 elementsCount) s14))"

text \<open>
  \<^verbatim>\<open>drawTextureRect(left, top, right, bottom, Texture* texture, SkPaint* paint)\<close> and
  \<^verbatim>\<open>drawAlphaBitmap\<close> use \<^verbatim>\<open>texture->\<close> without a test; the texture is the pair of
  its address and its fields, or \<open>None\<close> for null.
\<close>

definition pixelSnap :: "rat \<Rightarrow> rat" where
  \<comment> \<open>\<^verbatim>\<open>(int) floorf(x + 0.5f)\<close>\<close>
  "pixelSnap x = of_int \<lfloor>x + 1/2\<rfloor>"

definition drawTextureRect :: "'w env \<Rightarrow> rat \<Rightarrow> rat \<Rightarrow> rat \<Rightarrow> rat \<Rightarrow> (nat \<times> Texture) option
    \<Rightarrow> SkPaint option \<Rightarrow> 'w renderer \<Rightarrow> 'w renderer" where
  "drawTextureRect E l t r b texture paint s =
     (case getAlphaAndMode paint s of
        (a, m) \<Rightarrow>
          (case texture of
             None \<Rightarrow> setFault s
           | Some (ta, tex) \<Rightarrow>
               let s1 = objectCall ta (Texture_setWrap GL_CLAMP_TO_EDGE) s in
               if isPureTranslate (transform (current s1)) then
                 let x = pixelSnap (l + getTranslateX (transform (current s1)));
                     y = pixelSnap (t + getTranslateY (transform (current s1)));
                     s2 = objectCall ta (Texture_setFilter GL_NEAREST) s1
                 in drawTextureMesh E x y (x + of_nat (texture_width tex)) (y + of_nat (texture_height tex))
                      (texture_id tex) (of_int a / 255) m (texture_blend tex) False
                      GL_TRIANGLE_STRIP gMeshCount False True 0 False True s2
               else
                 let s2 = objectCall ta (Texture_setFilter (FILTER paint)) s1
                 in drawTextureMesh E l t r b (texture_id tex) (of_int a / 255) m (texture_blend tex)
                      False GL_TRIANGLE_STRIP gMeshCount False False 0 False True s2))"

definition drawAlphaBitmap :: "'w env \<Rightarrow> (nat \<times> Texture) option \<Rightarrow> rat \<Rightarrow> rat \<Rightarrow> SkPaint option
    \<Rightarrow> 'w renderer \<Rightarrow> 'w renderer" where
  "drawAlphaBitmap E texture l t paint s =
     (case getAlphaAndMode paint s of
        (a, m) \<Rightarrow>
          let color = (case paint of None \<Rightarrow> 0 | Some p \<Rightarrow> paint_color p) in
          (case texture of
             None \<Rightarrow> setFault s
           | Some (ta, tex) \<Rightarrow>
               let s1 = objectCall ta (Texture_setWrap GL_CLAMP_TO_EDGE) s;
                   pure = isPureTranslate (transform (current s1));
                   x = (if pure then pixelSnap (l + getTranslateX (transform (current s1))) else l);
                   y = (if pure then pixelSnap (t + getTranslateY (transform (current s1))) else t);
                   s2 = (if pure then objectCall ta (Texture_setFilter GL_NEAREST) s1
                         else objectCall ta (Texture_setFilter (FILTER paint)) s1)
               in drawAlpha8TextureMesh E x y (x + of_nat (texture_width tex)) (y + of_nat (texture_height tex))
                    (texture_id tex) (paint \<noteq> None) color a m False
                    GL_TRIANGLE_STRIP gMeshCount pure True s2))"

subsection \<open>Composing a layer\<close>

definition layerSetFilter :: "nat \<Rightarrow> GLenum \<Rightarrow> bool \<Rightarrow> 'w renderer \<Rightarrow> 'w renderer" where
  "layerSetFilter a f bindTexture s = objectCall a (Layer_setFilter f bindTexture) s"

definition drawTextureLayer :: "'w env \<Rightarrow> nat \<Rightarrow> Rect \<Rightarrow> 'w renderer \<Rightarrow> 'w renderer" where
  "drawTextureLayer E a rect s =
     (let L = layerAt s a;
          al = of_int (layer_alpha L) / 255;
          s1 = setupDraw E True s;
          s2 = (if layer_renderTarget L = GL_TEXTURE_2D
                then setupDrawWithTexture False s1 else setupDrawWithExternalTexture s1);
          s3 = setupDrawTextureTransform s2;
          s4 = setupDrawColor_float E al al al al s3;
          s5 = setupDrawColorFilter E s4;
          s6 = setupDrawBlending E (layer_blend L \<or> al < 1) (layer_mode L) False s5;
          s7 = setupDrawProgram E s6;
          s8 = setupDrawPureColorUniforms s7;
          s9 = setupDrawColorFilterUniforms s8;
          s10 = (if layer_renderTarget L = GL_TEXTURE_2D
                 then setupDrawTexture E (layer_texture L) s9
                 else setupDrawExternalTexture E (layer_texture L) s9);
          s11 = (if isPureTranslate (transform (current s10))
                    \<and> int (layer_width L) = float_to_int (getWidth rect)
                    \<and> int (layer_height L) = float_to_int (getHeight rect)
                 then
                   let x = pixelSnap (left rect + getTranslateX (transform (current s10)));
                       y = pixelSnap (topR rect + getTranslateY (transform (current s10)))
                   in setupDrawModelView E x y (x + getWidth rect) (y + getHeight rect) True False
                        (layerSetFilter a GL_NEAREST False s10)
                 else setupDrawModelView E (left rect) (topR rect) (right rect) (bottom rect) False False
                        (layerSetFilter a GL_LINEAR False s10));
          s12 = setupDrawTextureTransformUniforms (objectCall a Layer_getTexTransform s11);
          s13 = setupDrawMesh E True 0 s12
      in finishDrawTexture (gl (glDrawArrays GL_TRIANGLE_STRIP 0 gMeshCount) s13))"

definition composeLayerRect :: "'w env \<Rightarrow> nat \<Rightarrow> Rect \<Rightarrow> bool \<Rightarrow> 'w renderer \<Rightarrow> 'w renderer" where
  "composeLayerRect E a rect swap s =
     (let L = layerAt s a in
      if \<not> layer_isTextureLayer L then
        let texCoords = layer_texCoords L;
            s1 = resetDrawTextureTexCoords (left texCoords) (topR texCoords)
                   (right texCoords) (bottom texCoords) s;
            simpleTransform = (isPureTranslate (transform (current s1))
                    \<and> int (layer_width L) = float_to_int (getWidth rect)
                    \<and> int (layer_height L) = float_to_int (getHeight rect));
            x = (if simpleTransform \<and> \<not> swap
                 then pixelSnap (left rect + getTranslateX (transform (current s1))) else left rect);
            y = (if simpleTransform \<and> \<not> swap
                 then pixelSnap (topR rect + getTranslateY (transform (current s1))) else topR rect);
            s2 = (if simpleTransform then layerSetFilter a GL_NEAREST True s1
                  else layerSetFilter a GL_LINEAR True s1);
            s3 = drawTextureMesh E x y (x + getWidth rect) (y + getHeight rect)
                   (layer_texture L) (of_int (layer_alpha L) / 255) (layer_mode L) (layer_blend L)
                   True GL_TRIANGLE_STRIP gMeshCount swap (swap \<or> simpleTransform) 0 False True s2
        in resetDrawTextureTexCoords 0 0 1 1 s3
      else
        resetDrawTextureTexCoords 0 0 1 1
          (drawTextureLayer E a rect (resetDrawTextureTexCoords 0 1 1 0 s)))"

text \<open>
  The loop of \<^verbatim>\<open>composeLayerRegion\<close> over the rectangles of the region: a batch of
  quads is drawn whenever it is full; the result carries \<^verbatim>\<open>numQuads\<close>.
\<close>

fun composeLayerRegion_loop :: "'w env \<Rightarrow> Rect list \<Rightarrow> nat \<Rightarrow> 'w renderer \<Rightarrow> nat \<times> 'w renderer" where
  "composeLayerRegion_loop E [] numQuads s = (numQuads, s)"
| "composeLayerRegion_loop E (r # rects) numQuads s =
     (if numQuads + 1 \<ge> REGION_MESH_QUAD_COUNT E
      then composeLayerRegion_loop E rects 0
             (doCaches E Caches_getRegionMesh
                (gl (glDrawElements GL_TRIANGLES (int (numQuads + 1) * 6)) s))
      else composeLayerRegion_loop E rects (numQuads + 1) s)"

definition composeLayerRegion :: "'w env \<Rightarrow> nat \<Rightarrow> Rect \<Rightarrow> 'w renderer \<Rightarrow> 'w renderer" where
  "composeLayerRegion E a rect s =
     (if region_isRect E (layer_region (layerAt s a)) then
        let s1 = updateLayerAt a (\<lambda>L. L\<lparr>layer_regionRect := region_getBounds E (layer_region L)\<rparr>) s;
            s2 = composeLayerRect E a (layer_regionRect (layerAt s1 a)) False s1
        in updateLayerAt a (\<lambda>L. L\<lparr>layer_region := region_clear E\<rparr>) s2
      else if \<not> region_isEmpty E (layer_region (layerAt s a)) then
        let L = layerAt s a;
            rects = (if rectToRect (transform (current s)) then layer_region L
                     else createTJunctionFreeRegion E (layer_region L));
            al = of_int (layer_alpha L) / 255;
            s1 = setupDraw E True s;
            s2 = doCaches E Caches_getRegionMesh s1;
            s3 = setupDrawWithTexture False s2;
            s4 = setupDrawColor_float E al al al al s3;
            s5 = setupDrawColorFilter E s4;
            s6 = setupDrawBlending E (layer_blend L \<or> al < 1) (layer_mode L) False s5;
            s7 = setupDrawProgram E s6;
            s8 = setupDrawDirtyRegionsDisabled s7;
            s9 = setupDrawPureColorUniforms s8;
            s10 = setupDrawColorFilterUniforms s9;
            s11 = setupDrawTexture E (layer_texture L) s10;
            s12 = (if isPureTranslate (transform (current s11)) then
                     let x = pixelSnap (left rect + getTranslateX (transform (current s11)));
                         y = pixelSnap (topR rect + getTranslateY (transform (current s11)))
                     in setupDrawModelViewTranslate E x y (x + getWidth rect) (y + getHeight rect) True
                          (layerSetFilter a GL_NEAREST False s11)
                   else setupDrawModelViewTranslate E (left rect) (topR rect) (right rect) (bottom rect) False
                          (layerSetFilter a GL_LINEAR False s11));
            s13 = setupDrawMeshIndices E s12
        in case composeLayerRegion_loop E rects 0 s13 of
             (numQuads, s14) \<Rightarrow>
               let s15 = (if numQuads > 0
                          then gl (glDrawElements GL_TRIANGLES (int numQuads * 6)) s14 else s14)
               in updateLayerAt a (\<lambda>L. L\<lparr>layer_region := region_clear E\<rparr>) (finishDrawTexture s15)
      else s)"

definition setupColorFilter :: "nat option \<Rightarrow> 'w renderer \<Rightarrow> 'w renderer" where
  "setupColorFilter f s = s\<lparr>mColorFilter := f\<rparr>"

definition resetColorFilter :: "'w renderer \<Rightarrow> 'w renderer" where
  "resetColorFilter s = s\<lparr>mColorFilter := None\<rparr>"

text \<open>
  \<^verbatim>\<open>composeLayer(current, previous)\<close>. Its only caller, \<^verbatim>\<open>restoreSnapshot\<close>, has made
  \<^verbatim>\<open>previous\<close> the current snapshot before the call, so \<open>previous\<close> is read as the
  head of \<open>mSnapshot\<close>.
\<close>

definition composeLayer :: "'w env \<Rightarrow> Snapshot \<Rightarrow> 'w renderer \<Rightarrow> 'w renderer" where
  "composeLayer E cur s =
     (case layer cur of
        None \<Rightarrow> s
      | Some a \<Rightarrow>
          let fboLayer = (kFlagIsFboLayer \<in> flags cur);
              s1 = (if fboLayer then
                      let t1 = endTiling E s;
                          t2 = gl (glFramebufferTexture2D 0) t1;
                          t3 = objectCall a Layer_removeFbo t2;
                          t4 = gl (glBindFramebuffer (fbo (current t3))) (requireSnapshot t3);
                          t5 = debugOverdraw E True False t4
                      in startTiling E t5
                    else s);
              s2 = (if \<not> fboLayer \<and> layer_alpha (layerAt s1 a) < 255 then
                      let rect = layer_rect (layerAt s1 a);
                          t1 = drawColorRect E (left rect) (topR rect) (right rect) (bottom rect)
                                 (push_bit 24 (word_of_int (layer_alpha (layerAt s1 a))))
                                 kDstIn_Mode True (requireSnapshot s1)
                      in updateLayerAt a (\<lambda>L. L\<lparr>layer_alpha := 255\<rparr>) t1
                    else s1);
              s3 = doCaches E Caches_unbindMeshBuffer s2;
              s4 = doCaches E (Caches_activeTexture 0) s3;
              rect = layer_rect (layerAt s4 a);
              s5 = (if fboLayer then
                      let t1 = dirtyLayer_mapped E (left rect) (topR rect) (right rect) (bottom rect)
                                 (transform (current s4)) s4;
                          cf = layer_colorFilter (layerAt t1 a);
                          t2 = (if cf \<noteq> None then setupColorFilter cf t1 else t1);
                          t3 = composeLayerRegion E a rect t2
                      in if layer_colorFilter (layerAt t3 a) \<noteq> None then resetColorFilter t3 else t3
                    else if \<not> isEmptyRect rect then
                      composeLayerRect E a rect True
                        (dirtyLayer E (left rect) (topR rect) (right rect) (bottom rect)
                           (requireSnapshot s4))
                    else s4);
              s6 = dirtyClip s5
          in case callCaches E (Caches_layerCache_put a) s6 of
               (accepted, s7) \<Rightarrow>
                 if \<not> accepted then doCaches E (Caches_resourceCache_decrementRefcount a) s7 else s7)"

subsection \<open>State management\<close>

definition getSaveCount :: "'w renderer \<Rightarrow> int" where
  "getSaveCount s = mSaveCount s"

definition saveSnapshot :: "SaveFlag set \<Rightarrow> 'w renderer \<Rightarrow> int \<times> 'w renderer" where
  "saveSnapshot saveFlags s =
     (case mSnapshot s of
        [] \<Rightarrow> (mSaveCount s, setFault s)
      | sn # rest \<Rightarrow>
          (mSaveCount s,
           s\<lparr>mSnapshot := newSnapshot sn saveFlags # sn # rest, mSaveCount := mSaveCount s + 1\<rparr>))"

definition restoreSnapshot :: "'w env \<Rightarrow> 'w renderer \<Rightarrow> bool \<times> 'w renderer" where
  "restoreSnapshot E s =
     (case mSnapshot s of
        [] \<Rightarrow> (False, setFault s)
      | cur # previous \<Rightarrow>
          let restoreClip = (kFlagClipSet \<in> flags cur);
              restoreLayer = (kFlagIsLayer \<in> flags cur);
              restoreOrtho = (kFlagDirtyOrtho \<in> flags cur);
              s1 = (if restoreOrtho then
                      (case previous of
                         [] \<Rightarrow> setFault s
                       | p # _ \<Rightarrow>
                           (gl (glViewport (left (viewport p)) (topR (viewport p))
                                  (right (viewport p)) (bottom (viewport p))) s)
                             \<lparr>mOrthoMatrix := orthoMatrix cur\<rparr>)
                    else s);
              s2 = s1\<lparr>mSaveCount := mSaveCount s1 - 1, mSnapshot := previous\<rparr>;
              s3 = (if restoreClip then dirtyClip s2 else s2);
              s4 = (if restoreLayer then composeLayer E cur s3 else s3)
          in (restoreClip, s4))"

definition finish_op :: "'w renderer \<Rightarrow> 'a \<Rightarrow> fault + 'a" where
  \<comment> \<open>what a public operation returns: its result, unless the renderer has crashed\<close>
  "finish_op s x = (case fault s of None \<Rightarrow> Inr x | Some f \<Rightarrow> Inl f)"

definition save :: "SaveFlag set \<Rightarrow> 'w renderer \<Rightarrow> fault + (int \<times> 'w renderer)" where
  "save saveFlags s = (case saveSnapshot saveFlags s of (n, s') \<Rightarrow> finish_op s' (n, s'))"

definition restore :: "'w env \<Rightarrow> 'w renderer \<Rightarrow> fault + 'w renderer" where
  "restore E s =
     (if mSaveCount s > 1
      then (let s' = snd (restoreSnapshot E s) in finish_op s' s')
      else Inr s)"

text \<open>
  The loop of \<^verbatim>\<open>restoreToCount\<close>. It stops when the renderer has crashed. The test
  \<open>mSaveCount s' < mSaveCount s\<close> is not in the source: it makes the termination argument
  independent of \<open>restoreSnapshot\<close>, and the lemma \<open>restoreToCount_loop_source\<close> shows
  that it is redundant.
\<close>

function restoreToCount_loop :: "'w env \<Rightarrow> int \<Rightarrow> 'w renderer \<Rightarrow> 'w renderer" where
  "restoreToCount_loop E saveCount s =
     (if mSaveCount s > saveCount then
        let s' = snd (restoreSnapshot E s) in
        if fault s' = None \<and> mSaveCount s' < mSaveCount s
        then restoreToCount_loop E saveCount s'
        else s'
      else s)"
  by pat_completeness auto
termination
  by (relation "measure (\<lambda>(E, saveCount, s). nat (mSaveCount s - saveCount))") auto

declare restoreToCount_loop.simps [simp del]

definition restoreToCount :: "'w env \<Rightarrow> int \<Rightarrow> 'w renderer \<Rightarrow> fault + 'w renderer" where
  "restoreToCount E saveCount s =
     (let s' = restoreToCount_loop E (if saveCount < 1 then 1 else saveCount) s
      in finish_op s' s')"

subsection \<open>Preparing a frame\<close>

text \<open>
  Modelled from the spec: \<^verbatim>\<open>Snapshot::setClip\<close> (\<^verbatim>\<open>Snapshot.cpp\<close> is not among the
  sources): the clip becomes the given rectangle, a plain rectangle again, and the snapshot
  is marked as having changed the clip.
\<close>

definition snapshot_setClip :: "rat \<Rightarrow> rat \<Rightarrow> rat \<Rightarrow> rat \<Rightarrow> Snapshot \<Rightarrow> Snapshot" where
  "snapshot_setClip l t r b sn =
     sn\<lparr>clipRect := mkRect l t r b, clipRegion := [], flags := insert kFlagClipSet (flags sn)\<rparr>"

text \<open>
  \<^verbatim>\<open>updateLayer\<close> runs the renderer of the layer, another object, through
  \<^verbatim>\<open>setViewport\<close>, \<^verbatim>\<open>prepareDirty\<close>, \<^verbatim>\<open>drawDisplayList\<close> and \<^verbatim>\<open>finish\<close>: these
  four virtual calls are logged as one call on that object.
\<close>

definition resumeAfterLayer :: "'w env \<Rightarrow> 'w renderer \<Rightarrow> 'w renderer" where
  "resumeAfterLayer E s =
     (let snapshot = currentOrFirst s;
          s1 = gl (glViewport 0 0 (getWidth (viewport snapshot)) (getHeight (viewport snapshot))) s;
          s2 = gl (glBindFramebuffer (fbo snapshot)) s1;
          s3 = debugOverdraw E True False s2;
          s4 = doCaches E Caches_resetScissor s3
      in dirtyClip s4)"

definition updateLayer :: "'w env \<Rightarrow> nat \<Rightarrow> bool \<Rightarrow> 'w renderer \<Rightarrow> bool \<times> 'w renderer" where
  "updateLayer E a inFrame s =
     (let L = layerAt s a in
      case layer_renderer L of
        Some rd \<Rightarrow>
          if layer_deferredUpdateScheduled L \<and> layer_displayList L \<noteq> None then
            let s1 = (if inFrame then debugOverdraw E False False (endTiling E s) else s);
                s2 = objectCall rd LayerRenderer_update s1;
                s3 = (if inFrame then startTiling E (resumeAfterLayer E s2) else s2)
            in (True,
                updateLayerAt a (\<lambda>L. L\<lparr>layer_dirtyRect := setEmptyRect,
                     layer_deferredUpdateScheduled := False, layer_renderer := None,
                     layer_displayList := None,
                     layer_debugDrawUpdate := debugLayersUpdates (caches s3)\<rparr>) s3)
          else (False, s)
      | None \<Rightarrow> (False, s))"

fun updateLayers_loop :: "'w env \<Rightarrow> nat list \<Rightarrow> 'w renderer \<Rightarrow> 'w renderer" where
  \<comment> \<open>the layers in the order they are updated\<close>
  "updateLayers_loop E [] s = s"
| "updateLayers_loop E (a # as) s =
     updateLayers_loop E as
       (doCaches E (Caches_resourceCache_decrementRefcount a) (snd (updateLayer E a False s)))"

definition updateLayers :: "'w env \<Rightarrow> 'w renderer \<Rightarrow> 'w renderer" where
  "updateLayers E s =
     (if length (mLayerUpdates s) > 0 then
        let s1 = doCaches E Caches_startMark s;
            s2 = updateLayers_loop E (rev (mLayerUpdates s1)) s1;
            s3 = s2\<lparr>mLayerUpdates := []\<rparr>;
            s4 = gl (glBindFramebuffer (getTargetFbo E)) s3
        in doCaches E Caches_endMark s4
      else s)"

definition discardFramebuffer :: "'w env \<Rightarrow> rat \<Rightarrow> rat \<Rightarrow> rat \<Rightarrow> rat \<Rightarrow> 'w renderer \<Rightarrow> 'w renderer" where
  "discardFramebuffer E l t r b s =
     (if hasDiscardFramebuffer E \<and> l \<le> 0 \<and> t \<le> 0 \<and> r \<ge> of_int (mWidth s) \<and> b \<ge> of_int (mHeight s)
      then gl glDiscardFramebufferEXT s else s)"

definition syncState :: "'w renderer \<Rightarrow> 'w renderer" where
  "syncState s =
     (let s1 = gl (glViewport 0 0 (of_int (mWidth s)) (of_int (mHeight s))) s
      in if blend (caches s1) then gl (glEnable GL_BLEND) s1 else gl (glDisable GL_BLEND) s1)"

definition clear :: "'w env \<Rightarrow> rat \<Rightarrow> rat \<Rightarrow> rat \<Rightarrow> rat \<Rightarrow> bool \<Rightarrow> 'w renderer
    \<Rightarrow> status_t \<times> 'w renderer" where
  "clear E l t r b opaque s =
     (if \<not> opaque then
        let s1 = doCaches E Caches_enableScissor s;
            s2 = doCaches E (Caches_setScissor l (of_int (height (current s1)) - b) (r - l) (b - t))
                   (requireSnapshot s1)
        in (kStatusDrew, gl (glClear GL_COLOR_BUFFER_BIT) s2)
      else (kStatusDone, doCaches E Caches_resetScissor s))"

definition prepareDirty :: "'w env \<Rightarrow> rat \<Rightarrow> rat \<Rightarrow> rat \<Rightarrow> rat \<Rightarrow> bool \<Rightarrow> 'w renderer
    \<Rightarrow> fault + (status_t \<times> 'w renderer)" where
  "prepareDirty E l t r b opaque s =
     (let s1 = doCaches E Caches_clearGarbage s;
          sn = snapshot_setClip l t r b
                 ((newSnapshot (mFirstSnapshot s1) {kMatrix_SaveFlag, kClip_SaveFlag})
                    \<lparr>fbo := getTargetFbo E\<rparr>);
          s2 = s1\<lparr>mSnapshot := [sn, mFirstSnapshot s1], mSaveCount := 1, mDirtyClip := True\<rparr>;
          s3 = updateLayers E s2;
          s4 = discardFramebuffer E l t r b s3;
          s5 = syncState s4;
          s6 = s5\<lparr>mSuppressTiling := hasRegisteredFunctors E (world s5)\<rparr>;
          s7 = startTiling E s6;
          s8 = debugOverdraw E True True s7
      in case clear E l t r b opaque s8 of (st, s9) \<Rightarrow> finish_op s9 (st, s9))"

definition prepare :: "'w env \<Rightarrow> bool \<Rightarrow> 'w renderer \<Rightarrow> fault + (status_t \<times> 'w renderer)" where
  "prepare E opaque s = prepareDirty E 0 0 (of_int (mWidth s)) (of_int (mHeight s)) opaque s"

subsection \<open>Drawing commands\<close>

text \<open>
  A public draw operation dereferences \<^verbatim>\<open>mSnapshot\<close> before it does anything else that
  this model records; \<open>withSnapshot\<close> is that dereference.
\<close>

definition withSnapshot :: "('w renderer \<Rightarrow> status_t \<times> 'w renderer) \<Rightarrow> 'w renderer
    \<Rightarrow> fault + (status_t \<times> 'w renderer)" where
  "withSnapshot f s =
     (if mSnapshot s = [] then Inl NullDereference
      else case f s of (st, s') \<Rightarrow> finish_op s' (st, s'))"

definition fetch :: "('w \<Rightarrow> 'a \<times> 'w) \<Rightarrow> 'w renderer \<Rightarrow> 'a \<times> 'w renderer" where
  \<comment> \<open>a \<^verbatim>\<open>get\<close> of one of the caches\<close>
  "fetch g s = (case g (world s) of (x, w') \<Rightarrow> (x, s\<lparr>world := w'\<rparr>))"

definition drawBitmap :: "'w env \<Rightarrow> SkBitmap \<Rightarrow> rat \<Rightarrow> rat \<Rightarrow> SkPaint option \<Rightarrow> 'w renderer
    \<Rightarrow> fault + (status_t \<times> 'w renderer)" where
  \<comment> \<open>\<^verbatim>\<open>drawBitmap(SkBitmap* bitmap, float left, float top, SkPaint* paint)\<close>\<close>
  "drawBitmap E bitmap l t paint =
     withSnapshot (\<lambda>s.
       let r = l + of_int (bitmap_width bitmap);
           b = t + of_int (bitmap_height bitmap)
       in case quickReject E l t r b s of
            (rejected, s1) \<Rightarrow>
              if rejected then (kStatusDone, s1)
              else
                (case fetch (textureCache_get E bitmap) (doCaches E (Caches_activeTexture 0) s1) of
                   (texture, s2) \<Rightarrow>
                     if texture = None then (kStatusDone, s2)
                     else if bitmap_isA8 bitmap
                     then (kStatusDrew, drawAlphaBitmap E texture l t paint s2)
                     else (kStatusDrew, drawTextureRect E l t r b texture paint s2)))"

definition drawBitmapData :: "'w env \<Rightarrow> SkBitmap \<Rightarrow> rat \<Rightarrow> rat \<Rightarrow> SkPaint option \<Rightarrow> 'w renderer
    \<Rightarrow> fault + (status_t \<times> 'w renderer)" where
  "drawBitmapData E bitmap l t paint =
     withSnapshot (\<lambda>s.
       let r = l + of_int (bitmap_width bitmap);
           b = t + of_int (bitmap_height bitmap)
       in case quickReject E l t r b s of
            (rejected, s1) \<Rightarrow>
              if rejected then (kStatusDone, s1)
              else
                (case fetch (textureCache_getTransient E bitmap)
                        (doCaches E (Caches_activeTexture 0) s1) of
                   (texture, s2) \<Rightarrow>
                     if bitmap_isA8 bitmap
                     then (kStatusDrew, drawAlphaBitmap E texture l t paint s2)
                     else (kStatusDrew, drawTextureRect E l t r b texture paint s2)))"

fun drawPatch_dirty :: "'w env \<Rightarrow> bool \<Rightarrow> rat \<Rightarrow> rat \<Rightarrow> Rect list \<Rightarrow> 'w renderer \<Rightarrow> 'w renderer" where
  \<comment> \<open>the loop of \<^verbatim>\<open>drawPatch\<close> over the quads of the mesh\<close>
  "drawPatch_dirty E pureTranslate l t [] s = s"
| "drawPatch_dirty E pureTranslate l t (bounds # quads) s =
     drawPatch_dirty E pureTranslate l t quads
       (if pureTranslate then
          let x = pixelSnap (left bounds + (l + getTranslateX (transform (current s))));
              y = pixelSnap (topR bounds + (t + getTranslateY (transform (current s))))
          in dirtyLayer E x y (x + getWidth bounds) (y + getHeight bounds) s
        else
          dirtyLayer_mapped E (l + left bounds) (t + topR bounds) (l + right bounds) (t + bottom bounds)
            (transform (current s)) s)"

definition drawPatch :: "'w env \<Rightarrow> SkBitmap \<Rightarrow> rat \<Rightarrow> rat \<Rightarrow> rat \<Rightarrow> rat \<Rightarrow> int \<Rightarrow> Mode \<Rightarrow> 'w renderer
    \<Rightarrow> fault + (status_t \<times> 'w renderer)" where
  \<comment> \<open>the overload with \<^verbatim>\<open>int alpha, SkXfermode::Mode mode\<close>; the divisions and colours of
      the patch are part of the key of the cache and not of the model\<close>
  "drawPatch E bitmap l t r b alpha0 m =
     withSnapshot (\<lambda>s.
       case quickReject E l t r b s of
         (rejected, s1) \<Rightarrow>
           if rejected then (kStatusDone, s1)
           else
             let a = float_to_int (of_int alpha0 * alpha (current s1)) in
             (case fetch (patchCache_get E bitmap (r - l) (b - t)) s1 of
                (mesh, s2) \<Rightarrow>
                  (case mesh of
                     None \<Rightarrow> (kStatusDrew, s2)
                   | Some pm \<Rightarrow>
                       if patch_verticesCount pm > 0 then
                         (case fetch (textureCache_get E bitmap) (doCaches E (Caches_activeTexture 0) s2) of
                            (texture, s3) \<Rightarrow>
                              (case texture of
                                 None \<Rightarrow> (kStatusDone, s3)
                               | Some (ta, tex) \<Rightarrow>
                                   let s4 = objectCall ta (Texture_setFilter GL_LINEAR)
                                              (objectCall ta (Texture_setWrap GL_CLAMP_TO_EDGE) s3);
                                       pureTranslate = isPureTranslate (transform (current s4));
                                       s5 = (if hasLayer s4 \<and> patch_hasEmptyQuads pm
                                             then drawPatch_dirty E pureTranslate l t (patch_quads pm) s4
                                             else s4)
                                   in if pureTranslate then
                                        let x = pixelSnap (l + getTranslateX (transform (current s5)));
                                            y = pixelSnap (t + getTranslateY (transform (current s5)))
                                        in (kStatusDrew,
                                            drawTextureMesh E x y (x + r - l) (y + b - t) (texture_id tex)
                                              (of_int a / 255) m (texture_blend tex) False GL_TRIANGLES
                                              (int (patch_verticesCount pm)) False True
                                              (patch_meshBuffer pm) True (\<not> patch_hasEmptyQuads pm) s5)
                                      else
                                        (kStatusDrew,
                                         drawTextureMesh E l t r b (texture_id tex)
                                           (of_int a / 255) m (texture_blend tex) False GL_TRIANGLES
                                           (int (patch_verticesCount pm)) False False
                                           (patch_meshBuffer pm) True (\<not> patch_hasEmptyQuads pm) s5)))
                       else (kStatusDrew, s2))))"

fun drawPoints_loop :: "'w env \<Rightarrow> rat \<Rightarrow> (rat \<times> rat) list \<Rightarrow> int \<Rightarrow> 'w renderer \<Rightarrow> int \<times> 'w renderer" where
  \<comment> \<open>the loop of \<^verbatim>\<open>drawPoints\<close>; the result carries \<^verbatim>\<open>generatedVerticesCount\<close>\<close>
  "drawPoints_loop E halfWidth [] generated s = (generated, s)"
| "drawPoints_loop E halfWidth ((x, y) # points) generated s =
     drawPoints_loop E halfWidth points (generated + 1)
       (dirtyLayer_mapped E (x - halfWidth) (y - halfWidth) (x + halfWidth) (y + halfWidth)
          (transform (current s)) s)"

definition drawPoints :: "'w env \<Rightarrow> (rat \<times> rat) list \<Rightarrow> SkPaint \<Rightarrow> 'w renderer
    \<Rightarrow> fault + (status_t \<times> 'w renderer)" where
  \<comment> \<open>\<open>points\<close>: the array of \<^verbatim>\<open>count\<close> floats, two for each point\<close>
  "drawPoints E points paint =
     withSnapshot (\<lambda>s.
       if isIgnored (current s) then (kStatusDone, s)
       else
         let strokeWidth = (if paint_strokeWidth paint = 0 then 1 else paint_strokeWidth paint);
             halfWidth = strokeWidth / 2
         in case getAlphaAndMode (Some paint) s of
              (a, m) \<Rightarrow>
                let s0 = doCaches E Caches_enableScissor s;
                    s1 = setupDraw E True s0;
                    s2 = setupDrawNoTexture E s1;
                    s3 = setupDrawPoint strokeWidth s2;
                    s4 = setupDrawColor E (paint_color paint) a s3;
                    s5 = setupDrawColorFilter E s4;
                    s6 = setupDrawShader E s5;
                    s7 = setupDrawBlending_mode E m False s6;
                    s8 = setupDrawProgram E s7;
                    s9 = setupDrawModelViewIdentity True s8;
                    s10 = setupDrawColorUniforms s9;
                    s11 = setupDrawColorFilterUniforms s10;
                    s12 = setupDrawPointUniforms s11;
                    s13 = setupDrawShaderIdentityUniforms E s12;
                    s14 = setupDrawMesh E True 0 s13
                in case drawPoints_loop E halfWidth points 0 s14 of
                     (generated, s15) \<Rightarrow> (kStatusDrew, gl (glDrawArrays GL_POINTS 0 generated) s15))"

definition drawColor :: "'w env \<Rightarrow> 32 word \<Rightarrow> Mode \<Rightarrow> 'w renderer \<Rightarrow> fault + (status_t \<times> 'w renderer)" where
  "drawColor E color m =
     withSnapshot (\<lambda>s.
       if isIgnored (current s) then (kStatusDone, s)
       else
         let s1 = updateCurrent (\<lambda>sn. sn\<lparr>clipRect := snapToPixelBoundaries (clipRect sn)\<rparr>) s;
             clip = clipRect (current s1)
         in (kStatusDrew,
             drawColorRect E (left clip) (topR clip) (right clip) (bottom clip) color m True s1))"


subsection \<open>Clipping\<close>

text \<open>
  A clip region (\<^verbatim>\<open>SkRegion\<close>) is the list of rectangles its iterator yields; its
  bounds are the bounding box of the list. \<^verbatim>\<open>SkRegion::setRect\<close> takes integers: the
  call \<^verbatim>\<open>clip.setRect(bounds->left, bounds->top, bounds->right, bounds->bottom)\<close> of
  \<^verbatim>\<open>clipPath\<close> converts each float edge to an integer.
\<close>

definition regionBounds :: "Rect list \<Rightarrow> Rect" where
  "regionBounds rs =
     (case rs of
        [] \<Rightarrow> setEmptyRect
      | r # rest \<Rightarrow>
          foldr (\<lambda>a acc. mkRect (min (left a) (left acc)) (min (topR a) (topR acc))
                                 (max (right a) (right acc)) (max (bottom a) (bottom acc))) rest r)"

definition skRegion_setRect :: "rat \<Rightarrow> rat \<Rightarrow> rat \<Rightarrow> rat \<Rightarrow> Rect list" where
  "skRegion_setRect l t r b =
     (let rc = mkRect (of_int (float_to_int l)) (of_int (float_to_int t))
                      (of_int (float_to_int r)) (of_int (float_to_int b))
      in if isEmptyRect rc then [] else [rc])"

definition clipAsRegion :: "Snapshot \<Rightarrow> Rect list" where
  \<comment> \<open>the existing clip as a region, as \<^verbatim>\<open>clipPath\<close> builds it\<close>
  "clipAsRegion sn =
     (if clipRegion sn \<noteq> [] then clipRegion sn
      else skRegion_setRect (left (clipRect sn)) (topR (clipRect sn))
             (right (clipRect sn)) (bottom (clipRect sn)))"

text \<open>
  Modelled from the spec: \<^verbatim>\<open>Snapshot::clipRegionTransformed\<close> and \<^verbatim>\<open>Snapshot::clip\<close>
  (\<^verbatim>\<open>Snapshot.cpp\<close> is not among the sources). For a region, the spec has the result
  "combined with the existing clip (as a region), replacing the simple rectangle clip":
  the clip region becomes the combination and the clip rectangle its bounds. For a
  rectangle under a transform that maps rectangles to rectangles it has the operation
  applied "directly on the clip rectangle (cheap path)": an intersection of two rectangles
  is their common part, or the empty rectangle when they are disjoint. The other operators,
  and a clip that is a region already, go through the region.
\<close>

definition snapshot_clipRegionTransformed :: "'w env \<Rightarrow> Rect list \<Rightarrow> RegionOp \<Rightarrow> Snapshot
    \<Rightarrow> bool \<times> Snapshot" where
  "snapshot_clipRegionTransformed E rg op sn =
     (let combined = skRegion_op E (clipAsRegion sn) rg op
      in (True, sn\<lparr>clipRegion := combined, clipRect := regionBounds combined,
                   flags := insert kFlagClipSet (flags sn)\<rparr>))"

definition snapshot_clip :: "'w env \<Rightarrow> rat \<Rightarrow> rat \<Rightarrow> rat \<Rightarrow> rat \<Rightarrow> RegionOp \<Rightarrow> Snapshot
    \<Rightarrow> bool \<times> Snapshot" where
  "snapshot_clip E l t r b op sn =
     (let rc = mapRect (transform sn) (mkRect l t r b) in
      if op = kReplace_Op then
        (True, snapshot_setClip (left rc) (topR rc) (right rc) (bottom rc) sn)
      else if op = kIntersect_Op \<and> clipRegion sn = [] then
        (True, sn\<lparr>clipRect := (if intersects (clipRect sn) rc
                                then intersectWith (clipRect sn) rc else setEmptyRect),
                  flags := insert kFlagClipSet (flags sn)\<rparr>)
      else
        snapshot_clipRegionTransformed E
          (skRegion_setRect (left rc) (topR rc) (right rc) (bottom rc)) op sn)"

definition clipResult :: "bool \<times> Snapshot \<Rightarrow> 'w renderer \<Rightarrow> bool \<times> 'w renderer" where
  \<comment> \<open>the common end of the three clip operations\<close>
  "clipResult res s =
     (case res of
        (clipped, sn) \<Rightarrow>
          let s1 = updateCurrent (\<lambda>_. sn) s;
              s2 = (if clipped then dirtyClip s1 else s1)
          in (\<not> isEmptyRect (clipRect (current s2)), s2))"

definition withSnapshot_bool :: "('w renderer \<Rightarrow> bool \<times> 'w renderer) \<Rightarrow> 'w renderer
    \<Rightarrow> fault + (bool \<times> 'w renderer)" where
  "withSnapshot_bool f s =
     (if mSnapshot s = [] then Inl NullDereference
      else case f s of (b, s') \<Rightarrow> finish_op s' (b, s'))"

definition clipRegion_op :: "'w env \<Rightarrow> Rect list \<Rightarrow> RegionOp \<Rightarrow> 'w renderer
    \<Rightarrow> fault + (bool \<times> 'w renderer)" where
  \<comment> \<open>\<^verbatim>\<open>OpenGLRenderer::clipRegion\<close>\<close>
  "clipRegion_op E rg op =
     withSnapshot_bool (\<lambda>s. clipResult (snapshot_clipRegionTransformed E rg op (current s)) s)"

definition clipPath_body :: "'w env \<Rightarrow> SkPath \<Rightarrow> RegionOp \<Rightarrow> 'w renderer \<Rightarrow> bool \<times> 'w renderer" where
  "clipPath_body E path op s =
     (let clip = clipAsRegion (current s);
          rg = skRegion_setPath E path (transform (current s)) clip
      in clipResult (snapshot_clipRegionTransformed E rg op (current s)) s)"

definition clipPath_op :: "'w env \<Rightarrow> SkPath \<Rightarrow> RegionOp \<Rightarrow> 'w renderer
    \<Rightarrow> fault + (bool \<times> 'w renderer)" where
  \<comment> \<open>\<^verbatim>\<open>OpenGLRenderer::clipPath\<close>\<close>
  "clipPath_op E path op = withSnapshot_bool (clipPath_body E path op)"

definition clipRect_op :: "'w env \<Rightarrow> rat \<Rightarrow> rat \<Rightarrow> rat \<Rightarrow> rat \<Rightarrow> RegionOp \<Rightarrow> 'w renderer
    \<Rightarrow> fault + (bool \<times> 'w renderer)" where
  \<comment> \<open>\<^verbatim>\<open>OpenGLRenderer::clipRect\<close>\<close>
  "clipRect_op E l t r b op =
     withSnapshot_bool (\<lambda>s.
       if rectToRect (transform (current s))
       then clipResult (snapshot_clip E l t r b op (current s)) s
       else clipPath_body E (Path_addRect l t r b) op s)"

definition rectWithin :: "Rect \<Rightarrow> Rect \<Rightarrow> bool" where
  \<comment> \<open>\<open>a\<close> is contained within \<open>b\<close>: it is empty, or each of its edges is inside \<open>b\<close>\<close>
  "rectWithin a b \<longleftrightarrow> isEmptyRect a \<or> containsRect b a"


subsection \<open>A concrete renderer\<close>

definition demoMat :: mat4 where
  "demoMat = \<lparr>mapRect = (\<lambda>r. r), rectToRect = True, isPureTranslate = True,
               getTranslateX = 0, getTranslateY = 0\<rparr>"

definition demoSnapshot :: Snapshot where
  "demoSnapshot =
     \<lparr>flags = {}, transform = demoMat, clipRect = mkRect 0 0 100 100, clipRegion = [],
      alpha = 1, layer = None, region = None, fbo = 0, viewport = mkRect 0 0 100 100,
      height = 100, invisible = False, emptyS = False, orthoMatrix = MatIdentity,
      ownsTransform = True, ownsClip = True\<rparr>"

definition demoLayer :: Layer where
  "demoLayer =
     \<lparr>layer_alpha = 128, layer_mode = kSrcOver_Mode, layer_rect = mkRect 10 10 50 50,
      layer_texCoords = mkRect 0 1 1 0, layer_clipRect = mkRect 0 0 0 0, layer_region = [],
      layer_regionRect = mkRect 0 0 0 0, layer_width = 40, layer_height = 40,
      layer_texture = 7, layer_blend = True, layer_colorFilter = None,
      layer_isTextureLayer = False, layer_renderTarget = GL_TEXTURE_2D, layer_stencil = None,
      layer_deferredUpdateScheduled = False, layer_renderer = None, layer_displayList = None,
      layer_dirtyRect = mkRect 0 0 0 0, layer_debugDrawUpdate = False\<rparr>"

definition demoCaches :: Caches where
  "demoCaches =
     \<lparr>scissorEnabled = False, blend = False, lastSrcMode = GL_ZERO, lastDstMode = GL_ZERO,
      currentProgram = None, debugOverdrawFlag = False, debugLayersUpdates = False,
      debugStencilClip = kStencilHide,
      maxTextureSize = 2048\<rparr>"

text \<open>
  A concrete environment: functor 1 asks to be invoked again and registers itself while
  it runs, every other functor reports that it is done; the texture cache has a texture for
  every bitmap, but a transient texture and a patch mesh are never available; the facade
  answers \<open>False\<close> to every call and leaves its fields alone; clip regions are combined
  rectangle by rectangle.
\<close>

definition demoEnv :: "nat env" where
  "demoEnv =
     \<lparr>cachesImpl = (\<lambda>c sc w. (False, sc, w)),
      functorImpl = (\<lambda>f m info w.
         if f = 1 then (kStatusInvoke, info, [Reenter_attachFunctor 1], w + 1)
         else (kStatusDone, info, [], w + 1)),
      glIsEnabled = (\<lambda>c w. False),
      stencil_isTestEnabled = (\<lambda>w. False),
      hasRegisteredFunctors = (\<lambda>w. False),
      textureCache_get = (\<lambda>b w. (Some (bitmap_id b,
         \<lparr>texture_id = bitmap_id b, texture_width = nat (bitmap_width b),
          texture_height = nat (bitmap_height b), texture_blend = False\<rparr>), w)),
      textureCache_getTransient = (\<lambda>b w. (None, w)),
      patchCache_get = (\<lambda>b w h wd. (None, wd)),
      programCache_get = (\<lambda>d w. (0, w)),
      program_texCoords = (\<lambda>p. 0),
      program_getAttrib = (\<lambda>p. 0),
      renderBufferCache_get = (\<lambda>w h wd. (None, wd)),
      region_orSelf = (\<lambda>rs r. rs @ [r]),
      region_isRect = (\<lambda>rs. length rs \<le> 1),
      region_isEmpty = (\<lambda>rs. rs = []),
      region_getBounds = (\<lambda>rs. foldr unionWith rs (mkRect 0 0 0 0)),
      region_clear = [],
      skRegion_op = (\<lambda>a b op.
         if op = kIntersect_Op then [intersectWith x y. x \<leftarrow> a, y \<leftarrow> b, intersects x y]
         else if op = kReplace_Op then b else a @ b),
      skRegion_setPath = (\<lambda>p m clip.
         case p of
           Path_addRect l t r b \<Rightarrow>
             [intersectWith x y.
                x \<leftarrow> skRegion_setRect (left (mapRect m (mkRect l t r b))) (topR (mapRect m (mkRect l t r b)))
                       (right (mapRect m (mkRect l t r b))) (bottom (mapRect m (mkRect l t r b))),
                y \<leftarrow> clip, intersects x y]
         | Path_at a \<Rightarrow> clip),
      createTJunctionFreeRegion = (\<lambda>rs. rs),
      shader_blend = (\<lambda>p. False),
      shader_describe = (\<lambda>p d. d),
      shader_textureUnit = (\<lambda>p u. u),
      colorFilter_blend = (\<lambda>p. False),
      colorFilter_describe = (\<lambda>p d. d),
      description_setColor = (\<lambda>r g b a d. (a < 1, d\<lparr>modulate := a < 1\<rparr>)),
      description_setAlpha8Color = (\<lambda>r g b a d. (a < 1, d\<lparr>modulate := a < 1\<rparr>)),
      hasDiscardFramebuffer = False,
      hasFramebufferFetch = False,
      getTargetFbo = 0,
      REGION_MESH_QUAD_COUNT = 512\<rparr>"

definition demoRenderer :: "nat renderer" where
  "demoRenderer =
     \<lparr>calls = [], world = 0, fault = None, caches = demoCaches, layerAt = (\<lambda>p. demoLayer),
      programInUse = (\<lambda>p. False), mWidth = 100, mHeight = 100, mSaveCount = 1,
      mFirstSnapshot = demoSnapshot, mSnapshot = [demoSnapshot, demoSnapshot],
      mDirtyClip = False, mSuppressTiling = False, mScissorOptimizationDisabled = False,
      mOrthoMatrix = MatOrtho 0 100 100 0 (-1) 1, mModelView = MatIdentity,
      mDescription = description_reset, mColorSet = False, mSetShaderColor = False,
      mColorA = 0, mColorR = 0, mColorG = 0, mColorB = 0, mTextureUnit = 0,
      mTrackDirtyRegions = True, mShader = None, mColorFilter = None,
      mMeshTexCoords = [(0, 0), (1, 0), (0, 1), (1, 1)],
      mLayers = [], mLayerUpdates = [], mFunctors = []\<rparr>"

definition demoBitmap :: SkBitmap where
  "demoBitmap = \<lparr>bitmap_id = 5, bitmap_width = 32, bitmap_height = 32, bitmap_isA8 = False\<rparr>"

definition demoPaint :: SkPaint where
  "demoPaint =
     \<lparr>paint_alpha = 255, paint_color = 0xffff0000, paint_xfermode = kSrcOver_Mode,
      paint_filterBitmap = True, paint_strokeWidth = 1\<rparr>"

definition preparedFrame :: "nat renderer" where
  \<comment> \<open>the renderer after \<^verbatim>\<open>prepareDirty(0, 0, 100, 100, true)\<close>\<close>
  "preparedFrame =
     (case prepareDirty demoEnv 0 0 100 100 True demoRenderer of
        Inr (st, s) \<Rightarrow> s
      | Inl f \<Rightarrow> demoRenderer)"

subsection \<open>Notions used in the statements\<close>

definition noDetach :: "'w env \<Rightarrow> bool" where
  \<comment> \<open>no functor calls \<^verbatim>\<open>detachFunctor\<close> while it runs\<close>
  "noDetach E \<longleftrightarrow>
     (\<forall>f m info w g. Reenter_detachFunctor g \<notin> set (fst (snd (snd (functorImpl E f m info w)))))"

fun isDrawCommand :: "event \<Rightarrow> bool" where
  "isDrawCommand (GL (glDrawArrays m first n)) = True"
| "isDrawCommand (GL (glDrawElements m n)) = True"
| "isDrawCommand e = False"

fun isClear :: "event \<Rightarrow> bool" where
  "isClear (GL (glClear b)) = True"
| "isClear e = False"

definition stackInv :: "'w renderer \<Rightarrow> bool" where
  \<comment> \<open>the chain holds the root snapshot below one snapshot for each unit of the save count\<close>
  "stackInv s \<longleftrightarrow> 1 \<le> mSaveCount s \<and> int (length (mSnapshot s)) = mSaveCount s + 1"

fun saveAll :: "SaveFlag set list \<Rightarrow> 'w renderer \<Rightarrow> fault + 'w renderer" where
  \<comment> \<open>one call of \<^verbatim>\<open>save\<close> for each element of the list\<close>
  "saveAll [] s = Inr s"
| "saveAll (f # fs) s = (case save f s of Inl e \<Rightarrow> Inl e | Inr (n, s') \<Rightarrow> saveAll fs s')"

fun restoreTimes :: "'w env \<Rightarrow> nat \<Rightarrow> 'w renderer \<Rightarrow> fault + 'w renderer" where
  \<comment> \<open>that many calls of \<^verbatim>\<open>restore\<close>\<close>
  "restoreTimes E 0 s = Inr s"
| "restoreTimes E (Suc n) s = (case restore E s of Inl e \<Rightarrow> Inl e | Inr s' \<Rightarrow> restoreTimes E n s')"

definition plainSaves :: "nat \<Rightarrow> 'w renderer \<Rightarrow> bool" where
  \<comment> \<open>the renderer is intact, and the \<open>k\<close> snapshots above the one of the frame are plain
      saves: none owns a layer, none changed the projection\<close>
  "plainSaves k s \<longleftrightarrow>
     fault s = None \<and> mSaveCount s = 1 + int k \<and> length (mSnapshot s) = k + 2
     \<and> list_all (\<lambda>sn. kFlagIsLayer \<notin> flags sn \<and> kFlagDirtyOrtho \<notin> flags sn)
          (take k (mSnapshot s))"

text \<open>
  What a batch of functors does, told apart from the renderer. \<open>outcomes\<close> lists, for
  the functors of a batch in the order they are invoked, the status each returns and
  what it does to the functor set while it runs; the \<^verbatim>\<open>DrawGlInfo\<close> and the world are
  handed from one call to the next as \<^verbatim>\<open>invokeFunctors\<close> does.
\<close>

fun outcomes :: "'w env \<Rightarrow> nat list \<Rightarrow> DrawGlInfo \<Rightarrow> 'w \<Rightarrow> (nat \<times> status_t \<times> reentry list) list" where
  "outcomes E [] info w = []"
| "outcomes E (f # fs) info w =
     (case functorImpl E f kModeProcess info w of
        (r, info', acts, w') \<Rightarrow> (f, r, acts) # outcomes E fs info' w')"

fun applyReentries :: "reentry list \<Rightarrow> nat list \<Rightarrow> nat list" where
  "applyReentries [] R = R"
| "applyReentries (Reenter_attachFunctor f # as) R = applyReentries as (sortedVector_add f R)"
| "applyReentries (Reenter_detachFunctor f # as) R = applyReentries as (sortedVector_remove f R)"

text \<open>
  The claim about re-registration, as a function: the functor set after a batch, when
  each functor is registered again exactly if the bitwise OR of the statuses returned up
  to and including its own has the invoke bit. \<open>R\<close> is the set so far, \<open>acc\<close> the
  status accumulated so far.
\<close>

fun registeredAfter :: "nat list \<Rightarrow> status_t \<Rightarrow> (nat \<times> status_t \<times> reentry list) list \<Rightarrow> nat list" where
  "registeredAfter R acc [] = R"
| "registeredAfter R acc ((f, r, acts) # rest) =
     registeredAfter
       (if (acc OR r) AND kStatusInvoke \<noteq> 0
        then sortedVector_add f (applyReentries acts R)
        else applyReentries acts R)
       (acc OR r) rest"

definition attachesItself :: "'w env \<Rightarrow> nat \<Rightarrow> bool" where
  \<comment> \<open>functor \<open>f\<close> calls \<^verbatim>\<open>attachFunctor\<close> on itself whenever it is invoked\<close>
  "attachesItself E f \<longleftrightarrow>
     (\<forall>info w. Reenter_attachFunctor f \<in> set (fst (snd (snd (functorImpl E f kModeProcess info w)))))"

definition reentrantEnv :: "nat env" where
  \<comment> \<open>every functor reports \<^verbatim>\<open>kStatusDone\<close>; functor 1 attaches itself while it runs\<close>
  "reentrantEnv =
     demoEnv\<lparr>functorImpl := (\<lambda>f m info w.
        (kStatusDone, info, if f = 1 then [Reenter_attachFunctor 1] else [], w + 1))\<rparr>"

definition nullTextureEnv :: "nat env" where
  \<comment> \<open>the concrete environment with a texture cache whose \<^verbatim>\<open>get\<close> fails\<close>
  "nullTextureEnv = demoEnv\<lparr>textureCache_get := (\<lambda>b w. (None, w))\<rparr>"

definition ignoredFrame :: "nat renderer" where
  \<comment> \<open>the prepared frame with a current snapshot that is flagged invisible\<close>
  "ignoredFrame =
     preparedFrame\<lparr>mSnapshot := [demoSnapshot\<lparr>invisible := True\<rparr>, demoSnapshot]\<rparr>"


section \<open>What every step leaves alone\<close>

subsection \<open>The elementary steps\<close>

lemma calls_gl [simp]: "calls (gl c s) = calls s @ [GL c]"
  by (simp add: gl_def)

lemma calls_objectCall [simp]: "calls (objectCall p c s) = calls s @ [ObjectCall p c]"
  by (simp add: objectCall_def)

lemma calls_callCaches [simp]: "calls (snd (callCaches E c s)) = calls s @ [CachesCall c]"
  by (simp add: callCaches_def split: prod.splits)

lemma calls_doCaches [simp]: "calls (doCaches E c s) = calls s @ [CachesCall c]"
  by (simp add: doCaches_def)

lemma calls_misc [simp]:
  "calls (dirtyClip s) = calls s"
  "calls (setFault s) = calls s"
  "calls (updateLayerAt a f s) = calls s"
  "calls (setCurrentProgram p s) = calls s"
  "calls (updateDescription g s) = calls s"
  "calls (setBlend b s) = calls s"
  "calls (setLastModes sm dm s) = calls s"
  "calls (setColorFields r g' b' a' s) = calls s"
  "calls (requireSnapshot s) = calls s"
  "calls (program_remove q s) = calls s @ [ObjectCall q Program_remove]"
  "calls (program_use q s) = calls s @ [ObjectCall q Program_use]"
  by (simp_all add: dirtyClip_def setFault_def updateLayerAt_def setCurrentProgram_def
      updateDescription_def setBlend_def setLastModes_def setColorFields_def requireSnapshot_def
      program_remove_def program_use_def)

lemma stack_gl [simp]: "mSaveCount (gl c s) = mSaveCount s" "mSnapshot (gl c s) = mSnapshot s"
  by (simp_all add: gl_def)

lemma stack_objectCall [simp]:
  "mSaveCount (objectCall p c s) = mSaveCount s" "mSnapshot (objectCall p c s) = mSnapshot s"
  by (simp_all add: objectCall_def)

lemma stack_callCaches [simp]:
  "mSaveCount (snd (callCaches E c s)) = mSaveCount s"
  "mSnapshot (snd (callCaches E c s)) = mSnapshot s"
  by (simp_all add: callCaches_def split: prod.splits)

lemma stack_doCaches [simp]:
  "mSaveCount (doCaches E c s) = mSaveCount s" "mSnapshot (doCaches E c s) = mSnapshot s"
  by (simp_all add: doCaches_def)

lemma stack_misc [simp]:
  "mSaveCount (dirtyClip s) = mSaveCount s" "mSnapshot (dirtyClip s) = mSnapshot s"
  "mSaveCount (setFault s) = mSaveCount s" "mSnapshot (setFault s) = mSnapshot s"
  "mSaveCount (updateLayerAt a f s) = mSaveCount s" "mSnapshot (updateLayerAt a f s) = mSnapshot s"
  "mSaveCount (setCurrentProgram p s) = mSaveCount s" "mSnapshot (setCurrentProgram p s) = mSnapshot s"
  "mSaveCount (updateDescription g s) = mSaveCount s" "mSnapshot (updateDescription g s) = mSnapshot s"
  "mSaveCount (setBlend b s) = mSaveCount s" "mSnapshot (setBlend b s) = mSnapshot s"
  "mSaveCount (setLastModes sm dm s) = mSaveCount s" "mSnapshot (setLastModes sm dm s) = mSnapshot s"
  "mSaveCount (setColorFields r g' b' a' s) = mSaveCount s"
  "mSnapshot (setColorFields r g' b' a' s) = mSnapshot s"
  "mSaveCount (requireSnapshot s) = mSaveCount s" "mSnapshot (requireSnapshot s) = mSnapshot s"
  "mSaveCount (program_remove q s) = mSaveCount s" "mSnapshot (program_remove q s) = mSnapshot s"
  "mSaveCount (program_use q s) = mSaveCount s" "mSnapshot (program_use q s) = mSnapshot s"
  by (simp_all add: dirtyClip_def setFault_def updateLayerAt_def setCurrentProgram_def
      updateDescription_def setBlend_def setLastModes_def setColorFields_def requireSnapshot_def
      program_remove_def program_use_def)

lemma current_cong: "mSnapshot s' = mSnapshot s \<Longrightarrow> current s' = current s"
  by (simp add: current_def)

named_theorems ext \<open>a step only appends to the calls\<close>

lemma ext_append [ext]: "prefix c xs \<Longrightarrow> prefix c (xs @ ys)"
  by (rule prefix_prefix)

lemma stack_debugOverdraw [simp]:
  "mSaveCount (debugOverdraw E en cl s) = mSaveCount s" "mSnapshot (debugOverdraw E en cl s) = mSnapshot s"
  by (simp_all add: debugOverdraw_def Let_def case_prod_beta withProgram_def split: option.splits)

lemma stack_interrupt [simp]:
  "mSaveCount (interrupt E s) = mSaveCount s" "mSnapshot (interrupt E s) = mSnapshot s"
  by (simp_all add: interrupt_def Let_def case_prod_beta withProgram_def split: option.splits)

lemma stack_resume [simp]:
  "mSaveCount (resume E s) = mSaveCount s" "mSnapshot (resume E s) = mSnapshot s"
  by (simp_all add: resume_def Let_def case_prod_beta withProgram_def split: option.splits)

lemma stack_dirtyLayerUnchecked [simp]:
  "mSaveCount (dirtyLayerUnchecked E bounds rg s) = mSaveCount s" "mSnapshot (dirtyLayerUnchecked E bounds rg s) = mSnapshot s"
  by (simp_all add: dirtyLayerUnchecked_def Let_def case_prod_beta withProgram_def split: option.splits)

lemma stack_dirtyLayer_mapped [simp]:
  "mSaveCount (dirtyLayer_mapped E l t r b m s) = mSaveCount s" "mSnapshot (dirtyLayer_mapped E l t r b m s) = mSnapshot s"
  by (simp_all add: dirtyLayer_mapped_def Let_def case_prod_beta withProgram_def split: option.splits)

lemma stack_dirtyLayer [simp]:
  "mSaveCount (dirtyLayer E l t r b s) = mSaveCount s" "mSnapshot (dirtyLayer E l t r b s) = mSnapshot s"
  by (simp_all add: dirtyLayer_def Let_def case_prod_beta withProgram_def split: option.splits)

lemma stack_startTiling [simp]:
  "mSaveCount (startTiling E s) = mSaveCount s" "mSnapshot (startTiling E s) = mSnapshot s"
  by (simp_all add: startTiling_def Let_def case_prod_beta withProgram_def split: option.splits)

lemma stack_endTiling [simp]:
  "mSaveCount (endTiling E s) = mSaveCount s" "mSnapshot (endTiling E s) = mSnapshot s"
  by (simp_all add: endTiling_def Let_def case_prod_beta withProgram_def split: option.splits)

lemma stack_setScissorFromClip [simp]:
  "mSaveCount (setScissorFromClip E s) = mSaveCount s" "mSnapshot (setScissorFromClip E s) = mSnapshot s"
  by (simp_all add: setScissorFromClip_def Let_def case_prod_beta withProgram_def split: option.splits)

lemma stack_attachStencilBufferToLayer [simp]:
  "mSaveCount (attachStencilBufferToLayer E a s) = mSaveCount s" "mSnapshot (attachStencilBufferToLayer E a s) = mSnapshot s"
  by (simp_all add: attachStencilBufferToLayer_def Let_def case_prod_beta withProgram_def split: option.splits)

lemma stack_ensureStencilBuffer [simp]:
  "mSaveCount (ensureStencilBuffer E s) = mSaveCount s" "mSnapshot (ensureStencilBuffer E s) = mSnapshot s"
  by (simp_all add: ensureStencilBuffer_def Let_def case_prod_beta withProgram_def split: option.splits)

lemma stack_quickReject [simp]:
  "mSaveCount (snd (quickReject E l t r b s)) = mSaveCount s" "mSnapshot (snd (quickReject E l t r b s)) = mSnapshot s"
  by (simp_all add: quickReject_def Let_def case_prod_beta withProgram_def split: option.splits)

lemma stack_setupDrawWithTexture [simp]:
  "mSaveCount (setupDrawWithTexture x s) = mSaveCount s" "mSnapshot (setupDrawWithTexture x s) = mSnapshot s"
  by (simp_all add: setupDrawWithTexture_def Let_def case_prod_beta withProgram_def split: option.splits)

lemma stack_setupDrawWithTextureAndColor [simp]:
  "mSaveCount (setupDrawWithTextureAndColor x s) = mSaveCount s" "mSnapshot (setupDrawWithTextureAndColor x s) = mSnapshot s"
  by (simp_all add: setupDrawWithTextureAndColor_def Let_def case_prod_beta withProgram_def split: option.splits)

lemma stack_setupDrawWithExternalTexture [simp]:
  "mSaveCount (setupDrawWithExternalTexture s) = mSaveCount s" "mSnapshot (setupDrawWithExternalTexture s) = mSnapshot s"
  by (simp_all add: setupDrawWithExternalTexture_def Let_def case_prod_beta withProgram_def split: option.splits)

lemma stack_setupDrawNoTexture [simp]:
  "mSaveCount (setupDrawNoTexture E s) = mSaveCount s" "mSnapshot (setupDrawNoTexture E s) = mSnapshot s"
  by (simp_all add: setupDrawNoTexture_def Let_def case_prod_beta withProgram_def split: option.splits)

lemma stack_setupDrawAA [simp]:
  "mSaveCount (setupDrawAA s) = mSaveCount s" "mSnapshot (setupDrawAA s) = mSnapshot s"
  by (simp_all add: setupDrawAA_def Let_def case_prod_beta withProgram_def split: option.splits)

lemma stack_setupDrawPoint [simp]:
  "mSaveCount (setupDrawPoint x s) = mSaveCount s" "mSnapshot (setupDrawPoint x s) = mSnapshot s"
  by (simp_all add: setupDrawPoint_def Let_def case_prod_beta withProgram_def split: option.splits)

lemma stack_setupDrawColor_float [simp]:
  "mSaveCount (setupDrawColor_float E r g b a s) = mSaveCount s" "mSnapshot (setupDrawColor_float E r g b a s) = mSnapshot s"
  by (simp_all add: setupDrawColor_float_def Let_def case_prod_beta withProgram_def split: option.splits)

lemma stack_setupDrawColor [simp]:
  "mSaveCount (setupDrawColor E c a s) = mSaveCount s" "mSnapshot (setupDrawColor E c a s) = mSnapshot s"
  by (simp_all add: setupDrawColor_def Let_def case_prod_beta withProgram_def split: option.splits)

lemma stack_setupDrawAlpha8Color [simp]:
  "mSaveCount (setupDrawAlpha8Color E c a s) = mSaveCount s" "mSnapshot (setupDrawAlpha8Color E c a s) = mSnapshot s"
  by (simp_all add: setupDrawAlpha8Color_def Let_def case_prod_beta withProgram_def split: option.splits)

lemma stack_setupDrawShader [simp]:
  "mSaveCount (setupDrawShader E s) = mSaveCount s" "mSnapshot (setupDrawShader E s) = mSnapshot s"
  by (simp_all add: setupDrawShader_def Let_def case_prod_beta withProgram_def split: option.splits)

lemma stack_setupDrawColorFilter [simp]:
  "mSaveCount (setupDrawColorFilter E s) = mSaveCount s" "mSnapshot (setupDrawColorFilter E s) = mSnapshot s"
  by (simp_all add: setupDrawColorFilter_def Let_def case_prod_beta withProgram_def split: option.splits)

lemma stack_accountForClear [simp]:
  "mSaveCount (accountForClear m s) = mSaveCount s" "mSnapshot (accountForClear m s) = mSnapshot s"
  by (simp_all add: accountForClear_def Let_def case_prod_beta withProgram_def split: option.splits)

lemma stack_chooseBlending [simp]:
  "mSaveCount (chooseBlending E bl m sw s) = mSaveCount s" "mSnapshot (chooseBlending E bl m sw s) = mSnapshot s"
  by (simp_all add: chooseBlending_def Let_def case_prod_beta withProgram_def split: option.splits)

lemma stack_setupDrawBlending_mode [simp]:
  "mSaveCount (setupDrawBlending_mode E m sw s) = mSaveCount s" "mSnapshot (setupDrawBlending_mode E m sw s) = mSnapshot s"
  by (simp_all add: setupDrawBlending_mode_def Let_def case_prod_beta withProgram_def split: option.splits)

lemma stack_setupDrawBlending [simp]:
  "mSaveCount (setupDrawBlending E bl m sw s) = mSaveCount s" "mSnapshot (setupDrawBlending E bl m sw s) = mSnapshot s"
  by (simp_all add: setupDrawBlending_def Let_def case_prod_beta withProgram_def split: option.splits)

lemma stack_useProgram [simp]:
  "mSaveCount (snd (useProgram p s)) = mSaveCount s" "mSnapshot (snd (useProgram p s)) = mSnapshot s"
  by (simp_all add: useProgram_def Let_def case_prod_beta withProgram_def split: option.splits)

lemma stack_setupDrawProgram [simp]:
  "mSaveCount (setupDrawProgram E s) = mSaveCount s" "mSnapshot (setupDrawProgram E s) = mSnapshot s"
  by (simp_all add: setupDrawProgram_def Let_def case_prod_beta withProgram_def split: option.splits)

lemma stack_setupDrawDirtyRegionsDisabled [simp]:
  "mSaveCount (setupDrawDirtyRegionsDisabled s) = mSaveCount s" "mSnapshot (setupDrawDirtyRegionsDisabled s) = mSnapshot s"
  by (simp_all add: setupDrawDirtyRegionsDisabled_def Let_def case_prod_beta withProgram_def split: option.splits)

lemma stack_setupDrawModelViewTranslate [simp]:
  "mSaveCount (setupDrawModelViewTranslate E l t r b i s) = mSaveCount s" "mSnapshot (setupDrawModelViewTranslate E l t r b i s) = mSnapshot s"
  by (simp_all add: setupDrawModelViewTranslate_def Let_def case_prod_beta withProgram_def split: option.splits)

lemma stack_setupDrawModelViewIdentity [simp]:
  "mSaveCount (setupDrawModelViewIdentity off s) = mSaveCount s" "mSnapshot (setupDrawModelViewIdentity off s) = mSnapshot s"
  by (simp_all add: setupDrawModelViewIdentity_def Let_def case_prod_beta withProgram_def split: option.splits)

lemma stack_setupDrawModelView [simp]:
  "mSaveCount (setupDrawModelView E l t r b i j s) = mSaveCount s" "mSnapshot (setupDrawModelView E l t r b i j s) = mSnapshot s"
  by (simp_all add: setupDrawModelView_def Let_def case_prod_beta withProgram_def split: option.splits)

lemma stack_setupDrawPointUniforms [simp]:
  "mSaveCount (setupDrawPointUniforms s) = mSaveCount s" "mSnapshot (setupDrawPointUniforms s) = mSnapshot s"
  by (simp_all add: setupDrawPointUniforms_def Let_def case_prod_beta withProgram_def split: option.splits)

lemma stack_programSetColor [simp]:
  "mSaveCount (programSetColor s) = mSaveCount s" "mSnapshot (programSetColor s) = mSnapshot s"
  by (simp_all add: programSetColor_def Let_def case_prod_beta withProgram_def split: option.splits)

lemma stack_setupDrawColorUniforms [simp]:
  "mSaveCount (setupDrawColorUniforms s) = mSaveCount s" "mSnapshot (setupDrawColorUniforms s) = mSnapshot s"
  by (simp_all add: setupDrawColorUniforms_def Let_def case_prod_beta withProgram_def split: option.splits)

lemma stack_setupDrawPureColorUniforms [simp]:
  "mSaveCount (setupDrawPureColorUniforms s) = mSaveCount s" "mSnapshot (setupDrawPureColorUniforms s) = mSnapshot s"
  by (simp_all add: setupDrawPureColorUniforms_def Let_def case_prod_beta withProgram_def split: option.splits)

lemma stack_setupDrawShaderUniforms [simp]:
  "mSaveCount (setupDrawShaderUniforms E i s) = mSaveCount s" "mSnapshot (setupDrawShaderUniforms E i s) = mSnapshot s"
  by (simp_all add: setupDrawShaderUniforms_def Let_def case_prod_beta withProgram_def split: option.splits)

lemma stack_setupDrawShaderIdentityUniforms [simp]:
  "mSaveCount (setupDrawShaderIdentityUniforms E s) = mSaveCount s" "mSnapshot (setupDrawShaderIdentityUniforms E s) = mSnapshot s"
  by (simp_all add: setupDrawShaderIdentityUniforms_def Let_def case_prod_beta withProgram_def split: option.splits)

lemma stack_setupDrawColorFilterUniforms [simp]:
  "mSaveCount (setupDrawColorFilterUniforms s) = mSaveCount s" "mSnapshot (setupDrawColorFilterUniforms s) = mSnapshot s"
  by (simp_all add: setupDrawColorFilterUniforms_def Let_def case_prod_beta withProgram_def split: option.splits)

lemma stack_setupDrawSimpleMesh [simp]:
  "mSaveCount (setupDrawSimpleMesh E s) = mSaveCount s" "mSnapshot (setupDrawSimpleMesh E s) = mSnapshot s"
  by (simp_all add: setupDrawSimpleMesh_def Let_def case_prod_beta withProgram_def split: option.splits)

lemma stack_setupDrawTexture [simp]:
  "mSaveCount (setupDrawTexture E tx s) = mSaveCount s" "mSnapshot (setupDrawTexture E tx s) = mSnapshot s"
  by (simp_all add: setupDrawTexture_def Let_def case_prod_beta withProgram_def split: option.splits)

lemma stack_setupDrawExternalTexture [simp]:
  "mSaveCount (setupDrawExternalTexture E tx s) = mSaveCount s" "mSnapshot (setupDrawExternalTexture E tx s) = mSnapshot s"
  by (simp_all add: setupDrawExternalTexture_def Let_def case_prod_beta withProgram_def split: option.splits)

lemma stack_setupDrawTextureTransform [simp]:
  "mSaveCount (setupDrawTextureTransform s) = mSaveCount s" "mSnapshot (setupDrawTextureTransform s) = mSnapshot s"
  by (simp_all add: setupDrawTextureTransform_def Let_def case_prod_beta withProgram_def split: option.splits)

lemma stack_setupDrawTextureTransformUniforms [simp]:
  "mSaveCount (setupDrawTextureTransformUniforms s) = mSaveCount s" "mSnapshot (setupDrawTextureTransformUniforms s) = mSnapshot s"
  by (simp_all add: setupDrawTextureTransformUniforms_def Let_def case_prod_beta withProgram_def split: option.splits)

lemma stack_bindTexCoordsIfUsed [simp]:
  "mSaveCount (bindTexCoordsIfUsed E force s) = mSaveCount s" "mSnapshot (bindTexCoordsIfUsed E force s) = mSnapshot s"
  by (simp_all add: bindTexCoordsIfUsed_def Let_def case_prod_beta withProgram_def split: option.splits)

lemma stack_setupDrawMesh [simp]:
  "mSaveCount (setupDrawMesh E v vbo s) = mSaveCount s" "mSnapshot (setupDrawMesh E v vbo s) = mSnapshot s"
  by (simp_all add: setupDrawMesh_def Let_def case_prod_beta withProgram_def split: option.splits)

lemma stack_setupDrawMesh_colors [simp]:
  "mSaveCount (setupDrawMesh_colors E s) = mSaveCount s" "mSnapshot (setupDrawMesh_colors E s) = mSnapshot s"
  by (simp_all add: setupDrawMesh_colors_def Let_def case_prod_beta withProgram_def split: option.splits)

lemma stack_setupDrawMeshIndices [simp]:
  "mSaveCount (setupDrawMeshIndices E s) = mSaveCount s" "mSnapshot (setupDrawMeshIndices E s) = mSnapshot s"
  by (simp_all add: setupDrawMeshIndices_def Let_def case_prod_beta withProgram_def split: option.splits)

lemma stack_setupDrawVertices [simp]:
  "mSaveCount (setupDrawVertices E s) = mSaveCount s" "mSnapshot (setupDrawVertices E s) = mSnapshot s"
  by (simp_all add: setupDrawVertices_def Let_def case_prod_beta withProgram_def split: option.splits)

lemma stack_finishDrawTexture [simp]:
  "mSaveCount (finishDrawTexture s) = mSaveCount s" "mSnapshot (finishDrawTexture s) = mSnapshot s"
  by (simp_all add: finishDrawTexture_def Let_def case_prod_beta withProgram_def split: option.splits)

lemma stack_resetDrawState [simp]:
  "mSaveCount (resetDrawState E s) = mSaveCount s" "mSnapshot (resetDrawState E s) = mSnapshot s"
  by (simp_all add: resetDrawState_def Let_def case_prod_beta withProgram_def split: option.splits)

lemma stack_stencilPrepare [simp]:
  "mSaveCount (stencilPrepare E s) = mSaveCount s" "mSnapshot (stencilPrepare E s) = mSnapshot s"
  by (simp_all add: stencilPrepare_def Let_def case_prod_beta withProgram_def split: option.splits)


subsection \<open>The draws inside \<open>setupDraw\<close>\<close>

lemmas setupDraw_induct =
  setupDraw_clearLayerRegions_setStencilFromClip_drawRegionRects_drawColorRects.induct

lemma stack_setupDraw_group:
  "mSaveCount (setupDraw E cl s) = mSaveCount s \<and> mSnapshot (setupDraw E cl s) = mSnapshot s"
  "mSaveCount (clearLayerRegions E s) = mSaveCount s \<and> mSnapshot (clearLayerRegions E s) = mSnapshot s"
  "mSaveCount (setStencilFromClip E s) = mSaveCount s \<and> mSnapshot (setStencilFromClip E s) = mSnapshot s"
  "mSaveCount (drawRegionRects E rg color m dirty s) = mSaveCount s
     \<and> mSnapshot (drawRegionRects E rg color m dirty s) = mSnapshot s"
  "mSaveCount (snd (drawColorRects E rects color m ignoreTransform dirty clip s)) = mSaveCount s
     \<and> mSnapshot (snd (drawColorRects E rects color m ignoreTransform dirty clip s)) = mSnapshot s"
proof (induction E cl s and E s and E s and E rg color m dirty s
         and E rects color m ignoreTransform dirty clip s rule: setupDraw_induct)
  case (1 E cl s)
  let ?s1 = "if cl then clearLayerRegions E s else s"
  let ?arg = "if scissorEnabled (caches ?s1) then setScissorFromClip E ?s1 else ?s1"
  have a: "mSaveCount ?s1 = mSaveCount s \<and> mSnapshot ?s1 = mSnapshot s"
    using "1.IH"(1) by simp
  have b: "mDirtyClip ?s1 \<and> mDirtyClip s \<Longrightarrow>
      mSaveCount (setStencilFromClip E ?arg) = mSaveCount ?arg
      \<and> mSnapshot (setStencilFromClip E ?arg) = mSnapshot ?arg"
    using "1.IH"(2) [OF refl] by blast
  have c: "mSaveCount ?arg = mSaveCount s \<and> mSnapshot ?arg = mSnapshot s"
    using a by simp
  show ?case
    unfolding setupDraw.simps [of E cl s] Let_def
    using a b c by (simp add: resetDrawState_def)
next
  case (2 E s)
  let ?p = "callCaches E Caches_disableScissor s"
  have a: "mLayers s \<noteq> [] \<Longrightarrow> \<not> isIgnored (current s) \<Longrightarrow>
      mSaveCount (setupDraw E False ((snd ?p)\<lparr>mLayers := []\<rparr>)) = mSaveCount s
      \<and> mSnapshot (setupDraw E False ((snd ?p)\<lparr>mLayers := []\<rparr>)) = mSnapshot s"
    using "2.IH" [OF refl _ _ prod.collapse refl] by simp
  show ?case
    unfolding clearLayerRegions.simps [of E s] Let_def
    using a by (simp add: case_prod_beta)
next
  case (3 E s)
  let ?s1 = "drawRegionRects E (clipRegion (current s)) 0xff000000 kSrc_Mode False (stencilPrepare E s)"
  let ?s2 = "doCaches E Caches_stencil_enableTest ?s1"
  have a: "\<not> debugOverdrawFlag (caches s) \<Longrightarrow> clipRegion (current s) \<noteq> [] \<Longrightarrow>
      mSaveCount ?s1 = mSaveCount s \<and> mSnapshot ?s1 = mSnapshot s"
    using "3.IH"(1) by simp
  have b: "\<not> debugOverdrawFlag (caches s) \<Longrightarrow> clipRegion (current s) \<noteq> [] \<Longrightarrow>
      debugStencilClip (caches ?s2) = kStencilShowRegion \<and> \<not> mDirtyClip ?s2 \<Longrightarrow>
      mSaveCount (drawRegionRects E (clipRegion (current ?s2)) 0x7f0000ff kSrcOver_Mode True ?s2)
        = mSaveCount ?s2
      \<and> mSnapshot (drawRegionRects E (clipRegion (current ?s2)) 0x7f0000ff kSrcOver_Mode True ?s2)
        = mSnapshot ?s2"
    using "3.IH"(2) [OF _ _ refl refl] by blast
  show ?case
    unfolding setStencilFromClip.simps [of E s] Let_def
    using a b by simp
next
  case (4 E rg color m dirty s)
  then show ?case
    by (simp add: drawRegionRects.simps)
next
  case (5 E rects color m ignoreTransform dirty clip s)
  let ?l = "drawColorRects_loop ignoreTransform s rects (mkRect FLT_MAX FLT_MAX FLT_MIN FLT_MIN, 0)"
  let ?q = "if rects = [] then (True, s)
            else if clip then quickReject E (left (fst ?l)) (topR (fst ?l)) (right (fst ?l)) (bottom (fst ?l)) s
            else (False, s)"
  have q: "mSaveCount (snd ?q) = mSaveCount s \<and> mSnapshot (snd ?q) = mSnapshot s"
    by simp
  have a: "\<not> fst ?q \<Longrightarrow>
      mSaveCount (setupDraw E True (snd ?q)) = mSaveCount s
      \<and> mSnapshot (setupDraw E True (snd ?q)) = mSnapshot s"
    using "5.IH" [OF prod.collapse prod.collapse] q by simp
  show ?case
    unfolding drawColorRects.simps [of E rects color m ignoreTransform dirty clip s] Let_def
      case_prod_beta
    using a q by (cases "fst ?q") simp_all
qed

lemma stack_setupDraw [simp]:
  "mSaveCount (setupDraw E cl s) = mSaveCount s" "mSnapshot (setupDraw E cl s) = mSnapshot s"
  "mSaveCount (clearLayerRegions E s) = mSaveCount s" "mSnapshot (clearLayerRegions E s) = mSnapshot s"
  "mSaveCount (setStencilFromClip E s) = mSaveCount s" "mSnapshot (setStencilFromClip E s) = mSnapshot s"
  "mSaveCount (drawRegionRects E rg color m dirty s) = mSaveCount s"
  "mSnapshot (drawRegionRects E rg color m dirty s) = mSnapshot s"
  "mSaveCount (snd (drawColorRects E rects color m ignoreTransform dirty clip s)) = mSaveCount s"
  "mSnapshot (snd (drawColorRects E rects color m ignoreTransform dirty clip s)) = mSnapshot s"
  by (simp_all add: stack_setupDraw_group)

subsection \<open>Drawing and composing\<close>

lemma stack_resetDrawTextureTexCoords [simp]:
  "mSaveCount (resetDrawTextureTexCoords u1 v1 u2 v2 s) = mSaveCount s" "mSnapshot (resetDrawTextureTexCoords u1 v1 u2 v2 s) = mSnapshot s"
  by (simp_all add: resetDrawTextureTexCoords_def Let_def case_prod_beta withProgram_def split: option.splits)

lemma stack_drawColorRect [simp]:
  "mSaveCount (drawColorRect E l t r b c m i s) = mSaveCount s" "mSnapshot (drawColorRect E l t r b c m i s) = mSnapshot s"
  by (simp_all add: drawColorRect_def Let_def case_prod_beta withProgram_def split: option.splits)

lemma stack_drawTextureMesh [simp]:
  "mSaveCount (drawTextureMesh E l t r b tx a m bl v dm n sw i vbo isc d s) = mSaveCount s" "mSnapshot (drawTextureMesh E l t r b tx a m bl v dm n sw i vbo isc d s) = mSnapshot s"
  by (simp_all add: drawTextureMesh_def Let_def case_prod_beta withProgram_def split: option.splits)

lemma stack_drawAlpha8TextureMesh [simp]:
  "mSaveCount (drawAlpha8TextureMesh E l t r b tx hc c a m v dm n i d s) = mSaveCount s" "mSnapshot (drawAlpha8TextureMesh E l t r b tx hc c a m v dm n i d s) = mSnapshot s"
  by (simp_all add: drawAlpha8TextureMesh_def Let_def case_prod_beta withProgram_def split: option.splits)

lemma stack_layerSetFilter [simp]:
  "mSaveCount (layerSetFilter a f bt s) = mSaveCount s" "mSnapshot (layerSetFilter a f bt s) = mSnapshot s"
  by (simp_all add: layerSetFilter_def Let_def case_prod_beta withProgram_def split: option.splits)

lemma stack_drawTextureLayer [simp]:
  "mSaveCount (drawTextureLayer E a rect s) = mSaveCount s" "mSnapshot (drawTextureLayer E a rect s) = mSnapshot s"
  by (simp_all add: drawTextureLayer_def Let_def case_prod_beta withProgram_def split: option.splits)

lemma stack_composeLayerRect [simp]:
  "mSaveCount (composeLayerRect E a rect sw s) = mSaveCount s" "mSnapshot (composeLayerRect E a rect sw s) = mSnapshot s"
  by (simp_all add: composeLayerRect_def Let_def case_prod_beta withProgram_def split: option.splits)

lemma stack_composeLayerRegion_loop [simp]:
  "mSaveCount (snd (composeLayerRegion_loop E rects n s)) = mSaveCount s"
  "mSnapshot (snd (composeLayerRegion_loop E rects n s)) = mSnapshot s"
  by (induction E rects n s rule: composeLayerRegion_loop.induct) simp_all

lemma stack_composeLayerRegion [simp]:
  "mSaveCount (composeLayerRegion E a rect s) = mSaveCount s" "mSnapshot (composeLayerRegion E a rect s) = mSnapshot s"
  by (simp_all add: composeLayerRegion_def Let_def case_prod_beta withProgram_def split: option.splits)

lemma stack_setupColorFilter [simp]:
  "mSaveCount (setupColorFilter f s) = mSaveCount s" "mSnapshot (setupColorFilter f s) = mSnapshot s"
  by (simp_all add: setupColorFilter_def Let_def case_prod_beta withProgram_def split: option.splits)

lemma stack_resetColorFilter [simp]:
  "mSaveCount (resetColorFilter s) = mSaveCount s" "mSnapshot (resetColorFilter s) = mSnapshot s"
  by (simp_all add: resetColorFilter_def Let_def case_prod_beta withProgram_def split: option.splits)

lemma stack_composeLayer [simp]:
  "mSaveCount (composeLayer E cur s) = mSaveCount s" "mSnapshot (composeLayer E cur s) = mSnapshot s"
  by (simp_all add: composeLayer_def Let_def case_prod_beta withProgram_def split: option.splits)

section \<open>Every step only appends to the calls\<close>

lemma ext_gl [ext]: "prefix tr0 (calls s) \<Longrightarrow> prefix tr0 (calls (gl x s))"
  by (simp add: prefix_prefix)

lemma ext_objectCall [ext]: "prefix tr0 (calls s) \<Longrightarrow> prefix tr0 (calls (objectCall p x s))"
  by (simp add: prefix_prefix)

lemma ext_callCaches [ext]: "prefix tr0 (calls s) \<Longrightarrow> prefix tr0 (calls (snd (callCaches E x s)))"
  by (simp add: prefix_prefix)

lemma ext_doCaches [ext]: "prefix tr0 (calls s) \<Longrightarrow> prefix tr0 (calls (doCaches E x s))"
  by (simp add: prefix_prefix)

lemma ext_program [ext]:
  "prefix tr0 (calls s) \<Longrightarrow> prefix tr0 (calls (program_remove q s))"
  "prefix tr0 (calls s) \<Longrightarrow> prefix tr0 (calls (program_use q s))"
  by (simp_all add: prefix_prefix)

lemma ext_debugOverdraw [ext]:
  "prefix tr0 (calls s) \<Longrightarrow> prefix tr0 (calls (debugOverdraw E en cl s))"
  by (auto simp: debugOverdraw_def Let_def case_prod_beta withProgram_def split: option.splits intro!: ext)

lemma ext_interrupt [ext]:
  "prefix tr0 (calls s) \<Longrightarrow> prefix tr0 (calls (interrupt E s))"
  by (auto simp: interrupt_def Let_def case_prod_beta withProgram_def split: option.splits intro!: ext)

lemma ext_resume [ext]:
  "prefix tr0 (calls s) \<Longrightarrow> prefix tr0 (calls (resume E s))"
  by (auto simp: resume_def Let_def case_prod_beta withProgram_def split: option.splits intro!: ext)

lemma ext_dirtyLayerUnchecked [ext]:
  "prefix tr0 (calls s) \<Longrightarrow> prefix tr0 (calls (dirtyLayerUnchecked E bounds rg s))"
  by (auto simp: dirtyLayerUnchecked_def Let_def case_prod_beta withProgram_def split: option.splits intro!: ext)

lemma ext_dirtyLayer_mapped [ext]:
  "prefix tr0 (calls s) \<Longrightarrow> prefix tr0 (calls (dirtyLayer_mapped E l t r b m s))"
  by (auto simp: dirtyLayer_mapped_def Let_def case_prod_beta withProgram_def split: option.splits intro!: ext)

lemma ext_dirtyLayer [ext]:
  "prefix tr0 (calls s) \<Longrightarrow> prefix tr0 (calls (dirtyLayer E l t r b s))"
  by (auto simp: dirtyLayer_def Let_def case_prod_beta withProgram_def split: option.splits intro!: ext)

lemma ext_startTiling [ext]:
  "prefix tr0 (calls s) \<Longrightarrow> prefix tr0 (calls (startTiling E s))"
  by (auto simp: startTiling_def Let_def case_prod_beta withProgram_def split: option.splits intro!: ext)

lemma ext_endTiling [ext]:
  "prefix tr0 (calls s) \<Longrightarrow> prefix tr0 (calls (endTiling E s))"
  by (auto simp: endTiling_def Let_def case_prod_beta withProgram_def split: option.splits intro!: ext)

lemma ext_setScissorFromClip [ext]:
  "prefix tr0 (calls s) \<Longrightarrow> prefix tr0 (calls (setScissorFromClip E s))"
  by (auto simp: setScissorFromClip_def Let_def case_prod_beta withProgram_def split: option.splits intro!: ext)

lemma ext_attachStencilBufferToLayer [ext]:
  "prefix tr0 (calls s) \<Longrightarrow> prefix tr0 (calls (attachStencilBufferToLayer E a s))"
  by (auto simp: attachStencilBufferToLayer_def Let_def case_prod_beta withProgram_def split: option.splits intro!: ext)

lemma ext_ensureStencilBuffer [ext]:
  "prefix tr0 (calls s) \<Longrightarrow> prefix tr0 (calls (ensureStencilBuffer E s))"
  by (auto simp: ensureStencilBuffer_def Let_def case_prod_beta withProgram_def split: option.splits intro!: ext)

lemma ext_quickReject [ext]:
  "prefix tr0 (calls s) \<Longrightarrow> prefix tr0 (calls (snd (quickReject E l t r b s)))"
  by (auto simp: quickReject_def Let_def case_prod_beta withProgram_def split: option.splits intro!: ext)

lemma ext_setupDrawWithTexture [ext]:
  "prefix tr0 (calls s) \<Longrightarrow> prefix tr0 (calls (setupDrawWithTexture x s))"
  by (auto simp: setupDrawWithTexture_def Let_def case_prod_beta withProgram_def split: option.splits intro!: ext)

lemma ext_setupDrawWithTextureAndColor [ext]:
  "prefix tr0 (calls s) \<Longrightarrow> prefix tr0 (calls (setupDrawWithTextureAndColor x s))"
  by (auto simp: setupDrawWithTextureAndColor_def Let_def case_prod_beta withProgram_def split: option.splits intro!: ext)

lemma ext_setupDrawWithExternalTexture [ext]:
  "prefix tr0 (calls s) \<Longrightarrow> prefix tr0 (calls (setupDrawWithExternalTexture s))"
  by (auto simp: setupDrawWithExternalTexture_def Let_def case_prod_beta withProgram_def split: option.splits intro!: ext)

lemma ext_setupDrawNoTexture [ext]:
  "prefix tr0 (calls s) \<Longrightarrow> prefix tr0 (calls (setupDrawNoTexture E s))"
  by (auto simp: setupDrawNoTexture_def Let_def case_prod_beta withProgram_def split: option.splits intro!: ext)

lemma ext_setupDrawAA [ext]:
  "prefix tr0 (calls s) \<Longrightarrow> prefix tr0 (calls (setupDrawAA s))"
  by (auto simp: setupDrawAA_def Let_def case_prod_beta withProgram_def split: option.splits intro!: ext)

lemma ext_setupDrawPoint [ext]:
  "prefix tr0 (calls s) \<Longrightarrow> prefix tr0 (calls (setupDrawPoint x s))"
  by (auto simp: setupDrawPoint_def Let_def case_prod_beta withProgram_def split: option.splits intro!: ext)

lemma ext_setupDrawColor_float [ext]:
  "prefix tr0 (calls s) \<Longrightarrow> prefix tr0 (calls (setupDrawColor_float E r g b a s))"
  by (auto simp: setupDrawColor_float_def Let_def case_prod_beta withProgram_def split: option.splits intro!: ext)

lemma ext_setupDrawColor [ext]:
  "prefix tr0 (calls s) \<Longrightarrow> prefix tr0 (calls (setupDrawColor E c a s))"
  by (auto simp: setupDrawColor_def Let_def case_prod_beta withProgram_def split: option.splits intro!: ext)

lemma ext_setupDrawAlpha8Color [ext]:
  "prefix tr0 (calls s) \<Longrightarrow> prefix tr0 (calls (setupDrawAlpha8Color E c a s))"
  by (auto simp: setupDrawAlpha8Color_def Let_def case_prod_beta withProgram_def split: option.splits intro!: ext)

lemma ext_setupDrawShader [ext]:
  "prefix tr0 (calls s) \<Longrightarrow> prefix tr0 (calls (setupDrawShader E s))"
  by (auto simp: setupDrawShader_def Let_def case_prod_beta withProgram_def split: option.splits intro!: ext)

lemma ext_setupDrawColorFilter [ext]:
  "prefix tr0 (calls s) \<Longrightarrow> prefix tr0 (calls (setupDrawColorFilter E s))"
  by (auto simp: setupDrawColorFilter_def Let_def case_prod_beta withProgram_def split: option.splits intro!: ext)

lemma ext_accountForClear [ext]:
  "prefix tr0 (calls s) \<Longrightarrow> prefix tr0 (calls (accountForClear m s))"
  by (auto simp: accountForClear_def Let_def case_prod_beta withProgram_def split: option.splits intro!: ext)

lemma ext_chooseBlending [ext]:
  "prefix tr0 (calls s) \<Longrightarrow> prefix tr0 (calls (chooseBlending E bl m sw s))"
  by (auto simp: chooseBlending_def Let_def case_prod_beta withProgram_def split: option.splits intro!: ext)

lemma ext_setupDrawBlending_mode [ext]:
  "prefix tr0 (calls s) \<Longrightarrow> prefix tr0 (calls (setupDrawBlending_mode E m sw s))"
  by (auto simp: setupDrawBlending_mode_def Let_def case_prod_beta withProgram_def split: option.splits intro!: ext)

lemma ext_setupDrawBlending [ext]:
  "prefix tr0 (calls s) \<Longrightarrow> prefix tr0 (calls (setupDrawBlending E bl m sw s))"
  by (auto simp: setupDrawBlending_def Let_def case_prod_beta withProgram_def split: option.splits intro!: ext)

lemma ext_useProgram [ext]:
  "prefix tr0 (calls s) \<Longrightarrow> prefix tr0 (calls (snd (useProgram p s)))"
  by (auto simp: useProgram_def Let_def case_prod_beta withProgram_def split: option.splits intro!: ext)

lemma ext_setupDrawProgram [ext]:
  "prefix tr0 (calls s) \<Longrightarrow> prefix tr0 (calls (setupDrawProgram E s))"
  by (auto simp: setupDrawProgram_def Let_def case_prod_beta withProgram_def split: option.splits intro!: ext)

lemma ext_setupDrawDirtyRegionsDisabled [ext]:
  "prefix tr0 (calls s) \<Longrightarrow> prefix tr0 (calls (setupDrawDirtyRegionsDisabled s))"
  by (auto simp: setupDrawDirtyRegionsDisabled_def Let_def case_prod_beta withProgram_def split: option.splits intro!: ext)

lemma ext_setupDrawModelViewTranslate [ext]:
  "prefix tr0 (calls s) \<Longrightarrow> prefix tr0 (calls (setupDrawModelViewTranslate E l t r b i s))"
  by (auto simp: setupDrawModelViewTranslate_def Let_def case_prod_beta withProgram_def split: option.splits intro!: ext)

lemma ext_setupDrawModelViewIdentity [ext]:
  "prefix tr0 (calls s) \<Longrightarrow> prefix tr0 (calls (setupDrawModelViewIdentity off s))"
  by (auto simp: setupDrawModelViewIdentity_def Let_def case_prod_beta withProgram_def split: option.splits intro!: ext)

lemma ext_setupDrawModelView [ext]:
  "prefix tr0 (calls s) \<Longrightarrow> prefix tr0 (calls (setupDrawModelView E l t r b i j s))"
  by (auto simp: setupDrawModelView_def Let_def case_prod_beta withProgram_def split: option.splits intro!: ext)

lemma ext_setupDrawPointUniforms [ext]:
  "prefix tr0 (calls s) \<Longrightarrow> prefix tr0 (calls (setupDrawPointUniforms s))"
  by (auto simp: setupDrawPointUniforms_def Let_def case_prod_beta withProgram_def split: option.splits intro!: ext)

lemma ext_programSetColor [ext]:
  "prefix tr0 (calls s) \<Longrightarrow> prefix tr0 (calls (programSetColor s))"
  by (auto simp: programSetColor_def Let_def case_prod_beta withProgram_def split: option.splits intro!: ext)

lemma ext_setupDrawColorUniforms [ext]:
  "prefix tr0 (calls s) \<Longrightarrow> prefix tr0 (calls (setupDrawColorUniforms s))"
  by (auto simp: setupDrawColorUniforms_def Let_def case_prod_beta withProgram_def split: option.splits intro!: ext)

lemma ext_setupDrawPureColorUniforms [ext]:
  "prefix tr0 (calls s) \<Longrightarrow> prefix tr0 (calls (setupDrawPureColorUniforms s))"
  by (auto simp: setupDrawPureColorUniforms_def Let_def case_prod_beta withProgram_def split: option.splits intro!: ext)

lemma ext_setupDrawShaderUniforms [ext]:
  "prefix tr0 (calls s) \<Longrightarrow> prefix tr0 (calls (setupDrawShaderUniforms E i s))"
  by (auto simp: setupDrawShaderUniforms_def Let_def case_prod_beta withProgram_def split: option.splits intro!: ext)

lemma ext_setupDrawShaderIdentityUniforms [ext]:
  "prefix tr0 (calls s) \<Longrightarrow> prefix tr0 (calls (setupDrawShaderIdentityUniforms E s))"
  by (auto simp: setupDrawShaderIdentityUniforms_def Let_def case_prod_beta withProgram_def split: option.splits intro!: ext)

lemma ext_setupDrawColorFilterUniforms [ext]:
  "prefix tr0 (calls s) \<Longrightarrow> prefix tr0 (calls (setupDrawColorFilterUniforms s))"
  by (auto simp: setupDrawColorFilterUniforms_def Let_def case_prod_beta withProgram_def split: option.splits intro!: ext)

lemma ext_setupDrawSimpleMesh [ext]:
  "prefix tr0 (calls s) \<Longrightarrow> prefix tr0 (calls (setupDrawSimpleMesh E s))"
  by (auto simp: setupDrawSimpleMesh_def Let_def case_prod_beta withProgram_def split: option.splits intro!: ext)

lemma ext_setupDrawTexture [ext]:
  "prefix tr0 (calls s) \<Longrightarrow> prefix tr0 (calls (setupDrawTexture E tx s))"
  by (auto simp: setupDrawTexture_def Let_def case_prod_beta withProgram_def split: option.splits intro!: ext)

lemma ext_setupDrawExternalTexture [ext]:
  "prefix tr0 (calls s) \<Longrightarrow> prefix tr0 (calls (setupDrawExternalTexture E tx s))"
  by (auto simp: setupDrawExternalTexture_def Let_def case_prod_beta withProgram_def split: option.splits intro!: ext)

lemma ext_setupDrawTextureTransform [ext]:
  "prefix tr0 (calls s) \<Longrightarrow> prefix tr0 (calls (setupDrawTextureTransform s))"
  by (auto simp: setupDrawTextureTransform_def Let_def case_prod_beta withProgram_def split: option.splits intro!: ext)

lemma ext_setupDrawTextureTransformUniforms [ext]:
  "prefix tr0 (calls s) \<Longrightarrow> prefix tr0 (calls (setupDrawTextureTransformUniforms s))"
  by (auto simp: setupDrawTextureTransformUniforms_def Let_def case_prod_beta withProgram_def split: option.splits intro!: ext)

lemma ext_bindTexCoordsIfUsed [ext]:
  "prefix tr0 (calls s) \<Longrightarrow> prefix tr0 (calls (bindTexCoordsIfUsed E force s))"
  by (auto simp: bindTexCoordsIfUsed_def Let_def case_prod_beta withProgram_def split: option.splits intro!: ext)

lemma ext_setupDrawMesh [ext]:
  "prefix tr0 (calls s) \<Longrightarrow> prefix tr0 (calls (setupDrawMesh E v vbo s))"
  by (auto simp: setupDrawMesh_def Let_def case_prod_beta withProgram_def split: option.splits intro!: ext)

lemma ext_setupDrawMesh_colors [ext]:
  "prefix tr0 (calls s) \<Longrightarrow> prefix tr0 (calls (setupDrawMesh_colors E s))"
  by (auto simp: setupDrawMesh_colors_def Let_def case_prod_beta withProgram_def split: option.splits intro!: ext)

lemma ext_setupDrawMeshIndices [ext]:
  "prefix tr0 (calls s) \<Longrightarrow> prefix tr0 (calls (setupDrawMeshIndices E s))"
  by (auto simp: setupDrawMeshIndices_def Let_def case_prod_beta withProgram_def split: option.splits intro!: ext)

lemma ext_setupDrawVertices [ext]:
  "prefix tr0 (calls s) \<Longrightarrow> prefix tr0 (calls (setupDrawVertices E s))"
  by (auto simp: setupDrawVertices_def Let_def case_prod_beta withProgram_def split: option.splits intro!: ext)

lemma ext_finishDrawTexture [ext]:
  "prefix tr0 (calls s) \<Longrightarrow> prefix tr0 (calls (finishDrawTexture s))"
  by (auto simp: finishDrawTexture_def Let_def case_prod_beta withProgram_def split: option.splits intro!: ext)

lemma ext_resetDrawState [ext]:
  "prefix tr0 (calls s) \<Longrightarrow> prefix tr0 (calls (resetDrawState E s))"
  by (auto simp: resetDrawState_def Let_def case_prod_beta withProgram_def split: option.splits intro!: ext)

lemma ext_stencilPrepare [ext]:
  "prefix tr0 (calls s) \<Longrightarrow> prefix tr0 (calls (stencilPrepare E s))"
  by (auto simp: stencilPrepare_def Let_def case_prod_beta withProgram_def split: option.splits intro!: ext)

lemma ext_setupDraw_group:
  "prefix tr0 (calls s) \<longrightarrow> prefix tr0 (calls (setupDraw E cl s))"
  "prefix tr0 (calls s) \<longrightarrow> prefix tr0 (calls (clearLayerRegions E s))"
  "prefix tr0 (calls s) \<longrightarrow> prefix tr0 (calls (setStencilFromClip E s))"
  "prefix tr0 (calls s) \<longrightarrow> prefix tr0 (calls (drawRegionRects E rg color m dirty s))"
  "prefix tr0 (calls s) \<longrightarrow> prefix tr0 (calls (snd (drawColorRects E rects color m ignoreTransform dirty clip s)))"
proof (induction E cl s and E s and E s and E rg color m dirty s
         and E rects color m ignoreTransform dirty clip s rule: setupDraw_induct)
  case (1 E cl s)
  let ?s1 = "if cl then clearLayerRegions E s else s"
  let ?arg = "if scissorEnabled (caches ?s1) then setScissorFromClip E ?s1 else ?s1"
  have a: "prefix tr0 (calls s) \<Longrightarrow> prefix tr0 (calls ?s1)"
    using "1.IH"(1) by simp
  have b: "mDirtyClip ?s1 \<and> mDirtyClip s \<Longrightarrow> prefix tr0 (calls ?arg)
      \<Longrightarrow> prefix tr0 (calls (setStencilFromClip E ?arg))"
    using "1.IH"(2) [OF refl] by blast
  have d: "prefix tr0 (calls ?s1) \<Longrightarrow> prefix tr0 (calls ?arg)"
    by (auto intro!: ext)
  show ?case
    unfolding setupDraw.simps [of E cl s] Let_def
    using a b d by (auto simp: resetDrawState_def)
next
  case (2 E s)
  let ?p = "callCaches E Caches_disableScissor s"
  have a: "mLayers s \<noteq> [] \<Longrightarrow> \<not> isIgnored (current s) \<Longrightarrow> prefix tr0 (calls s) \<Longrightarrow>
      prefix tr0 (calls (setupDraw E False ((snd ?p)\<lparr>mLayers := []\<rparr>)))"
    using "2.IH" [OF refl _ _ prod.collapse refl] by (simp add: prefix_prefix)
  show ?case
    unfolding clearLayerRegions.simps [of E s] Let_def
    using a by (auto simp: case_prod_beta intro!: ext)
next
  case (3 E s)
  let ?s1 = "drawRegionRects E (clipRegion (current s)) 0xff000000 kSrc_Mode False (stencilPrepare E s)"
  let ?s2 = "doCaches E Caches_stencil_enableTest ?s1"
  have a: "\<not> debugOverdrawFlag (caches s) \<Longrightarrow> clipRegion (current s) \<noteq> [] \<Longrightarrow>
      prefix tr0 (calls s) \<Longrightarrow> prefix tr0 (calls ?s1)"
    using "3.IH"(1) ext_stencilPrepare by blast
  have b: "\<not> debugOverdrawFlag (caches s) \<Longrightarrow> clipRegion (current s) \<noteq> [] \<Longrightarrow>
      debugStencilClip (caches ?s2) = kStencilShowRegion \<and> \<not> mDirtyClip ?s2 \<Longrightarrow>
      prefix tr0 (calls ?s2) \<Longrightarrow>
      prefix tr0 (calls (drawRegionRects E (clipRegion (current ?s2)) 0x7f0000ff kSrcOver_Mode True ?s2))"
    using "3.IH"(2) [OF _ _ refl refl] by blast
  have e: "prefix tr0 (calls ?s1) \<Longrightarrow> prefix tr0 (calls ?s2)"
    by (rule ext_doCaches)
  show ?case
    unfolding setStencilFromClip.simps [of E s] Let_def
    using a b e by (auto intro!: ext)
next
  case (4 E rg color m dirty s)
  then show ?case
    by (simp add: drawRegionRects.simps)
next
  case (5 E rects color m ignoreTransform dirty clip s)
  let ?l = "drawColorRects_loop ignoreTransform s rects (mkRect FLT_MAX FLT_MAX FLT_MIN FLT_MIN, 0)"
  let ?q = "if rects = [] then (True, s)
            else if clip then quickReject E (left (fst ?l)) (topR (fst ?l)) (right (fst ?l)) (bottom (fst ?l)) s
            else (False, s)"
  have q: "prefix tr0 (calls s) \<Longrightarrow> prefix tr0 (calls (snd ?q))"
    by (auto intro!: ext)
  have a: "\<not> fst ?q \<Longrightarrow> prefix tr0 (calls s) \<Longrightarrow> prefix tr0 (calls (setupDraw E True (snd ?q)))"
    using "5.IH" [OF prod.collapse prod.collapse] q by simp
  show ?case
    unfolding drawColorRects.simps [of E rects color m ignoreTransform dirty clip s] Let_def
      case_prod_beta
    using a q by (cases "fst ?q") (auto intro!: ext)
qed

lemma ext_setupDraw [ext]:
  "prefix tr0 (calls s) \<Longrightarrow> prefix tr0 (calls (setupDraw E cl s))"
  "prefix tr0 (calls s) \<Longrightarrow> prefix tr0 (calls (clearLayerRegions E s))"
  "prefix tr0 (calls s) \<Longrightarrow> prefix tr0 (calls (setStencilFromClip E s))"
  "prefix tr0 (calls s) \<Longrightarrow> prefix tr0 (calls (drawRegionRects E rg color m dirty s))"
  "prefix tr0 (calls s) \<Longrightarrow> prefix tr0 (calls (snd (drawColorRects E rects color m ignoreTransform dirty clip s)))"
  by (simp_all add: ext_setupDraw_group)


lemma ext_resetDrawTextureTexCoords [ext]:
  "prefix tr0 (calls s) \<Longrightarrow> prefix tr0 (calls (resetDrawTextureTexCoords u1 v1 u2 v2 s))"
  by (auto simp: resetDrawTextureTexCoords_def Let_def case_prod_beta withProgram_def split: option.splits intro!: ext)

lemma ext_drawColorRect [ext]:
  "prefix tr0 (calls s) \<Longrightarrow> prefix tr0 (calls (drawColorRect E l t r b c m i s))"
  by (auto simp: drawColorRect_def Let_def case_prod_beta withProgram_def split: option.splits intro!: ext)

lemma ext_drawTextureMesh [ext]:
  "prefix tr0 (calls s) \<Longrightarrow> prefix tr0 (calls (drawTextureMesh E l t r b tx a m bl v dm n sw i vbo isc d s))"
  by (auto simp: drawTextureMesh_def Let_def case_prod_beta withProgram_def split: option.splits intro!: ext)

lemma ext_drawAlpha8TextureMesh [ext]:
  "prefix tr0 (calls s) \<Longrightarrow> prefix tr0 (calls (drawAlpha8TextureMesh E l t r b tx hc c a m v dm n i d s))"
  by (auto simp: drawAlpha8TextureMesh_def Let_def case_prod_beta withProgram_def split: option.splits intro!: ext)

lemma ext_layerSetFilter [ext]:
  "prefix tr0 (calls s) \<Longrightarrow> prefix tr0 (calls (layerSetFilter a f bt s))"
  by (auto simp: layerSetFilter_def Let_def case_prod_beta withProgram_def split: option.splits intro!: ext)

lemma ext_drawTextureLayer [ext]:
  "prefix tr0 (calls s) \<Longrightarrow> prefix tr0 (calls (drawTextureLayer E a rect s))"
  by (auto simp: drawTextureLayer_def Let_def case_prod_beta withProgram_def split: option.splits intro!: ext)

lemma ext_composeLayerRect [ext]:
  "prefix tr0 (calls s) \<Longrightarrow> prefix tr0 (calls (composeLayerRect E a rect sw s))"
  by (auto simp: composeLayerRect_def Let_def case_prod_beta withProgram_def split: option.splits intro!: ext)

lemma ext_composeLayerRegion_loop [ext]:
  "prefix tr0 (calls s) \<Longrightarrow> prefix tr0 (calls (snd (composeLayerRegion_loop E rects n s)))"
  by (induction E rects n s rule: composeLayerRegion_loop.induct) (auto intro!: ext)

lemma ext_composeLayerRegion [ext]:
  "prefix tr0 (calls s) \<Longrightarrow> prefix tr0 (calls (composeLayerRegion E a rect s))"
  by (auto simp: composeLayerRegion_def Let_def case_prod_beta withProgram_def split: option.splits intro!: ext)

lemma ext_setupColorFilter [ext]:
  "prefix tr0 (calls s) \<Longrightarrow> prefix tr0 (calls (setupColorFilter f s))"
  by (auto simp: setupColorFilter_def Let_def case_prod_beta withProgram_def split: option.splits intro!: ext)

lemma ext_resetColorFilter [ext]:
  "prefix tr0 (calls s) \<Longrightarrow> prefix tr0 (calls (resetColorFilter s))"
  by (auto simp: resetColorFilter_def Let_def case_prod_beta withProgram_def split: option.splits intro!: ext)

lemma ext_composeLayer [ext]:
  "prefix tr0 (calls s) \<Longrightarrow> prefix tr0 (calls (composeLayer E cur s))"
  by (auto simp: composeLayer_def Let_def case_prod_beta withProgram_def split: option.splits intro!: ext)

section \<open>Functors\<close>

lemma invocations_append: "invocations (xs @ ys) = invocations xs @ invocations ys"
  by (induction xs rule: invocations.induct) auto

lemma mFunctors_steps [simp]:
  "mFunctors (gl x s) = mFunctors s"
  "mFunctors (objectCall q y s) = mFunctors s"
  "mFunctors (doCaches E z s) = mFunctors s"
  "mFunctors (debugOverdraw E en cl s) = mFunctors s"
  "mFunctors (interrupt E s) = mFunctors s"
  by (simp_all add: gl_def objectCall_def doCaches_def callCaches_def debugOverdraw_def
      interrupt_def Let_def program_remove_def setCurrentProgram_def
      split: prod.splits option.splits)

lemma calls_debugOverdraw:
  "\<exists>new. calls (debugOverdraw E en cl s) = calls s @ new \<and> invocations new = []"
  by (simp add: debugOverdraw_def Let_def)

lemma calls_interrupt:
  "\<exists>new. calls (interrupt E s) = calls s @ new \<and> invocations new = []"
proof -
  let ?s1 = "case currentProgram (caches s) of None \<Rightarrow> s
     | Some p \<Rightarrow> if programInUse s p then setCurrentProgram None (program_remove p s) else s"
  let ?s5 = "doCaches E Caches_disableTexCoordsVertexArray (doCaches E Caches_resetVertexPointers
     (doCaches E Caches_unbindIndicesBuffer (doCaches E Caches_unbindMeshBuffer ?s1)))"
  have "\<exists>n1. calls ?s1 = calls s @ n1 \<and> invocations n1 = []"
    by (cases "currentProgram (caches s)") simp_all
  then obtain n1 where n1: "calls ?s1 = calls s @ n1" "invocations n1 = []"
    by blast
  obtain n2 where n2: "calls (debugOverdraw E False False ?s5) = calls ?s5 @ n2" "invocations n2 = []"
    using calls_debugOverdraw by blast
  have "calls (interrupt E s) = calls s @ (n1 @ [CachesCall Caches_unbindMeshBuffer,
      CachesCall Caches_unbindIndicesBuffer, CachesCall Caches_resetVertexPointers,
      CachesCall Caches_disableTexCoordsVertexArray] @ n2)"
    using n1 n2 by (simp add: interrupt_def Let_def)
  moreover have "invocations (n1 @ [CachesCall Caches_unbindMeshBuffer,
      CachesCall Caches_unbindIndicesBuffer, CachesCall Caches_resetVertexPointers,
      CachesCall Caches_disableTexCoordsVertexArray] @ n2) = []"
    using n1 n2 by (simp add: invocations_append)
  ultimately show ?thesis by blast
qed

lemma calls_resume:
  "\<exists>new. calls (resume E s) = calls s @ new \<and> invocations new = []"
proof -
  let ?sn = "currentOrFirst s"
  let ?s2 = "gl (glBindFramebuffer (fbo ?sn))
     (gl (glViewport 0 0 (getWidth (viewport ?sn)) (getHeight (viewport ?sn))) s)"
  obtain n where n: "calls (debugOverdraw E True False ?s2) = calls ?s2 @ n" "invocations n = []"
    using calls_debugOverdraw by blast
  then show ?thesis
    by (simp add: resume_def Let_def invocations_append)
qed

lemma calls_reenter [simp]: "calls (reenter as s) = calls s"
  by (induction as s rule: reenter.induct) (simp_all add: attachFunctor_def detachFunctor_def)

lemma calls_invokeFunctors_loop:
  "calls (snd (snd (snd (invokeFunctors_loop E fs result info dirty s)))) =
     calls s @ map (\<lambda>f. ObjectCall f (Functor_invoke kModeProcess)) fs"
proof (induction fs arbitrary: result info dirty s)
  case Nil
  then show ?case by simp
next
  case (Cons f fs)
  then show ?case
    by (simp add: invokeFunctor_def Let_def attachFunctor_def case_prod_beta)
qed

lemma invocations_map [simp]: "invocations (map (\<lambda>f. ObjectCall f (Functor_invoke m)) fs) = fs"
  by (induction fs) simp_all

lemma calls_invokeFunctors:
  "\<exists>new. calls (snd (snd (invokeFunctors E dirty u s))) = calls s @ new
     \<and> invocations new = mFunctors s"
proof (cases "mFunctors s = []")
  case True
  then show ?thesis by (simp add: invokeFunctors_def)
next
  case False
  let ?s2 = "(interrupt E s)\<lparr>mFunctors := []\<rparr>"
  let ?l = "invokeFunctors_loop E (mFunctors s) kStatusDone (initialInfo u) dirty ?s2"
  let ?s3 = "snd (snd (snd ?l))"
  obtain n1 where n1: "calls (interrupt E s) = calls s @ n1" "invocations n1 = []"
    using calls_interrupt by blast
  obtain n3 where n3: "calls (resume E ?s3) = calls ?s3 @ n3" "invocations n3 = []"
    using calls_resume by blast
  have res: "snd (snd (invokeFunctors E dirty u s)) = resume E ?s3"
    using False by (simp add: invokeFunctors_def Let_def case_prod_beta)
  have "calls (resume E ?s3) =
      calls s @ (n1 @ map (\<lambda>f. ObjectCall f (Functor_invoke kModeProcess)) (mFunctors s) @ n3)"
    using n1 n3 by (simp add: calls_invokeFunctors_loop)
  moreover have "invocations (n1 @ map (\<lambda>f. ObjectCall f (Functor_invoke kModeProcess)) (mFunctors s) @ n3)
      = mFunctors s"
    using n1 n3 by (simp add: invocations_append)
  ultimately show ?thesis
    unfolding res by blast
qed

lemma set_sortedVector_add [simp]: "set (sortedVector_add f fs) = insert f (set fs)"
  by (auto simp: sortedVector_add_def set_insort_key)

lemma set_sortedVector_remove [simp]: "set (sortedVector_remove f fs) = set fs - {f}"
  by (auto simp: sortedVector_remove_def)

lemma sortedVector_add_inv:
  "sorted fs \<and> distinct fs \<Longrightarrow> sorted (sortedVector_add f fs) \<and> distinct (sortedVector_add f fs)"
  by (auto simp: sortedVector_add_def sorted_insort distinct_insort)

lemma sortedVector_remove_inv:
  "sorted fs \<and> distinct fs \<Longrightarrow> sorted (sortedVector_remove f fs) \<and> distinct (sortedVector_remove f fs)"
  by (auto simp: sortedVector_remove_def sorted_wrt_filter removeAll_filter_not_eq)

section \<open>The snapshot stack\<close>

lemma fault_setFault [simp]: "fault (setFault s) = Some NullDereference"
  by (simp add: setFault_def)

lemma restoreSnapshot_pop:
  assumes "mSnapshot s = cur # previous"
  shows "mSaveCount (snd (restoreSnapshot E s)) = mSaveCount s - 1"
    and "mSnapshot (snd (restoreSnapshot E s)) = previous"
  using assms by (simp_all add: restoreSnapshot_def Let_def split: list.splits)

lemma restoreSnapshot_null:
  "mSnapshot s = [] \<Longrightarrow> fault (snd (restoreSnapshot E s)) = Some NullDereference"
  by (simp add: restoreSnapshot_def)

lemma restoreSnapshot_decreases:
  "fault (snd (restoreSnapshot E s)) = None \<Longrightarrow>
     mSaveCount (snd (restoreSnapshot E s)) < mSaveCount s"
  by (cases "mSnapshot s") (simp_all add: restoreSnapshot_null restoreSnapshot_pop)

text \<open>The loop of \<^verbatim>\<open>restoreToCount\<close> as the source has it.\<close>

lemma restoreToCount_loop_source:
  "restoreToCount_loop E saveCount s =
     (if mSaveCount s > saveCount then
        let s' = snd (restoreSnapshot E s) in
        if fault s' = None then restoreToCount_loop E saveCount s' else s'
      else s)"
  using restoreSnapshot_decreases [of E s]
  by (subst restoreToCount_loop.simps) (auto simp: Let_def)

lemma restoreToCount_loop_result:
  "fault (restoreToCount_loop E n s) = None \<Longrightarrow>
     mSaveCount (restoreToCount_loop E n s) = min (mSaveCount s) n
     \<and> mSnapshot (restoreToCount_loop E n s)
         = drop (nat (mSaveCount s - min (mSaveCount s) n)) (mSnapshot s)"
proof (induction E n s rule: restoreToCount_loop.induct)
  case (1 E n s)
  let ?s' = "snd (restoreSnapshot E s)"
  show ?case
  proof (cases "mSaveCount s > n")
    case False
    then show ?thesis
      by (simp add: restoreToCount_loop_source [of E n s])
  next
    case True
    have f: "fault ?s' = None"
      using "1.prems" True by (auto simp: restoreToCount_loop_source [of E n s] Let_def split: if_splits)
    then obtain cur previous where sn: "mSnapshot s = cur # previous"
      by (cases "mSnapshot s") (simp_all add: restoreSnapshot_null)
    have c: "mSaveCount ?s' = mSaveCount s - 1" and p: "mSnapshot ?s' = previous"
      using restoreSnapshot_pop [OF sn] by simp_all
    have eq: "restoreToCount_loop E n s = restoreToCount_loop E n ?s'"
      using True f by (simp add: restoreToCount_loop_source [of E n s] Let_def)
    have ih: "mSaveCount (restoreToCount_loop E n ?s') = min (mSaveCount ?s') n
        \<and> mSnapshot (restoreToCount_loop E n ?s')
            = drop (nat (mSaveCount ?s' - min (mSaveCount ?s') n)) (mSnapshot ?s')"
      using "1.IH" [OF True refl] f c True "1.prems" eq by simp
    have "nat (mSaveCount s - n) = Suc (nat (mSaveCount s - 1 - n))"
      using True by simp
    then show ?thesis
      using ih True c p sn eq by (simp add: min_def)
  qed
qed

section \<open>Preparing a frame\<close>

lemma fault_steps [simp]:
  "fault (gl x s) = fault s"
  "fault (objectCall q y s) = fault s"
  "fault (doCaches E z s) = fault s"
  "fault (snd (callCaches E z s)) = fault s"
  "fault (dirtyClip s) = fault s"
  "fault (updateLayerAt a f s) = fault s"
  "fault (debugOverdraw E en cl s) = fault s"
  "fault (startTiling E s) = fault s"
  "fault (endTiling E s) = fault s"
  by (simp_all add: gl_def objectCall_def doCaches_def callCaches_def dirtyClip_def
      updateLayerAt_def debugOverdraw_def startTiling_def endTiling_def Let_def
      split: prod.splits)

lemma first_steps [simp]:
  "mFirstSnapshot (gl x s) = mFirstSnapshot s"
  "mFirstSnapshot (doCaches E z s) = mFirstSnapshot s"
  by (simp_all add: gl_def doCaches_def callCaches_def split: prod.splits)

lemma keeps_resumeAfterLayer [simp]:
  "fault (resumeAfterLayer E s) = fault s"
  "mSaveCount (resumeAfterLayer E s) = mSaveCount s"
  "mSnapshot (resumeAfterLayer E s) = mSnapshot s"
  by (simp_all add: resumeAfterLayer_def Let_def)

lemma keeps_updateLayer [simp]:
  "fault (snd (updateLayer E a inFrame s)) = fault s"
  "mSaveCount (snd (updateLayer E a inFrame s)) = mSaveCount s"
  "mSnapshot (snd (updateLayer E a inFrame s)) = mSnapshot s"
  by (simp_all add: updateLayer_def Let_def split: option.splits)

lemma keeps_updateLayers_loop [simp]:
  "fault (updateLayers_loop E as s) = fault s"
  "mSaveCount (updateLayers_loop E as s) = mSaveCount s"
  "mSnapshot (updateLayers_loop E as s) = mSnapshot s"
  by (induction as arbitrary: s) simp_all

lemma keeps_updateLayers [simp]:
  "fault (updateLayers E s) = fault s"
  "mSaveCount (updateLayers E s) = mSaveCount s"
  "mSnapshot (updateLayers E s) = mSnapshot s"
  by (simp_all add: updateLayers_def Let_def)

lemma keeps_discardFramebuffer [simp]:
  "fault (discardFramebuffer E l t r b s) = fault s"
  "mSaveCount (discardFramebuffer E l t r b s) = mSaveCount s"
  "mSnapshot (discardFramebuffer E l t r b s) = mSnapshot s"
  by (simp_all add: discardFramebuffer_def)

lemma keeps_syncState [simp]:
  "fault (syncState s) = fault s"
  "mSaveCount (syncState s) = mSaveCount s"
  "mSnapshot (syncState s) = mSnapshot s"
  by (simp_all add: syncState_def Let_def)

lemma keeps_clear [simp]:
  "mSnapshot s \<noteq> [] \<Longrightarrow> fault (snd (clear E l t r b opaque s)) = fault s"
  "mSaveCount (snd (clear E l t r b opaque s)) = mSaveCount s"
  "mSnapshot (snd (clear E l t r b opaque s)) = mSnapshot s"
  by (simp_all add: clear_def Let_def requireSnapshot_def)

lemma finish_op_Inr: "finish_op s x = Inr y \<longleftrightarrow> fault s = None \<and> x = y"
  by (auto simp: finish_op_def split: option.splits)

lemma finish_op_InrD:
  assumes "finish_op s x = Inr y"
  shows "fault s = None" and "y = x"
  using assms by (simp_all add: finish_op_def split: option.splits)

lemma finish_op_ok [simp]: "fault s = None \<Longrightarrow> finish_op s x = Inr x"
  by (simp add: finish_op_def)

lemma prepareDirty_clear:
  "\<exists>s8. prepareDirty E l t r b opaque s0
            = (case clear E l t r b opaque s8 of (st, s9) \<Rightarrow> finish_op s9 (st, s9))
        \<and> fault s8 = fault s0 \<and> mSaveCount s8 = 1
        \<and> mSnapshot s8 =
            [snapshot_setClip l t r b
               ((newSnapshot (mFirstSnapshot s0) {kMatrix_SaveFlag, kClip_SaveFlag})
                  \<lparr>fbo := getTargetFbo E\<rparr>),
             mFirstSnapshot s0]"
  unfolding prepareDirty_def Let_def
  apply (rule exI)
  apply (rule conjI)
   apply (rule refl)
  apply simp
  done

lemma prepareDirty_result:
  assumes "prepareDirty E l t r b opaque s0 = Inr (st, s)"
  shows "fault s = None \<and> mSaveCount s = 1
     \<and> mSnapshot s =
         [snapshot_setClip l t r b
            ((newSnapshot (mFirstSnapshot s0) {kMatrix_SaveFlag, kClip_SaveFlag})\<lparr>fbo := getTargetFbo E\<rparr>),
          mFirstSnapshot s0]"
proof -
  obtain s8 where
    eq: "prepareDirty E l t r b opaque s0
           = (case clear E l t r b opaque s8 of (st, s9) \<Rightarrow> finish_op s9 (st, s9))"
    and c: "mSaveCount s8 = 1"
    and sn: "mSnapshot s8 =
            [snapshot_setClip l t r b
               ((newSnapshot (mFirstSnapshot s0) {kMatrix_SaveFlag, kClip_SaveFlag})
                  \<lparr>fbo := getTargetFbo E\<rparr>),
             mFirstSnapshot s0]"
    using prepareDirty_clear [of E l t r b opaque s0] by blast
  have "finish_op (snd (clear E l t r b opaque s8)) (clear E l t r b opaque s8) = Inr (st, s)"
    using assms eq by (simp add: case_prod_beta)
  then have both: "fault (snd (clear E l t r b opaque s8)) = None
      \<and> clear E l t r b opaque s8 = (st, s)"
    unfolding finish_op_Inr .
  have f: "fault (snd (clear E l t r b opaque s8)) = None"
    using both by (rule conjunct1)
  have cl: "clear E l t r b opaque s8 = (st, s)"
    using both by (rule conjunct2)
  have "s = snd (clear E l t r b opaque s8)"
    by (simp add: cl)
  moreover have "fault s = None"
    using f by (simp add: cl)
  ultimately have "s = snd (clear E l t r b opaque s8)" and "fault s = None"
    by simp_all
  then show ?thesis
    using c sn by simp
qed

lemma prepareDirty_returns:
  assumes "fault s0 = None"
  shows "\<exists>s. prepareDirty E l t r b opaque s0
                = Inr (fst (clear E l t r b opaque s0), s)"
proof -
  obtain s8 where
    eq: "prepareDirty E l t r b opaque s0
           = (case clear E l t r b opaque s8 of (st, s9) \<Rightarrow> finish_op s9 (st, s9))"
    and f: "fault s8 = fault s0"
    and sn: "mSnapshot s8 =
            [snapshot_setClip l t r b
               ((newSnapshot (mFirstSnapshot s0) {kMatrix_SaveFlag, kClip_SaveFlag})
                  \<lparr>fbo := getTargetFbo E\<rparr>),
             mFirstSnapshot s0]"
    using prepareDirty_clear [of E l t r b opaque s0] by blast
  have "fault (snd (clear E l t r b opaque s8)) = None"
    using f sn assms by simp
  moreover have "fst (clear E l t r b opaque s8) = fst (clear E l t r b opaque s0)"
    by (simp add: clear_def Let_def)
  ultimately show ?thesis
    using eq by (simp add: case_prod_beta)
qed

section \<open>The concrete frame\<close>

lemma preparedFrame_eq:
  "preparedFrame =
     demoRenderer
       \<lparr>calls := [CachesCall Caches_clearGarbage, GL (glViewport 0 0 100 100),
                  GL (glDisable GL_BLEND), CachesCall Caches_startTiling,
                  CachesCall Caches_resetScissor],
        mSnapshot := [demoSnapshot\<lparr>flags := {kFlagClipSet}\<rparr>, demoSnapshot],
        mDirtyClip := True\<rparr>"
  by (simp add: preparedFrame_def prepareDirty_def Let_def demoRenderer_def demoEnv_def
      demoCaches_def demoSnapshot_def doCaches_def callCaches_def updateLayers_def
      discardFramebuffer_def syncState_def startTiling_def debugOverdraw_def clear_def
      gl_def snapshot_setClip_def newSnapshot_def finish_op_def mkRect_def)

lemma prepareDirty_demo:
  "prepareDirty demoEnv 0 0 100 100 True demoRenderer = Inr (kStatusDone, preparedFrame)"
  unfolding preparedFrame_eq
  by (simp add: prepareDirty_def Let_def demoRenderer_def demoEnv_def
      demoCaches_def demoSnapshot_def doCaches_def callCaches_def updateLayers_def
      discardFramebuffer_def syncState_def startTiling_def debugOverdraw_def clear_def
      gl_def snapshot_setClip_def newSnapshot_def finish_op_def mkRect_def)

lemma preparedFrame_fields [simp]:
  "mSaveCount preparedFrame = 1"
  "mSnapshot preparedFrame = [demoSnapshot\<lparr>flags := {kFlagClipSet}\<rparr>, demoSnapshot]"
  "fault preparedFrame = None"
  by (simp_all add: preparedFrame_eq demoRenderer_def)

section \<open>Saving and restoring\<close>

lemma save_ok:
  assumes "mSnapshot s \<noteq> []" and "fault s = None"
  shows "save f s =
     Inr (mSaveCount s,
          s\<lparr>mSnapshot := newSnapshot (current s) f # mSnapshot s, mSaveCount := mSaveCount s + 1\<rparr>)"
  using assms by (cases "mSnapshot s") (simp_all add: save_def saveSnapshot_def current_def)

lemma save_null: "mSnapshot s = [] \<Longrightarrow> save f s = Inl NullDereference"
  by (simp add: save_def saveSnapshot_def finish_op_def)

lemma save_Inr:
  assumes "save f s = Inr (n, s')"
  shows "n = mSaveCount s \<and> mSaveCount s' = mSaveCount s + 1
       \<and> mSnapshot s' = newSnapshot (current s) f # mSnapshot s"
proof (cases "mSnapshot s")
  case Nil
  then show ?thesis using assms by (simp add: save_null)
next
  case (Cons sn rest)
  then show ?thesis
    using assms
    by (auto simp: save_def saveSnapshot_def current_def finish_op_def split: option.splits)
qed

lemma restore_Inr:
  assumes "restore E s = Inr s'" and "1 < mSaveCount s"
  shows "mSaveCount s' = mSaveCount s - 1 \<and> mSnapshot s' = tl (mSnapshot s) \<and> mSnapshot s \<noteq> []"
proof -
  have r: "finish_op (snd (restoreSnapshot E s)) (snd (restoreSnapshot E s)) = Inr s'"
    using assms by (simp add: restore_def Let_def)
  have s': "s' = snd (restoreSnapshot E s)" and f: "fault (snd (restoreSnapshot E s)) = None"
    using finish_op_InrD [OF r] by simp_all
  from f obtain cur previous where sn: "mSnapshot s = cur # previous"
    by (cases "mSnapshot s") (simp_all add: restoreSnapshot_null)
  show ?thesis
    using restoreSnapshot_pop [OF sn, of E] sn s' by simp
qed

lemma restoreToCount_Inr:
  assumes "restoreToCount E n s = Inr s'"
  shows "mSaveCount s' = min (mSaveCount s) (max n 1)
       \<and> mSnapshot s' = drop (nat (mSaveCount s - min (mSaveCount s) (max n 1))) (mSnapshot s)"
proof -
  have m: "(if n < 1 then 1 else n) = max n 1"
    by simp
  have r: "finish_op (restoreToCount_loop E (max n 1) s) (restoreToCount_loop E (max n 1) s) = Inr s'"
    using assms unfolding restoreToCount_def Let_def m .
  have s': "s' = restoreToCount_loop E (max n 1) s"
    and f: "fault (restoreToCount_loop E (max n 1) s) = None"
    using finish_op_InrD [OF r] by simp_all
  show ?thesis
    using restoreToCount_loop_result [OF f] s' by simp
qed

subsection \<open>Plain saves never crash\<close>

lemma flags_newSnapshot:
  "kFlagIsLayer \<notin> flags (newSnapshot sn f)" "kFlagDirtyOrtho \<notin> flags (newSnapshot sn f)"
  by (simp_all add: newSnapshot_def)

lemma plainSaves_save:
  assumes "plainSaves k s"
  shows "\<exists>s'. save f s = Inr (1 + int k, s') \<and> plainSaves (Suc k) s'"
proof -
  have ne: "mSnapshot s \<noteq> []" and fl: "fault s = None" and c: "mSaveCount s = 1 + int k"
    using assms by (auto simp: plainSaves_def)
  let ?s' = "s\<lparr>mSnapshot := newSnapshot (current s) f # mSnapshot s, mSaveCount := mSaveCount s + 1\<rparr>"
  have "plainSaves (Suc k) ?s'"
    using assms by (simp add: plainSaves_def flags_newSnapshot)
  then show ?thesis
    using save_ok [OF ne fl, of f] c by simp
qed

lemma plainSaves_restoreSnapshot:
  assumes "plainSaves (Suc k) s"
  shows "plainSaves k (snd (restoreSnapshot E s))"
proof -
  obtain cur previous where sn: "mSnapshot s = cur # previous"
    using assms by (cases "mSnapshot s") (simp_all add: plainSaves_def)
  have cur: "kFlagIsLayer \<notin> flags cur" "kFlagDirtyOrtho \<notin> flags cur"
    using assms sn by (simp_all add: plainSaves_def)
  have "fault (snd (restoreSnapshot E s)) = None"
    using assms sn cur by (simp add: restoreSnapshot_def Let_def plainSaves_def)
  then show ?thesis
    using restoreSnapshot_pop [OF sn, of E] assms sn by (simp add: plainSaves_def)
qed

lemma plainSaves_restore:
  "plainSaves (Suc k) s \<Longrightarrow> \<exists>s'. restore E s = Inr s' \<and> plainSaves k s'"
  "plainSaves 0 s \<Longrightarrow> restore E s = Inr s"
proof -
  assume a: "plainSaves (Suc k) s"
  have "fault (snd (restoreSnapshot E s)) = None"
    using plainSaves_restoreSnapshot [OF a, of E] by (simp add: plainSaves_def)
  moreover have "1 < mSaveCount s"
    using a by (simp add: plainSaves_def)
  ultimately show "\<exists>s'. restore E s = Inr s' \<and> plainSaves k s'"
    using plainSaves_restoreSnapshot [OF a, of E] by (simp add: restore_def Let_def)
next
  assume "plainSaves 0 s"
  then show "restore E s = Inr s"
    by (simp add: restore_def plainSaves_def)
qed

lemma plainSaves_saveAll:
  "plainSaves k s \<Longrightarrow> \<exists>s'. saveAll fs s = Inr s' \<and> plainSaves (k + length fs) s'"
proof (induction fs arbitrary: k s)
  case Nil
  then show ?case by simp
next
  case (Cons f fs)
  obtain s1 where s1: "save f s = Inr (1 + int k, s1)" "plainSaves (Suc k) s1"
    using plainSaves_save [OF Cons.prems] by blast
  obtain s' where "saveAll fs s1 = Inr s'" "plainSaves (Suc k + length fs) s'"
    using Cons.IH [OF s1(2)] by blast
  then show ?case
    using s1 by simp
qed

lemma plainSaves_restoreTimes:
  "M \<le> k \<Longrightarrow> plainSaves k s \<Longrightarrow> \<exists>s'. restoreTimes E M s = Inr s' \<and> plainSaves (k - M) s'"
proof (induction M arbitrary: k s)
  case 0
  then show ?case by simp
next
  case (Suc M)
  then obtain k' where k: "k = Suc k'"
    by (cases k) simp_all
  obtain s1 where s1: "restore E s = Inr s1" "plainSaves k' s1"
    using plainSaves_restore(1) Suc.prems(2) k by blast
  obtain s' where "restoreTimes E M s1 = Inr s'" "plainSaves (k' - M) s'"
    using Suc.IH [OF _ s1(2)] Suc.prems(1) k by auto
  then show ?case
    using s1 k by simp
qed

lemma plainSaves_restoreToCount_loop:
  "plainSaves k s \<Longrightarrow> 1 \<le> n \<Longrightarrow>
     plainSaves (min k (nat (n - 1))) (restoreToCount_loop E n s)"
proof (induction k arbitrary: s)
  case 0
  then show ?case
    by (simp add: restoreToCount_loop_source [of E n s] plainSaves_def)
next
  case (Suc k)
  show ?case
  proof (cases "mSaveCount s > n")
    case False
    then have "min (Suc k) (nat (n - 1)) = Suc k"
      using Suc.prems by (simp add: plainSaves_def)
    then show ?thesis
      using False Suc.prems by (simp add: restoreToCount_loop_source [of E n s])
  next
    case True
    let ?s' = "snd (restoreSnapshot E s)"
    have p: "plainSaves k ?s'"
      using plainSaves_restoreSnapshot [OF Suc.prems(1)] .
    then have "fault ?s' = None"
      by (simp add: plainSaves_def)
    then have eq: "restoreToCount_loop E n s = restoreToCount_loop E n ?s'"
      using True by (simp add: restoreToCount_loop_source [of E n s] Let_def)
    have "min (Suc k) (nat (n - 1)) = min k (nat (n - 1))"
      using True Suc.prems by (simp add: plainSaves_def)
    then show ?thesis
      using Suc.IH [OF p Suc.prems(2)] eq by simp
  qed
qed

lemma plainSaves_prepareDirty:
  "prepareDirty E l t r b opaque s0 = Inr (st, s) \<Longrightarrow> plainSaves 0 s"
  using prepareDirty_result [of E l t r b opaque s0 st s] by (simp add: plainSaves_def)

subsection \<open>What save returns\<close>

text \<open>
  C2, as the specification states it, fails: \<^verbatim>\<open>saveSnapshot\<close> ends with
  \<^verbatim>\<open>return mSaveCount++\<close>, so the first \<^verbatim>\<open>save\<close> of the concrete prepared frame
  returns 1, the depth before the push, while the depth after the push is 2.
\<close>

theorem save_returns_new_depth_counterexample:
  "map_sum id fst (save {kMatrix_SaveFlag, kClip_SaveFlag} preparedFrame) = Inr 1
   \<and> map_sum id (getSaveCount \<circ> snd) (save {kMatrix_SaveFlag, kClip_SaveFlag} preparedFrame)
       = Inr 2
   \<and> map_sum id fst (save {kMatrix_SaveFlag, kClip_SaveFlag} preparedFrame)
       \<noteq> map_sum id (getSaveCount \<circ> snd) (save {kMatrix_SaveFlag, kClip_SaveFlag} preparedFrame)"
  by (simp add: save_def saveSnapshot_def finish_op_def getSaveCount_def)

text \<open>
  C2, amended. On an intact renderer with a current snapshot, \<^verbatim>\<open>save(flags)\<close> returns
  the stack depth before the push, the value that \<^verbatim>\<open>restoreToCount\<close> takes to undo
  it; it pushes one snapshot, and the depth after the push is one more than the value
  returned. The first \<^verbatim>\<open>save\<close> after the preparation of a frame returns 1 and leaves
  the depth 2.
\<close>

theorem save_returns_depth_before_push:
  "(mSnapshot s \<noteq> [] \<and> fault s = None \<longrightarrow>
      (\<exists>s'. save saveFlags s = Inr (getSaveCount s, s')
          \<and> getSaveCount s' = getSaveCount s + 1
          \<and> mSnapshot s' = newSnapshot (current s) saveFlags # mSnapshot s))
   \<and> (prepareDirty E l t r b opaque s0 = Inr (st, s) \<longrightarrow>
      (\<exists>s'. save saveFlags s = Inr (1, s') \<and> getSaveCount s' = 2))"
proof (intro conjI impI)
  assume a: "mSnapshot s \<noteq> [] \<and> fault s = None"
  then show "\<exists>s'. save saveFlags s = Inr (getSaveCount s, s')
          \<and> getSaveCount s' = getSaveCount s + 1
          \<and> mSnapshot s' = newSnapshot (current s) saveFlags # mSnapshot s"
    using save_ok [of s saveFlags] by (simp add: getSaveCount_def)
next
  assume "prepareDirty E l t r b opaque s0 = Inr (st, s)"
  then have "plainSaves 0 s"
    by (rule plainSaves_prepareDirty)
  then obtain s' where "save saveFlags s = Inr (1 + int 0, s')" and "plainSaves (Suc 0) s'"
    using plainSaves_save by blast
  then show "\<exists>s'. save saveFlags s = Inr (1, s') \<and> getSaveCount s' = 2"
    by (auto simp: plainSaves_def getSaveCount_def)
qed

theorem save_returns_depth_before_push_witness:
  "mSnapshot preparedFrame \<noteq> [] \<and> fault preparedFrame = None
   \<and> prepareDirty demoEnv 0 0 100 100 True demoRenderer = Inr (kStatusDone, preparedFrame)
   \<and> getSaveCount preparedFrame = 1
   \<and> map_sum id fst (save {kMatrix_SaveFlag} preparedFrame) = Inr 1
   \<and> map_sum id (getSaveCount \<circ> snd) (save {kMatrix_SaveFlag} preparedFrame) = Inr 2"
  using save_returns_depth_before_push
    [of preparedFrame "{kMatrix_SaveFlag}" demoEnv 0 0 100 100 True demoRenderer kStatusDone]
  by (simp add: prepareDirty_demo save_def saveSnapshot_def finish_op_def getSaveCount_def)

subsection \<open>The save count never drops below one\<close>

lemma stackInv_restoreToCount_loop:
  "stackInv s \<Longrightarrow> 1 \<le> n \<Longrightarrow> fault (restoreToCount_loop E n s) = None \<Longrightarrow>
     stackInv (restoreToCount_loop E n s)"
proof -
  assume inv: "stackInv s" and n: "1 \<le> n" and f: "fault (restoreToCount_loop E n s) = None"
  have r: "mSaveCount (restoreToCount_loop E n s) = min (mSaveCount s) n"
    "mSnapshot (restoreToCount_loop E n s)
       = drop (nat (mSaveCount s - min (mSaveCount s) n)) (mSnapshot s)"
    using restoreToCount_loop_result [OF f] by simp_all
  show ?thesis
    using inv n unfolding stackInv_def r by (auto simp: min_def)
qed

text \<open>
  C9. \<^verbatim>\<open>restore\<close> at a save count of 1 (or less) returns the renderer as it is: nothing
  is popped, the snapshot chain with its transform, clip and alpha is unchanged, and
  nothing is called. \<^verbatim>\<open>restoreToCount\<close> with an argument below 1 is
  \<^verbatim>\<open>restoreToCount(1)\<close>. The preparation of a frame establishes, and \<^verbatim>\<open>save\<close>,
  \<^verbatim>\<open>restore\<close> and \<^verbatim>\<open>restoreToCount\<close> keep, that the save count is at least 1 and
  that the chain holds one snapshot more than the save count: the root snapshot, the
  last of the chain, is never popped.
\<close>

theorem save_count_at_least_one:
  "(mSaveCount s \<le> 1 \<longrightarrow> restore E s = Inr s)
   \<and> (n < 1 \<longrightarrow> restoreToCount E n s = restoreToCount E 1 s)
   \<and> (stackInv s \<longrightarrow>
        (\<forall>s'. restore E s = Inr s' \<longrightarrow> stackInv s')
      \<and> (\<forall>s'. restoreToCount E n s = Inr s' \<longrightarrow> stackInv s')
      \<and> (\<forall>k s'. save saveFlags s = Inr (k, s') \<longrightarrow> stackInv s'))
   \<and> (\<forall>st s'. prepareDirty E l t r b opaque s = Inr (st, s') \<longrightarrow> stackInv s')"
proof (intro conjI impI allI)
  assume "mSaveCount s \<le> 1"
  then show "restore E s = Inr s"
    by (simp add: restore_def)
next
  assume "n < 1"
  then show "restoreToCount E n s = restoreToCount E 1 s"
    by (simp add: restoreToCount_def)
next
  fix s'
  assume inv: "stackInv s" and r: "restore E s = Inr s'"
  show "stackInv s'"
  proof (cases "1 < mSaveCount s")
    case True
    then show ?thesis
      using restore_Inr [OF r True] inv by (cases "mSnapshot s") (auto simp: stackInv_def)
  next
    case False
    then show ?thesis
      using inv r by (simp add: restore_def)
  qed
next
  fix s'
  assume inv: "stackInv s" and r: "restoreToCount E n s = Inr s'"
  have m: "(if n < 1 then 1 else n) = max n 1"
    by simp
  have fo: "finish_op (restoreToCount_loop E (max n 1) s) (restoreToCount_loop E (max n 1) s) = Inr s'"
    using r unfolding restoreToCount_def Let_def m .
  have "s' = restoreToCount_loop E (max n 1) s" "fault (restoreToCount_loop E (max n 1) s) = None"
    using finish_op_InrD [OF fo] by simp_all
  then show "stackInv s'"
    using stackInv_restoreToCount_loop [OF inv, of "max n 1" E] by simp
next
  fix k s'
  assume inv: "stackInv s" and r: "save saveFlags s = Inr (k, s')"
  show "stackInv s'"
    using save_Inr [OF r] inv by (simp add: stackInv_def)
next
  fix st s'
  assume "prepareDirty E l t r b opaque s = Inr (st, s')"
  then show "stackInv s'"
    using prepareDirty_result [of E l t r b opaque s st s'] by (simp add: stackInv_def)
qed

theorem save_count_at_least_one_witness:
  "mSaveCount preparedFrame \<le> 1 \<and> restore demoEnv preparedFrame = Inr preparedFrame
   \<and> (0 :: int) < 1
   \<and> restoreToCount demoEnv 0 preparedFrame = Inr preparedFrame
   \<and> restoreToCount demoEnv 1 preparedFrame = Inr preparedFrame
   \<and> stackInv preparedFrame
   \<and> map_sum id (stackInv \<circ> snd) (save {kClip_SaveFlag} preparedFrame) = Inr True
   \<and> prepareDirty demoEnv 0 0 100 100 True demoRenderer = Inr (kStatusDone, preparedFrame)"
  using save_count_at_least_one
    [of preparedFrame demoEnv 0 "{kClip_SaveFlag}" 0 0 100 100 True]
  by (simp add: prepareDirty_demo restore_def restoreToCount_def stackInv_def save_def
      saveSnapshot_def finish_op_def restoreToCount_loop_source [of demoEnv 1 preparedFrame])

subsection \<open>The save count after saves and restores\<close>

text \<open>
  C3. From a freshly prepared frame, \<open>N\<close> calls of \<^verbatim>\<open>save\<close> (with any flags) and then
  \<open>M < N\<close> calls of \<^verbatim>\<open>restore\<close> all return, and \<^verbatim>\<open>getSaveCount\<close> is then
  \<open>max 1 (N + 1 - M)\<close>; \<^verbatim>\<open>restoreToCount(n)\<close> returns there too. Whenever
  \<^verbatim>\<open>restoreToCount(n)\<close> returns, it has popped snapshots until the save count is
  \<open>max n 1\<close>: the count is the smaller of the count before and \<open>max n 1\<close> (nothing is
  popped when the count is already that low), and the chain has lost as many snapshots
  as the count has dropped.
\<close>

theorem getSaveCount_after_saves_and_restores:
  assumes "prepareDirty E l t r b opaque s0 = Inr (st, s)" and "M < length fs"
  shows "(\<exists>s1 s2 s3. saveAll fs s = Inr s1 \<and> restoreTimes E M s1 = Inr s2
            \<and> getSaveCount s2 = max 1 (int (length fs) + 1 - int M)
            \<and> restoreToCount E n s2 = Inr s3
            \<and> getSaveCount s3 = min (getSaveCount s2) (max n 1))
       \<and> (\<forall>u u'. restoreToCount E n u = Inr u' \<longrightarrow>
            getSaveCount u' = min (getSaveCount u) (max n 1)
            \<and> mSnapshot u' = drop (nat (getSaveCount u - getSaveCount u')) (mSnapshot u))"
proof (intro conjI allI impI)
  have p0: "plainSaves 0 s"
    using assms(1) by (rule plainSaves_prepareDirty)
  obtain s1 where s1: "saveAll fs s = Inr s1" "plainSaves (0 + length fs) s1"
    using plainSaves_saveAll [OF p0] by blast
  obtain s2 where s2: "restoreTimes E M s1 = Inr s2" "plainSaves (0 + length fs - M) s2"
    using plainSaves_restoreTimes [of M "0 + length fs" s1 E] s1(2) assms(2) by auto
  have c2: "getSaveCount s2 = max 1 (int (length fs) + 1 - int M)"
    using s2(2) assms(2) by (simp add: plainSaves_def getSaveCount_def)
  let ?s3 = "restoreToCount_loop E (max n 1) s2"
  have p3: "plainSaves (min (0 + length fs - M) (nat (max n 1 - 1))) ?s3"
    using plainSaves_restoreToCount_loop [OF s2(2), of "max n 1" E] by simp
  then have f3: "fault ?s3 = None"
    by (simp add: plainSaves_def)
  have m: "(if n < 1 then 1 else n) = max n 1"
    by simp
  have r3: "restoreToCount E n s2 = Inr ?s3"
    unfolding restoreToCount_def Let_def m using f3 by simp
  have "getSaveCount ?s3 = min (getSaveCount s2) (max n 1)"
    using restoreToCount_Inr [OF r3] by (simp add: getSaveCount_def)
  then show "\<exists>s1 s2 s3. saveAll fs s = Inr s1 \<and> restoreTimes E M s1 = Inr s2
            \<and> getSaveCount s2 = max 1 (int (length fs) + 1 - int M)
            \<and> restoreToCount E n s2 = Inr s3
            \<and> getSaveCount s3 = min (getSaveCount s2) (max n 1)"
    using s1(1) s2(1) c2 r3 by blast
next
  fix u u'
  assume "restoreToCount E n u = Inr u'"
  from restoreToCount_Inr [OF this]
  show "getSaveCount u' = min (getSaveCount u) (max n 1)"
    and "mSnapshot u' = drop (nat (getSaveCount u - getSaveCount u')) (mSnapshot u)"
    by (simp_all add: getSaveCount_def)
qed

lemma saveAll_demo:
  "saveAll [{kMatrix_SaveFlag}, {kClip_SaveFlag}, {}] preparedFrame =
     Inr (preparedFrame
       \<lparr>mSaveCount := 4,
        mSnapshot := [demoSnapshot\<lparr>flags := {}, ownsTransform := False, ownsClip := False\<rparr>,
                      demoSnapshot\<lparr>flags := {}, ownsTransform := False\<rparr>,
                      demoSnapshot\<lparr>flags := {}, ownsClip := False\<rparr>,
                      demoSnapshot\<lparr>flags := {kFlagClipSet}\<rparr>, demoSnapshot]\<rparr>)"
  by (simp add: save_def saveSnapshot_def finish_op_def newSnapshot_def demoSnapshot_def)

lemma restoreTimes_demo:
  "restoreTimes demoEnv 1 (preparedFrame
       \<lparr>mSaveCount := 4,
        mSnapshot := [demoSnapshot\<lparr>flags := {}, ownsTransform := False, ownsClip := False\<rparr>,
                      demoSnapshot\<lparr>flags := {}, ownsTransform := False\<rparr>,
                      demoSnapshot\<lparr>flags := {}, ownsClip := False\<rparr>,
                      demoSnapshot\<lparr>flags := {kFlagClipSet}\<rparr>, demoSnapshot]\<rparr>) =
     Inr (preparedFrame
       \<lparr>mSaveCount := 3,
        mSnapshot := [demoSnapshot\<lparr>flags := {}, ownsTransform := False\<rparr>,
                      demoSnapshot\<lparr>flags := {}, ownsClip := False\<rparr>,
                      demoSnapshot\<lparr>flags := {kFlagClipSet}\<rparr>, demoSnapshot]\<rparr>)"
  by (simp add: restore_def restoreSnapshot_def Let_def finish_op_def demoSnapshot_def)

lemma restoreToCount_demo:
  "restoreToCount demoEnv 2 (preparedFrame
       \<lparr>mSaveCount := 3,
        mSnapshot := [demoSnapshot\<lparr>flags := {}, ownsTransform := False\<rparr>,
                      demoSnapshot\<lparr>flags := {}, ownsClip := False\<rparr>,
                      demoSnapshot\<lparr>flags := {kFlagClipSet}\<rparr>, demoSnapshot]\<rparr>) =
     Inr (preparedFrame
       \<lparr>mSaveCount := 2,
        mSnapshot := [demoSnapshot\<lparr>flags := {}, ownsClip := False\<rparr>,
                      demoSnapshot\<lparr>flags := {kFlagClipSet}\<rparr>, demoSnapshot]\<rparr>)"
  by (simp add: restoreToCount_def restoreToCount_loop.simps restoreSnapshot_def Let_def
      finish_op_def demoSnapshot_def)

lemma counts_demo:
  "prepareDirty demoEnv 0 0 100 100 True demoRenderer = Inr (kStatusDone, preparedFrame)
   \<and> (1 :: nat) < length [{kMatrix_SaveFlag}, {kClip_SaveFlag}, {}]
   \<and> map_sum id getSaveCount
        (restoreTimes demoEnv 1
           (projr (saveAll [{kMatrix_SaveFlag}, {kClip_SaveFlag}, {}] preparedFrame))) = Inr 3
   \<and> map_sum id getSaveCount
        (restoreToCount demoEnv 2
           (projr (restoreTimes demoEnv 1
              (projr (saveAll [{kMatrix_SaveFlag}, {kClip_SaveFlag}, {}] preparedFrame)))))
       = Inr 2"
  unfolding saveAll_demo sum.sel restoreTimes_demo restoreToCount_demo
  by (simp add: prepareDirty_demo getSaveCount_def)

theorem getSaveCount_after_saves_and_restores_witness:
  "prepareDirty demoEnv 0 0 100 100 True demoRenderer = Inr (kStatusDone, preparedFrame)
   \<and> (1 :: nat) < length [{kMatrix_SaveFlag}, {kClip_SaveFlag}, {}]
   \<and> map_sum id getSaveCount
        (restoreTimes demoEnv 1
           (projr (saveAll [{kMatrix_SaveFlag}, {kClip_SaveFlag}, {}] preparedFrame))) = Inr 3
   \<and> map_sum id getSaveCount
        (restoreToCount demoEnv 2
           (projr (restoreTimes demoEnv 1
              (projr (saveAll [{kMatrix_SaveFlag}, {kClip_SaveFlag}, {}] preparedFrame)))))
       = Inr 2"
  using getSaveCount_after_saves_and_restores
    [of demoEnv 0 0 100 100 True demoRenderer kStatusDone preparedFrame 1
        "[{kMatrix_SaveFlag}, {kClip_SaveFlag}, {}]" 2]
    counts_demo
  by blast

section \<open>The clear of a frame\<close>

lemma clr_steps [simp]:
  "filter isClear (calls (doCaches E z s)) = filter isClear (calls s)"
  "filter isClear (calls (objectCall q y s)) = filter isClear (calls s)"
  "filter isClear (calls (debugOverdraw E en cl s)) = filter isClear (calls s)"
  "filter isClear (calls (startTiling E s)) = filter isClear (calls s)"
  "filter isClear (calls (endTiling E s)) = filter isClear (calls s)"
  "filter isClear (calls (resumeAfterLayer E s)) = filter isClear (calls s)"
  "filter isClear (calls (discardFramebuffer E l t r b s)) = filter isClear (calls s)"
  "filter isClear (calls (syncState s)) = filter isClear (calls s)"
  by (simp_all add: debugOverdraw_def startTiling_def endTiling_def resumeAfterLayer_def
      discardFramebuffer_def syncState_def Let_def)

lemma clr_updateLayer [simp]:
  "filter isClear (calls (snd (updateLayer E a inFrame s))) = filter isClear (calls s)"
  by (simp add: updateLayer_def Let_def split: option.splits)

lemma clr_updateLayers_loop [simp]:
  "filter isClear (calls (updateLayers_loop E as s)) = filter isClear (calls s)"
  by (induction as arbitrary: s) simp_all

lemma clr_updateLayers [simp]:
  "filter isClear (calls (updateLayers E s)) = filter isClear (calls s)"
  by (simp add: updateLayers_def Let_def)

lemma ext_resumeAfterLayer [ext]:
  "prefix tr0 (calls s) \<Longrightarrow> prefix tr0 (calls (resumeAfterLayer E s))"
  by (auto simp: resumeAfterLayer_def Let_def intro!: ext)

lemma ext_updateLayer [ext]:
  "prefix tr0 (calls s) \<Longrightarrow> prefix tr0 (calls (snd (updateLayer E a inFrame s)))"
  by (auto simp: updateLayer_def Let_def split: option.splits intro!: ext)

lemma ext_updateLayers_loop [ext]:
  "prefix tr0 (calls s) \<Longrightarrow> prefix tr0 (calls (updateLayers_loop E as s))"
  by (induction as arbitrary: s) (simp_all add: ext)

lemma ext_updateLayers [ext]:
  "prefix tr0 (calls s) \<Longrightarrow> prefix tr0 (calls (updateLayers E s))"
  by (auto simp: updateLayers_def Let_def intro!: ext)

lemma ext_discardFramebuffer [ext]:
  "prefix tr0 (calls s) \<Longrightarrow> prefix tr0 (calls (discardFramebuffer E l t r b s))"
  by (auto simp: discardFramebuffer_def intro!: ext)

lemma ext_syncState [ext]:
  "prefix tr0 (calls s) \<Longrightarrow> prefix tr0 (calls (syncState s))"
  by (auto simp: syncState_def Let_def intro!: ext)

lemma prepareDirty_before_clear:
  "\<exists>s8. prepareDirty E l t r b opaque s0
            = (case clear E l t r b opaque s8 of (st, s9) \<Rightarrow> finish_op s9 (st, s9))
        \<and> fault s8 = fault s0
        \<and> mSnapshot s8 \<noteq> []
        \<and> height (current s8) = height (mFirstSnapshot s0)
        \<and> filter isClear (calls s8) = filter isClear (calls s0)
        \<and> prefix (calls s0) (calls s8)"
  unfolding prepareDirty_def Let_def
  apply (rule exI)
  apply (intro conjI)
       apply (rule refl)
      apply simp
     apply simp
    apply (simp add: current_def snapshot_setClip_def newSnapshot_def)
   apply simp
  apply (auto intro!: ext)
  done

text \<open>
  C7. On an intact renderer \<^verbatim>\<open>prepareDirty\<close> returns, and what it returns tells whether
  a clear drew. When \<open>opaque\<close> is false, the last three calls enable the scissor, set it
  to the dirty rectangle (in GL coordinates, from the bottom of the snapshot) and clear
  the colour buffer, and the status is \<^verbatim>\<open>kStatusDrew\<close>. When \<open>opaque\<close> is true, the
  last call resets the scissor, the status is \<^verbatim>\<open>kStatusDone\<close>, and no \<^verbatim>\<open>glClear\<close> is
  issued. In both cases nothing before these calls is a \<^verbatim>\<open>glClear\<close>.
  \<^verbatim>\<open>prepare(opaque)\<close> is \<^verbatim>\<open>prepareDirty\<close> on the whole viewport.
\<close>

theorem prepare_clears_unless_opaque:
  assumes "fault s = None"
  shows "(\<exists>s' pre.
            prepareDirty E l t r b opaque s
              = Inr (if opaque then kStatusDone else kStatusDrew, s')
          \<and> \<not> list_ex isClear pre
          \<and> calls s' = calls s @ pre @
               (if opaque then [CachesCall Caches_resetScissor]
                else [CachesCall Caches_enableScissor,
                      CachesCall (Caches_setScissor l (of_int (height (mFirstSnapshot s)) - b)
                                    (r - l) (b - t)),
                      GL (glClear GL_COLOR_BUFFER_BIT)]))
       \<and> prepare E opaque s
           = prepareDirty E 0 0 (of_int (mWidth s)) (of_int (mHeight s)) opaque s"
proof (rule conjI)
  obtain s8 where
    eq: "prepareDirty E l t r b opaque s
           = (case clear E l t r b opaque s8 of (st, s9) \<Rightarrow> finish_op s9 (st, s9))"
    and f: "fault s8 = fault s"
    and ne: "mSnapshot s8 \<noteq> []"
    and h: "height (current s8) = height (mFirstSnapshot s)"
    and cl: "filter isClear (calls s8) = filter isClear (calls s)"
    and pr: "prefix (calls s) (calls s8)"
    using prepareDirty_before_clear [of E l t r b opaque s] by blast
  obtain pre where pre: "calls s8 = calls s @ pre"
    using pr by (auto elim: prefixE)
  have "filter isClear pre = []"
    using cl pre by simp
  then have nc: "\<not> list_ex isClear pre"
    by (simp add: filter_empty_conv list_ex_iff)
  let ?s9 = "snd (clear E l t r b opaque s8)"
  have f9: "fault ?s9 = None"
    using ne f assms by simp
  have st: "fst (clear E l t r b opaque s8) = (if opaque then kStatusDone else kStatusDrew)"
    by (simp add: clear_def Let_def)
  have c9: "calls ?s9 = calls s @ pre @
               (if opaque then [CachesCall Caches_resetScissor]
                else [CachesCall Caches_enableScissor,
                      CachesCall (Caches_setScissor l (of_int (height (mFirstSnapshot s)) - b)
                                    (r - l) (b - t)),
                      GL (glClear GL_COLOR_BUFFER_BIT)])"
    using pre h ne by (simp add: clear_def Let_def requireSnapshot_def current_def)
  have "prepareDirty E l t r b opaque s
          = Inr (if opaque then kStatusDone else kStatusDrew, ?s9)"
    unfolding eq using f9 st by (simp add: case_prod_beta)
  then show "\<exists>s' pre.
            prepareDirty E l t r b opaque s
              = Inr (if opaque then kStatusDone else kStatusDrew, s')
          \<and> \<not> list_ex isClear pre
          \<and> calls s' = calls s @ pre @
               (if opaque then [CachesCall Caches_resetScissor]
                else [CachesCall Caches_enableScissor,
                      CachesCall (Caches_setScissor l (of_int (height (mFirstSnapshot s)) - b)
                                    (r - l) (b - t)),
                      GL (glClear GL_COLOR_BUFFER_BIT)])"
    using nc c9 by blast
next
  show "prepare E opaque s
           = prepareDirty E 0 0 (of_int (mWidth s)) (of_int (mHeight s)) opaque s"
    by (simp add: prepare_def)
qed

lemma prepare_demo:
  "fault demoRenderer = None
   \<and> map_sum id fst (prepare demoEnv False demoRenderer) = Inr kStatusDrew
   \<and> map_sum id (calls \<circ> snd) (prepare demoEnv False demoRenderer)
       = Inr [CachesCall Caches_clearGarbage, GL (glViewport 0 0 100 100),
              GL (glDisable GL_BLEND), CachesCall Caches_startTiling,
              CachesCall Caches_enableScissor, CachesCall (Caches_setScissor 0 0 100 100),
              GL (glClear GL_COLOR_BUFFER_BIT)]
   \<and> map_sum id fst (prepare demoEnv True demoRenderer) = Inr kStatusDone
   \<and> map_sum id (calls \<circ> snd) (prepare demoEnv True demoRenderer)
       = Inr [CachesCall Caches_clearGarbage, GL (glViewport 0 0 100 100),
              GL (glDisable GL_BLEND), CachesCall Caches_startTiling,
              CachesCall Caches_resetScissor]"
  by (simp add: prepare_def prepareDirty_def Let_def demoRenderer_def demoEnv_def
      demoCaches_def demoSnapshot_def doCaches_def callCaches_def updateLayers_def
      discardFramebuffer_def syncState_def startTiling_def debugOverdraw_def clear_def
      gl_def snapshot_setClip_def newSnapshot_def finish_op_def mkRect_def
      requireSnapshot_def current_def)

theorem prepare_clears_unless_opaque_witness:
  "fault demoRenderer = None
   \<and> map_sum id fst (prepare demoEnv False demoRenderer) = Inr kStatusDrew
   \<and> map_sum id (calls \<circ> snd) (prepare demoEnv False demoRenderer)
       = Inr [CachesCall Caches_clearGarbage, GL (glViewport 0 0 100 100),
              GL (glDisable GL_BLEND), CachesCall Caches_startTiling,
              CachesCall Caches_enableScissor, CachesCall (Caches_setScissor 0 0 100 100),
              GL (glClear GL_COLOR_BUFFER_BIT)]
   \<and> map_sum id fst (prepare demoEnv True demoRenderer) = Inr kStatusDone
   \<and> map_sum id (calls \<circ> snd) (prepare demoEnv True demoRenderer)
       = Inr [CachesCall Caches_clearGarbage, GL (glViewport 0 0 100 100),
              GL (glDisable GL_BLEND), CachesCall Caches_startTiling,
              CachesCall Caches_resetScissor]"
  using prepare_clears_unless_opaque [of demoRenderer demoEnv 0 0 100 100 False]
    prepare_demo
  by blast

section \<open>The functor set after a batch\<close>

lemma reenter_applyReentries:
  "mFunctors (reenter as s) = applyReentries as (mFunctors s)"
  by (induction as s rule: reenter.induct) (simp_all add: attachFunctor_def detachFunctor_def)

lemma world_reenter [simp]: "world (reenter as s) = world s"
  by (induction as s rule: reenter.induct) (simp_all add: attachFunctor_def detachFunctor_def)

lemma mFunctors_resume [simp]: "mFunctors (resume E s) = mFunctors s"
  by (simp add: resume_def Let_def dirtyClip_def)

lemma loop_outcomes:
  "fst (invokeFunctors_loop E fs acc info dirty s)
     = foldl (OR) acc (map (fst \<circ> snd) (outcomes E fs info (world s)))
   \<and> mFunctors (snd (snd (snd (invokeFunctors_loop E fs acc info dirty s))))
     = registeredAfter (mFunctors s) acc (outcomes E fs info (world s))"
proof (induction fs arbitrary: acc info dirty s)
  case Nil
  then show ?case by simp
next
  case (Cons f fs)
  obtain r info' acts w' where impl: "functorImpl E f kModeProcess info (world s) = (r, info', acts, w')"
    by (cases "functorImpl E f kModeProcess info (world s)") auto
  let ?s1 = "reenter acts ((objectCall f (Functor_invoke kModeProcess) s)\<lparr>world := w'\<rparr>)"
  let ?s2 = "if (acc OR r) AND kStatusInvoke \<noteq> 0 then attachFunctor f ?s1 else ?s1"
  let ?d = "if (acc OR r) AND kStatusDraw \<noteq> 0 then unionWith dirty (localDirty info') else dirty"
  have step: "invokeFunctors_loop E (f # fs) acc info dirty s
      = invokeFunctors_loop E fs (acc OR r) info' ?d ?s2"
    using impl by (simp add: invokeFunctor_def Let_def)
  have w: "world ?s2 = w'"
    by (simp add: attachFunctor_def objectCall_def)
  have m: "mFunctors ?s2 =
      (if (acc OR r) AND kStatusInvoke \<noteq> 0
       then sortedVector_add f (applyReentries acts (mFunctors s))
       else applyReentries acts (mFunctors s))"
    by (simp add: attachFunctor_def reenter_applyReentries)
  show ?case
    unfolding step using Cons.IH [of "acc OR r" info' ?d ?s2] impl
    by (simp add: w m)
qed

lemma invokeFunctors_outcomes:
  "fst (invokeFunctors E dirty u s)
     = foldl (OR) kStatusDone
         (map (fst \<circ> snd) (outcomes E (mFunctors s) (initialInfo u) (world (interrupt E s))))
   \<and> mFunctors (snd (snd (invokeFunctors E dirty u s)))
     = registeredAfter [] kStatusDone
         (outcomes E (mFunctors s) (initialInfo u) (world (interrupt E s)))"
proof (cases "mFunctors s = []")
  case True
  then show ?thesis by (simp add: invokeFunctors_def)
next
  case False
  let ?s2 = "(interrupt E s)\<lparr>mFunctors := []\<rparr>"
  let ?l = "invokeFunctors_loop E (mFunctors s) kStatusDone (initialInfo u) dirty ?s2"
  have r: "invokeFunctors E dirty u s = (fst ?l, fst (snd (snd ?l)), resume E (snd (snd (snd ?l))))"
    using False by (simp add: invokeFunctors_def Let_def case_prod_beta)
  show ?thesis
    unfolding r
    using loop_outcomes [of E "mFunctors s" kStatusDone "initialInfo u" dirty ?s2]
    by simp
qed

subsection \<open>Consequences for the functor set\<close>

lemma outcomes_functors [simp]: "map fst (outcomes E fs info w) = fs"
  by (induction fs arbitrary: info w) (simp_all add: case_prod_beta)

lemma outcomes_noDetach:
  "noDetach E \<Longrightarrow> (f, r, acts) \<in> set (outcomes E fs info w) \<Longrightarrow> Reenter_detachFunctor g \<notin> set acts"
proof (induction fs arbitrary: info w)
  case Nil
  then show ?case by simp
next
  case (Cons a fs)
  obtain r0 i0 acts0 w0 where impl: "functorImpl E a kModeProcess info w = (r0, i0, acts0, w0)"
    by (cases "functorImpl E a kModeProcess info w") auto
  have "Reenter_detachFunctor g \<notin> set acts0"
    using Cons.prems(1) impl unfolding noDetach_def by (metis fst_conv snd_conv)
  then show ?case
    using Cons impl by auto
qed

lemma outcomes_attachesItself:
  "attachesItself E f \<Longrightarrow> f \<in> set fs \<Longrightarrow>
     \<exists>r acts. (f, r, acts) \<in> set (outcomes E fs info w) \<and> Reenter_attachFunctor f \<in> set acts"
proof (induction fs arbitrary: info w)
  case Nil
  then show ?case by simp
next
  case (Cons a fs)
  obtain r0 i0 acts0 w0 where impl: "functorImpl E a kModeProcess info w = (r0, i0, acts0, w0)"
    by (cases "functorImpl E a kModeProcess info w") auto
  show ?case
  proof (cases "a = f")
    case True
    have "Reenter_attachFunctor f \<in> set acts0"
      using Cons.prems(1) impl True unfolding attachesItself_def by (metis fst_conv snd_conv)
    then show ?thesis
      using impl True by auto
  next
    case False
    then have "f \<in> set fs"
      using Cons.prems(2) by simp
    from Cons.IH [OF Cons.prems(1) this, of i0 w0]
    show ?thesis
      using impl by auto
  qed
qed

lemma applyReentries_mono:
  "\<forall>g. Reenter_detachFunctor g \<notin> set as \<Longrightarrow> set R \<subseteq> set (applyReentries as R)"
  by (induction as R rule: applyReentries.induct) auto

lemma applyReentries_attach:
  "\<forall>g. Reenter_detachFunctor g \<notin> set as \<Longrightarrow> Reenter_attachFunctor f \<in> set as \<Longrightarrow>
     f \<in> set (applyReentries as R)"
proof (induction as R rule: applyReentries.induct)
  case (1 R)
  then show ?case by simp
next
  case (2 g as R)
  show ?case
  proof (cases "g = f")
    case True
    have "set (sortedVector_add f R) \<subseteq> set (applyReentries as (sortedVector_add f R))"
      using "2.prems"(1) by (intro applyReentries_mono) simp
    then show ?thesis
      using True by auto
  next
    case False
    then show ?thesis
      using 2 by simp
  qed
next
  case (3 g as R)
  then show ?case by simp
qed

lemma registeredAfter_mono:
  "\<forall>(f, r, acts) \<in> set outs. \<forall>g. Reenter_detachFunctor g \<notin> set acts \<Longrightarrow>
     set R \<subseteq> set (registeredAfter R acc outs)"
proof (induction R acc outs rule: registeredAfter.induct)
  case (1 R acc)
  then show ?case by simp
next
  case (2 R acc f r acts rest)
  let ?R = "if (acc OR r) AND kStatusInvoke \<noteq> 0
        then sortedVector_add f (applyReentries acts R) else applyReentries acts R"
  have "set R \<subseteq> set (applyReentries acts R)"
    using "2.prems" by (intro applyReentries_mono) simp
  then have "set R \<subseteq> set ?R"
    by auto
  moreover have "set ?R \<subseteq> set (registeredAfter ?R (acc OR r) rest)"
    using "2.IH" "2.prems" by simp
  ultimately show ?case
    by simp
qed

lemma invoke_bit_stays:
  fixes acc r :: status_t
  shows "acc AND kStatusInvoke \<noteq> 0 \<Longrightarrow> (acc OR r) AND kStatusInvoke \<noteq> 0"
proof
  assume a: "acc AND kStatusInvoke \<noteq> 0" and z: "(acc OR r) AND kStatusInvoke = 0"
  have "acc AND kStatusInvoke = ((acc OR r) AND kStatusInvoke) AND acc"
    by (auto simp: bit_eq_iff bit_and_iff bit_or_iff)
  with z have "acc AND kStatusInvoke = 0" by simp
  with a show False by simp
qed

lemma invoke_bit_joins:
  fixes acc r :: status_t
  shows "r AND kStatusInvoke \<noteq> 0 \<Longrightarrow> (acc OR r) AND kStatusInvoke \<noteq> 0"
  using invoke_bit_stays [of r acc] by (simp add: or.commute)

lemma registeredAfter_bit:
  "\<forall>(f, r, acts) \<in> set outs. \<forall>g. Reenter_detachFunctor g \<notin> set acts \<Longrightarrow>
     acc AND kStatusInvoke \<noteq> 0 \<Longrightarrow> fst ` set outs \<subseteq> set (registeredAfter R acc outs)"
proof (induction R acc outs rule: registeredAfter.induct)
  case (1 R acc)
  then show ?case by simp
next
  case (2 R acc f r acts rest)
  let ?R = "sortedVector_add f (applyReentries acts R)"
  have b: "(acc OR r) AND kStatusInvoke \<noteq> 0"
    using "2.prems"(2) by (rule invoke_bit_stays)
  have nd: "\<forall>(f, r, acts) \<in> set rest. \<forall>g. Reenter_detachFunctor g \<notin> set acts"
    using "2.prems"(1) by simp
  have "fst ` set rest \<subseteq> set (registeredAfter ?R (acc OR r) rest)"
    using "2.IH" [OF nd b] b by simp
  moreover have "f \<in> set (registeredAfter ?R (acc OR r) rest)"
    using registeredAfter_mono [OF nd, of ?R "acc OR r"] by auto
  ultimately show ?case
    using b by simp
qed

lemma registeredAfter_from:
  "\<forall>(f, r, acts) \<in> set outs. \<forall>g. Reenter_detachFunctor g \<notin> set acts \<Longrightarrow>
     i \<le> j \<Longrightarrow> j < length outs \<Longrightarrow> fst (snd (outs ! i)) AND kStatusInvoke \<noteq> 0 \<Longrightarrow>
     fst (outs ! j) \<in> set (registeredAfter R acc outs)"
proof (induction R acc outs arbitrary: i j rule: registeredAfter.induct)
  case (1 R acc)
  then show ?case by simp
next
  case (2 R acc f r acts rest)
  let ?R = "if (acc OR r) AND kStatusInvoke \<noteq> 0
        then sortedVector_add f (applyReentries acts R) else applyReentries acts R"
  have nd: "\<forall>(f, r, acts) \<in> set rest. \<forall>g. Reenter_detachFunctor g \<notin> set acts"
    using "2.prems"(1) by simp
  show ?case
  proof (cases i)
    case 0
    then have b: "(acc OR r) AND kStatusInvoke \<noteq> 0"
      using "2.prems"(4) by (simp add: invoke_bit_joins)
    show ?thesis
    proof (cases j)
      case 0
      have "f \<in> set ?R"
        using b by simp
      then show ?thesis
        using registeredAfter_mono [OF nd, of ?R "acc OR r"] 0 by auto
    next
      case (Suc j')
      then have "fst (rest ! j') \<in> fst ` set rest"
        using "2.prems"(3) by simp
      then show ?thesis
        using registeredAfter_bit [OF nd b, of ?R] Suc by auto
    qed
  next
    case (Suc i')
    then obtain j' where j: "j = Suc j'"
      using "2.prems"(2) by (cases j) simp_all
    have "fst (rest ! j') \<in> set (registeredAfter ?R (acc OR r) rest)"
      using "2.IH" [OF nd, of i' j'] "2.prems" Suc j by simp
    then show ?thesis
      using j by simp
  qed
qed

lemma registeredAfter_attached:
  "\<forall>(f, r, acts) \<in> set outs. \<forall>g. Reenter_detachFunctor g \<notin> set acts \<Longrightarrow>
     (f, r, acts) \<in> set outs \<Longrightarrow> Reenter_attachFunctor f \<in> set acts \<Longrightarrow>
     f \<in> set (registeredAfter R acc outs)"
proof (induction R acc outs rule: registeredAfter.induct)
  case (1 R acc)
  then show ?case by simp
next
  case (2 R acc f0 r0 acts0 rest)
  let ?R = "if (acc OR r0) AND kStatusInvoke \<noteq> 0
        then sortedVector_add f0 (applyReentries acts0 R) else applyReentries acts0 R"
  have nd: "\<forall>(f, r, acts) \<in> set rest. \<forall>g. Reenter_detachFunctor g \<notin> set acts"
    using "2.prems"(1) by simp
  show ?case
  proof (cases "(f, r, acts) = (f0, r0, acts0)")
    case True
    have "f \<in> set (applyReentries acts0 R)"
      using "2.prems" True by (intro applyReentries_attach) auto
    then have "f \<in> set ?R"
      by auto
    then show ?thesis
      using registeredAfter_mono [OF nd, of ?R "acc OR r0"] by auto
  next
    case False
    then have "(f, r, acts) \<in> set rest"
      using "2.prems"(2) by auto
    then show ?thesis
      using "2.IH" [OF nd _ "2.prems"(3)] by simp
  qed
qed

subsection \<open>A functor that registers itself again\<close>

text \<open>
  C6. \<^verbatim>\<open>invokeFunctors\<close> walks a copy of the functors registered when it is entered, so
  whatever the functors do to \<^verbatim>\<open>mFunctors\<close> while they run, the functors invoked
  during the call are exactly the ones registered at entry, in order, and none of them is
  invoked twice: a functor that registers itself again is not invoked again in this call.
  The registration is honoured: a functor of the batch that attaches itself while it runs
  is in \<^verbatim>\<open>mFunctors\<close> when the call returns (as long as no functor detaches anything),
  and the next call of \<^verbatim>\<open>invokeFunctors\<close> invokes it.
\<close>

theorem invokeFunctors_invokes_each_once:
  assumes "distinct (mFunctors s)"
  shows "invocations (drop (length (calls s)) (calls (snd (snd (invokeFunctors E dirty u s)))))
           = mFunctors s
       \<and> distinct (invocations (drop (length (calls s))
                      (calls (snd (snd (invokeFunctors E dirty u s))))))
       \<and> (f \<in> set (mFunctors s) \<longrightarrow> attachesItself E f \<longrightarrow> noDetach E \<longrightarrow>
            f \<in> set (mFunctors (snd (snd (invokeFunctors E dirty u s))))
          \<and> f \<in> set (invocations
                (drop (length (calls (snd (snd (invokeFunctors E dirty u s)))))
                   (calls (snd (snd (invokeFunctors E dirty' u'
                      (snd (snd (invokeFunctors E dirty u s))))))))))"
proof (intro conjI impI)
  obtain new where new: "calls (snd (snd (invokeFunctors E dirty u s))) = calls s @ new"
    "invocations new = mFunctors s"
    using calls_invokeFunctors by blast
  show "invocations (drop (length (calls s)) (calls (snd (snd (invokeFunctors E dirty u s)))))
           = mFunctors s"
    using new by simp
  show "distinct (invocations (drop (length (calls s))
                      (calls (snd (snd (invokeFunctors E dirty u s))))))"
    using new assms by simp
next
  assume f: "f \<in> set (mFunctors s)" and at: "attachesItself E f" and nd: "noDetach E"
  let ?outs = "outcomes E (mFunctors s) (initialInfo u) (world (interrupt E s))"
  let ?s' = "snd (snd (invokeFunctors E dirty u s))"
  obtain r acts where in_outs: "(f, r, acts) \<in> set ?outs" "Reenter_attachFunctor f \<in> set acts"
    using outcomes_attachesItself [OF at f] by blast
  have nd_outs: "\<forall>(f, r, acts) \<in> set ?outs. \<forall>g. Reenter_detachFunctor g \<notin> set acts"
    using outcomes_noDetach [OF nd] by blast
  have "f \<in> set (registeredAfter [] kStatusDone ?outs)"
    using registeredAfter_attached [OF nd_outs in_outs] .
  then show reg: "f \<in> set (mFunctors ?s')"
    using invokeFunctors_outcomes [of E dirty u s] by simp
  obtain new where "calls (snd (snd (invokeFunctors E dirty' u' ?s'))) = calls ?s' @ new"
    "invocations new = mFunctors ?s'"
    using calls_invokeFunctors by blast
  then show "f \<in> set (invocations (drop (length (calls ?s'))
      (calls (snd (snd (invokeFunctors E dirty' u' ?s'))))))"
    using reg by simp
qed

lemmas functor_eval =
  invokeFunctors_def demoRenderer_def demoEnv_def reentrantEnv_def Let_def interrupt_def
  demoCaches_def doCaches_def callCaches_def debugOverdraw_def invokeFunctor_def
  objectCall_def attachFunctor_def sortedVector_add_def kStatusDone_def kStatusInvoke_def
  kStatusDraw_def resume_def gl_def dirtyClip_def currentOrFirst_def initialInfo_def

lemma reentrant_batch:
  "mFunctors (snd (snd (invokeFunctors reentrantEnv (mkRect 0 0 0 0) (mkRect 0 0 0 0)
           (demoRenderer\<lparr>mFunctors := [1, 2]\<rparr>)))) = [1]"
  "invocations (drop (length (calls (demoRenderer\<lparr>mFunctors := [1, 2]\<rparr>)))
        (calls (snd (snd (invokeFunctors reentrantEnv (mkRect 0 0 0 0) (mkRect 0 0 0 0)
           (demoRenderer\<lparr>mFunctors := [1, 2]\<rparr>)))))) = [1, 2]"
  "fst (invokeFunctors reentrantEnv (mkRect 0 0 0 0) (mkRect 0 0 0 0)
           (demoRenderer\<lparr>mFunctors := [1, 2]\<rparr>)) = kStatusDone"
  by (simp_all add: functor_eval)

lemma reentrant_hyps:
  "attachesItself reentrantEnv 1" "noDetach reentrantEnv"
  "mFunctors (demoRenderer\<lparr>mFunctors := [1, 2]\<rparr>) = [1, 2]"
  by (simp_all add: attachesItself_def noDetach_def reentrantEnv_def demoEnv_def demoRenderer_def)

text \<open>
  In this environment every functor returns \<^verbatim>\<open>kStatusDone\<close>, so nothing is registered
  by the loop itself; functor 1 attaches itself while it runs. It is invoked once, and
  it is the one functor registered when the call returns.
\<close>

theorem invokeFunctors_invokes_each_once_witness:
  "distinct (mFunctors (demoRenderer\<lparr>mFunctors := [1, 2]\<rparr>))
   \<and> 1 \<in> set (mFunctors (demoRenderer\<lparr>mFunctors := [1, 2]\<rparr>))
   \<and> attachesItself reentrantEnv 1 \<and> noDetach reentrantEnv
   \<and> invocations (drop (length (calls (demoRenderer\<lparr>mFunctors := [1, 2]\<rparr>)))
        (calls (snd (snd (invokeFunctors reentrantEnv (mkRect 0 0 0 0) (mkRect 0 0 0 0)
           (demoRenderer\<lparr>mFunctors := [1, 2]\<rparr>)))))) = [1, 2]
   \<and> fst (invokeFunctors reentrantEnv (mkRect 0 0 0 0) (mkRect 0 0 0 0)
           (demoRenderer\<lparr>mFunctors := [1, 2]\<rparr>)) = kStatusDone
   \<and> mFunctors (snd (snd (invokeFunctors reentrantEnv (mkRect 0 0 0 0) (mkRect 0 0 0 0)
           (demoRenderer\<lparr>mFunctors := [1, 2]\<rparr>)))) = [1]"
  using invokeFunctors_invokes_each_once
    [of "demoRenderer\<lparr>mFunctors := [1, 2]\<rparr>" reentrantEnv "mkRect 0 0 0 0" "mkRect 0 0 0 0" 1]
    reentrant_batch reentrant_hyps
  by simp

subsection \<open>The decision to register a functor again\<close>

text \<open>
  C10. For every call of \<^verbatim>\<open>invokeFunctors\<close>: the status returned is the bitwise OR of
  the statuses of the functors of the batch, and the functor set when the call returns
  is \<open>registeredAfter\<close> of the outcomes of the batch: starting from the empty set, each
  functor's own attach and detach calls are applied, and the functor is registered again
  exactly if the OR of the statuses returned up to and including its own has the invoke
  bit; its own status alone does not decide. Consequently, when no functor detaches
  anything, once the functor at position \<open>i\<close> has returned the invoke bit, the functor at
  every position \<open>j\<close> from \<open>i\<close> on is registered when the call returns, whatever status it
  returned itself.
\<close>

theorem invokeFunctors_registers_by_accumulated_status:
  "fst (invokeFunctors E dirty u s)
     = foldl (OR) kStatusDone
         (map (fst \<circ> snd) (outcomes E (mFunctors s) (initialInfo u) (world (interrupt E s))))
   \<and> mFunctors (snd (snd (invokeFunctors E dirty u s)))
     = registeredAfter [] kStatusDone
         (outcomes E (mFunctors s) (initialInfo u) (world (interrupt E s)))
   \<and> (noDetach E \<longrightarrow> i \<le> j \<longrightarrow> j < length (mFunctors s) \<longrightarrow>
        fst (snd (outcomes E (mFunctors s) (initialInfo u) (world (interrupt E s)) ! i))
          AND kStatusInvoke \<noteq> 0 \<longrightarrow>
        mFunctors s ! j \<in> set (mFunctors (snd (snd (invokeFunctors E dirty u s)))))"
proof (intro conjI impI)
  let ?outs = "outcomes E (mFunctors s) (initialInfo u) (world (interrupt E s))"
  show "fst (invokeFunctors E dirty u s) = foldl (OR) kStatusDone (map (fst \<circ> snd) ?outs)"
    and eq: "mFunctors (snd (snd (invokeFunctors E dirty u s)))
               = registeredAfter [] kStatusDone ?outs"
    using invokeFunctors_outcomes [of E dirty u s] by simp_all
  assume nd: "noDetach E" and ij: "i \<le> j" and j: "j < length (mFunctors s)"
    and b: "fst (snd (?outs ! i)) AND kStatusInvoke \<noteq> 0"
  have nd_outs: "\<forall>(f, r, acts) \<in> set ?outs. \<forall>g. Reenter_detachFunctor g \<notin> set acts"
    using outcomes_noDetach [OF nd] by blast
  have len: "length ?outs = length (mFunctors s)"
    using outcomes_functors [of E "mFunctors s" "initialInfo u" "world (interrupt E s)"]
    by (metis length_map)
  have "fst (?outs ! j) = mFunctors s ! j"
    using outcomes_functors [of E "mFunctors s" "initialInfo u" "world (interrupt E s)"] j len
    by (metis nth_map)
  moreover have "fst (?outs ! j) \<in> set (registeredAfter [] kStatusDone ?outs)"
    using registeredAfter_from [OF nd_outs ij _ b] j len by simp
  ultimately show "mFunctors s ! j \<in> set (mFunctors (snd (snd (invokeFunctors E dirty u s))))"
    using eq by simp
qed

lemma accumulating_batch:
  "outcomes demoEnv [0, 1, 2] (initialInfo (mkRect 0 0 0 0))
      (world (interrupt demoEnv (demoRenderer\<lparr>mFunctors := [0, 1, 2]\<rparr>)))
     = [(0, kStatusDone, []), (1, kStatusInvoke, [Reenter_attachFunctor 1]), (2, kStatusDone, [])]"
  "mFunctors (snd (snd (invokeFunctors demoEnv (mkRect 0 0 0 0) (mkRect 0 0 0 0)
           (demoRenderer\<lparr>mFunctors := [0, 1, 2]\<rparr>)))) = [1, 2]"
  "fst (invokeFunctors demoEnv (mkRect 0 0 0 0) (mkRect 0 0 0 0)
           (demoRenderer\<lparr>mFunctors := [0, 1, 2]\<rparr>)) = kStatusInvoke"
  by (simp_all add: functor_eval)

lemma accumulating_hyps:
  "noDetach demoEnv"
  "mFunctors (demoRenderer\<lparr>mFunctors := [0, 1, 2]\<rparr>) = [0, 1, 2]"
  "kStatusInvoke AND kStatusInvoke \<noteq> (0 :: status_t)"
  "kStatusDone AND kStatusInvoke = (0 :: status_t)"
  by (simp_all add: noDetach_def demoEnv_def demoRenderer_def kStatusDone_def kStatusInvoke_def)

text \<open>
  The batch \<open>[0, 1, 2]\<close> of the concrete environment: functor 0 returns
  \<^verbatim>\<open>kStatusDone\<close> before any functor has asked for another invocation and is not
  registered; functor 1 returns the invoke bit; functor 2 returns \<^verbatim>\<open>kStatusDone\<close> and is
  registered all the same.
\<close>

theorem invokeFunctors_registers_by_accumulated_status_witness:
  "noDetach demoEnv \<and> (1 :: nat) \<le> 2
   \<and> 2 < length (mFunctors (demoRenderer\<lparr>mFunctors := [0, 1, 2]\<rparr>))
   \<and> outcomes demoEnv (mFunctors (demoRenderer\<lparr>mFunctors := [0, 1, 2]\<rparr>))
        (initialInfo (mkRect 0 0 0 0))
        (world (interrupt demoEnv (demoRenderer\<lparr>mFunctors := [0, 1, 2]\<rparr>)))
       = [(0, kStatusDone, []), (1, kStatusInvoke, [Reenter_attachFunctor 1]), (2, kStatusDone, [])]
   \<and> kStatusInvoke AND kStatusInvoke \<noteq> (0 :: status_t)
   \<and> kStatusDone AND kStatusInvoke = (0 :: status_t)
   \<and> fst (invokeFunctors demoEnv (mkRect 0 0 0 0) (mkRect 0 0 0 0)
           (demoRenderer\<lparr>mFunctors := [0, 1, 2]\<rparr>)) = kStatusInvoke
   \<and> mFunctors (snd (snd (invokeFunctors demoEnv (mkRect 0 0 0 0) (mkRect 0 0 0 0)
           (demoRenderer\<lparr>mFunctors := [0, 1, 2]\<rparr>)))) = [1, 2]"
  using invokeFunctors_registers_by_accumulated_status
    [of demoEnv "mkRect 0 0 0 0" "mkRect 0 0 0 0" "demoRenderer\<lparr>mFunctors := [0, 1, 2]\<rparr>" 1 2]
    accumulating_batch accumulating_hyps
  by simp

section \<open>The clip is applied once\<close>

text \<open>
  Nothing in the set-up of a draw marks the clip dirty: the steps leave \<open>mDirtyClip\<close>
  alone, and \<^verbatim>\<open>setScissorFromClip\<close> and \<^verbatim>\<open>setStencilFromClip\<close> reset it.
\<close>

lemma dcl_steps [simp]:
  "mDirtyClip (gl x s) = mDirtyClip s"
  "mDirtyClip (objectCall q y s) = mDirtyClip s"
  "mDirtyClip (snd (callCaches E z s)) = mDirtyClip s"
  "mDirtyClip (doCaches E z s) = mDirtyClip s"
  "mDirtyClip (setFault s) = mDirtyClip s"
  "mDirtyClip (updateLayerAt a f s) = mDirtyClip s"
  "mDirtyClip (setCurrentProgram p s) = mDirtyClip s"
  "mDirtyClip (updateDescription g s) = mDirtyClip s"
  "mDirtyClip (setBlend b s) = mDirtyClip s"
  "mDirtyClip (setLastModes sm dm s) = mDirtyClip s"
  "mDirtyClip (setColorFields r g' b' a' s) = mDirtyClip s"
  "mDirtyClip (requireSnapshot s) = mDirtyClip s"
  "mDirtyClip (program_remove q s) = mDirtyClip s"
  "mDirtyClip (program_use q s) = mDirtyClip s"
  by (simp_all add: gl_def objectCall_def callCaches_def doCaches_def setFault_def
      updateLayerAt_def setCurrentProgram_def updateDescription_def setBlend_def
      setLastModes_def setColorFields_def requireSnapshot_def program_remove_def
      program_use_def split: prod.splits)

lemma dcl_debugOverdraw [simp]: "mDirtyClip (debugOverdraw E en cl s) = mDirtyClip s"
  by (simp add: debugOverdraw_def Let_def case_prod_beta withProgram_def split: option.splits)

lemma dcl_dirtyLayerUnchecked [simp]: "mDirtyClip (dirtyLayerUnchecked E bounds rg s) = mDirtyClip s"
  by (simp add: dirtyLayerUnchecked_def Let_def case_prod_beta withProgram_def split: option.splits)

lemma dcl_dirtyLayer_mapped [simp]: "mDirtyClip (dirtyLayer_mapped E l t r b m s) = mDirtyClip s"
  by (simp add: dirtyLayer_mapped_def Let_def case_prod_beta withProgram_def split: option.splits)

lemma dcl_dirtyLayer [simp]: "mDirtyClip (dirtyLayer E l t r b s) = mDirtyClip s"
  by (simp add: dirtyLayer_def Let_def case_prod_beta withProgram_def split: option.splits)

lemma dcl_startTiling [simp]: "mDirtyClip (startTiling E s) = mDirtyClip s"
  by (simp add: startTiling_def Let_def case_prod_beta withProgram_def split: option.splits)

lemma dcl_endTiling [simp]: "mDirtyClip (endTiling E s) = mDirtyClip s"
  by (simp add: endTiling_def Let_def case_prod_beta withProgram_def split: option.splits)

lemma dcl_attachStencilBufferToLayer [simp]: "mDirtyClip (attachStencilBufferToLayer E a s) = mDirtyClip s"
  by (simp add: attachStencilBufferToLayer_def Let_def case_prod_beta withProgram_def split: option.splits)

lemma dcl_ensureStencilBuffer [simp]: "mDirtyClip (ensureStencilBuffer E s) = mDirtyClip s"
  by (simp add: ensureStencilBuffer_def Let_def case_prod_beta withProgram_def split: option.splits)

lemma dcl_quickReject [simp]: "mDirtyClip (snd (quickReject E l t r b s)) = mDirtyClip s"
  by (simp add: quickReject_def Let_def case_prod_beta withProgram_def split: option.splits)

lemma dcl_setupDrawWithTexture [simp]: "mDirtyClip (setupDrawWithTexture x s) = mDirtyClip s"
  by (simp add: setupDrawWithTexture_def Let_def case_prod_beta withProgram_def split: option.splits)

lemma dcl_setupDrawWithTextureAndColor [simp]: "mDirtyClip (setupDrawWithTextureAndColor x s) = mDirtyClip s"
  by (simp add: setupDrawWithTextureAndColor_def Let_def case_prod_beta withProgram_def split: option.splits)

lemma dcl_setupDrawWithExternalTexture [simp]: "mDirtyClip (setupDrawWithExternalTexture s) = mDirtyClip s"
  by (simp add: setupDrawWithExternalTexture_def Let_def case_prod_beta withProgram_def split: option.splits)

lemma dcl_setupDrawNoTexture [simp]: "mDirtyClip (setupDrawNoTexture E s) = mDirtyClip s"
  by (simp add: setupDrawNoTexture_def Let_def case_prod_beta withProgram_def split: option.splits)

lemma dcl_setupDrawAA [simp]: "mDirtyClip (setupDrawAA s) = mDirtyClip s"
  by (simp add: setupDrawAA_def Let_def case_prod_beta withProgram_def split: option.splits)

lemma dcl_setupDrawPoint [simp]: "mDirtyClip (setupDrawPoint x s) = mDirtyClip s"
  by (simp add: setupDrawPoint_def Let_def case_prod_beta withProgram_def split: option.splits)

lemma dcl_setupDrawColor_float [simp]: "mDirtyClip (setupDrawColor_float E r g b a s) = mDirtyClip s"
  by (simp add: setupDrawColor_float_def Let_def case_prod_beta withProgram_def split: option.splits)

lemma dcl_setupDrawColor [simp]: "mDirtyClip (setupDrawColor E c a s) = mDirtyClip s"
  by (simp add: setupDrawColor_def Let_def case_prod_beta withProgram_def split: option.splits)

lemma dcl_setupDrawAlpha8Color [simp]: "mDirtyClip (setupDrawAlpha8Color E c a s) = mDirtyClip s"
  by (simp add: setupDrawAlpha8Color_def Let_def case_prod_beta withProgram_def split: option.splits)

lemma dcl_setupDrawShader [simp]: "mDirtyClip (setupDrawShader E s) = mDirtyClip s"
  by (simp add: setupDrawShader_def Let_def case_prod_beta withProgram_def split: option.splits)

lemma dcl_setupDrawColorFilter [simp]: "mDirtyClip (setupDrawColorFilter E s) = mDirtyClip s"
  by (simp add: setupDrawColorFilter_def Let_def case_prod_beta withProgram_def split: option.splits)

lemma dcl_accountForClear [simp]: "mDirtyClip (accountForClear m s) = mDirtyClip s"
  by (simp add: accountForClear_def Let_def case_prod_beta withProgram_def split: option.splits)

lemma dcl_chooseBlending [simp]: "mDirtyClip (chooseBlending E bl m sw s) = mDirtyClip s"
  by (simp add: chooseBlending_def Let_def case_prod_beta withProgram_def split: option.splits)

lemma dcl_setupDrawBlending_mode [simp]: "mDirtyClip (setupDrawBlending_mode E m sw s) = mDirtyClip s"
  by (simp add: setupDrawBlending_mode_def Let_def case_prod_beta withProgram_def split: option.splits)

lemma dcl_setupDrawBlending [simp]: "mDirtyClip (setupDrawBlending E bl m sw s) = mDirtyClip s"
  by (simp add: setupDrawBlending_def Let_def case_prod_beta withProgram_def split: option.splits)

lemma dcl_useProgram [simp]: "mDirtyClip (snd (useProgram p s)) = mDirtyClip s"
  by (simp add: useProgram_def Let_def case_prod_beta withProgram_def split: option.splits)

lemma dcl_setupDrawProgram [simp]: "mDirtyClip (setupDrawProgram E s) = mDirtyClip s"
  by (simp add: setupDrawProgram_def Let_def case_prod_beta withProgram_def split: option.splits)

lemma dcl_setupDrawDirtyRegionsDisabled [simp]: "mDirtyClip (setupDrawDirtyRegionsDisabled s) = mDirtyClip s"
  by (simp add: setupDrawDirtyRegionsDisabled_def Let_def case_prod_beta withProgram_def split: option.splits)

lemma dcl_setupDrawModelViewTranslate [simp]: "mDirtyClip (setupDrawModelViewTranslate E l t r b i s) = mDirtyClip s"
  by (simp add: setupDrawModelViewTranslate_def Let_def case_prod_beta withProgram_def split: option.splits)

lemma dcl_setupDrawModelViewIdentity [simp]: "mDirtyClip (setupDrawModelViewIdentity off s) = mDirtyClip s"
  by (simp add: setupDrawModelViewIdentity_def Let_def case_prod_beta withProgram_def split: option.splits)

lemma dcl_setupDrawModelView [simp]: "mDirtyClip (setupDrawModelView E l t r b i j s) = mDirtyClip s"
  by (simp add: setupDrawModelView_def Let_def case_prod_beta withProgram_def split: option.splits)

lemma dcl_setupDrawPointUniforms [simp]: "mDirtyClip (setupDrawPointUniforms s) = mDirtyClip s"
  by (simp add: setupDrawPointUniforms_def Let_def case_prod_beta withProgram_def split: option.splits)

lemma dcl_programSetColor [simp]: "mDirtyClip (programSetColor s) = mDirtyClip s"
  by (simp add: programSetColor_def Let_def case_prod_beta withProgram_def split: option.splits)

lemma dcl_setupDrawColorUniforms [simp]: "mDirtyClip (setupDrawColorUniforms s) = mDirtyClip s"
  by (simp add: setupDrawColorUniforms_def Let_def case_prod_beta withProgram_def split: option.splits)

lemma dcl_setupDrawPureColorUniforms [simp]: "mDirtyClip (setupDrawPureColorUniforms s) = mDirtyClip s"
  by (simp add: setupDrawPureColorUniforms_def Let_def case_prod_beta withProgram_def split: option.splits)

lemma dcl_setupDrawShaderUniforms [simp]: "mDirtyClip (setupDrawShaderUniforms E i s) = mDirtyClip s"
  by (simp add: setupDrawShaderUniforms_def Let_def case_prod_beta withProgram_def split: option.splits)

lemma dcl_setupDrawShaderIdentityUniforms [simp]: "mDirtyClip (setupDrawShaderIdentityUniforms E s) = mDirtyClip s"
  by (simp add: setupDrawShaderIdentityUniforms_def Let_def case_prod_beta withProgram_def split: option.splits)

lemma dcl_setupDrawColorFilterUniforms [simp]: "mDirtyClip (setupDrawColorFilterUniforms s) = mDirtyClip s"
  by (simp add: setupDrawColorFilterUniforms_def Let_def case_prod_beta withProgram_def split: option.splits)

lemma dcl_setupDrawSimpleMesh [simp]: "mDirtyClip (setupDrawSimpleMesh E s) = mDirtyClip s"
  by (simp add: setupDrawSimpleMesh_def Let_def case_prod_beta withProgram_def split: option.splits)

lemma dcl_setupDrawTexture [simp]: "mDirtyClip (setupDrawTexture E tx s) = mDirtyClip s"
  by (simp add: setupDrawTexture_def Let_def case_prod_beta withProgram_def split: option.splits)

lemma dcl_setupDrawExternalTexture [simp]: "mDirtyClip (setupDrawExternalTexture E tx s) = mDirtyClip s"
  by (simp add: setupDrawExternalTexture_def Let_def case_prod_beta withProgram_def split: option.splits)

lemma dcl_setupDrawTextureTransform [simp]: "mDirtyClip (setupDrawTextureTransform s) = mDirtyClip s"
  by (simp add: setupDrawTextureTransform_def Let_def case_prod_beta withProgram_def split: option.splits)

lemma dcl_setupDrawTextureTransformUniforms [simp]: "mDirtyClip (setupDrawTextureTransformUniforms s) = mDirtyClip s"
  by (simp add: setupDrawTextureTransformUniforms_def Let_def case_prod_beta withProgram_def split: option.splits)

lemma dcl_bindTexCoordsIfUsed [simp]: "mDirtyClip (bindTexCoordsIfUsed E force s) = mDirtyClip s"
  by (simp add: bindTexCoordsIfUsed_def Let_def case_prod_beta withProgram_def split: option.splits)

lemma dcl_setupDrawMesh [simp]: "mDirtyClip (setupDrawMesh E v vbo s) = mDirtyClip s"
  by (simp add: setupDrawMesh_def Let_def case_prod_beta withProgram_def split: option.splits)

lemma dcl_setupDrawMesh_colors [simp]: "mDirtyClip (setupDrawMesh_colors E s) = mDirtyClip s"
  by (simp add: setupDrawMesh_colors_def Let_def case_prod_beta withProgram_def split: option.splits)

lemma dcl_setupDrawMeshIndices [simp]: "mDirtyClip (setupDrawMeshIndices E s) = mDirtyClip s"
  by (simp add: setupDrawMeshIndices_def Let_def case_prod_beta withProgram_def split: option.splits)

lemma dcl_setupDrawVertices [simp]: "mDirtyClip (setupDrawVertices E s) = mDirtyClip s"
  by (simp add: setupDrawVertices_def Let_def case_prod_beta withProgram_def split: option.splits)

lemma dcl_finishDrawTexture [simp]: "mDirtyClip (finishDrawTexture s) = mDirtyClip s"
  by (simp add: finishDrawTexture_def Let_def case_prod_beta withProgram_def split: option.splits)

lemma dcl_resetDrawState [simp]: "mDirtyClip (resetDrawState E s) = mDirtyClip s"
  by (simp add: resetDrawState_def Let_def case_prod_beta withProgram_def split: option.splits)

lemma dcl_setScissorFromClip:
  "\<not> mDirtyClip s \<Longrightarrow> \<not> mDirtyClip (setScissorFromClip E s)"
  by (simp add: setScissorFromClip_def Let_def case_prod_beta)

lemma dcl_stencilPrepare [simp]: "\<not> mDirtyClip (stencilPrepare E s)"
  by (simp add: stencilPrepare_def Let_def case_prod_beta dcl_setScissorFromClip)

lemma dcl_setupDraw_group:
  "mDirtyClip (setupDraw E cl s) \<longrightarrow> mDirtyClip s"
  "mDirtyClip (clearLayerRegions E s) \<longrightarrow> mDirtyClip s"
  "mDirtyClip (setStencilFromClip E s) \<longrightarrow> mDirtyClip s"
  "mDirtyClip (drawRegionRects E rg color m dirty s) \<longrightarrow> mDirtyClip s"
  "mDirtyClip (snd (drawColorRects E rects color m ignoreTransform dirty clip s)) \<longrightarrow> mDirtyClip s"
proof (induction E cl s and E s and E s and E rg color m dirty s
         and E rects color m ignoreTransform dirty clip s rule: setupDraw_induct)
  case (1 E cl s)
  let ?s1 = "if cl then clearLayerRegions E s else s"
  have a: "mDirtyClip ?s1 \<longrightarrow> mDirtyClip s"
    using "1.IH"(1) by simp
  show ?case
    unfolding setupDraw.simps [of E cl s] Let_def
    using a by simp
next
  case (2 E s)
  let ?p = "callCaches E Caches_disableScissor s"
  have a: "mLayers s \<noteq> [] \<Longrightarrow> \<not> isIgnored (current s) \<Longrightarrow>
      mDirtyClip (setupDraw E False ((snd ?p)\<lparr>mLayers := []\<rparr>)) \<longrightarrow> mDirtyClip s"
    using "2.IH" [OF refl _ _ prod.collapse refl] by simp
  show ?case
    unfolding clearLayerRegions.simps [of E s] Let_def
    using a by (simp add: case_prod_beta)
next
  case (3 E s)
  let ?s1 = "drawRegionRects E (clipRegion (current s)) 0xff000000 kSrc_Mode False (stencilPrepare E s)"
  let ?s2 = "doCaches E Caches_stencil_enableTest ?s1"
  have a: "\<not> debugOverdrawFlag (caches s) \<Longrightarrow> clipRegion (current s) \<noteq> [] \<Longrightarrow>
      \<not> mDirtyClip ?s1"
    using "3.IH"(1) by simp
  have b: "\<not> debugOverdrawFlag (caches s) \<Longrightarrow> clipRegion (current s) \<noteq> [] \<Longrightarrow>
      debugStencilClip (caches ?s2) = kStencilShowRegion \<and> \<not> mDirtyClip ?s2 \<Longrightarrow>
      \<not> mDirtyClip (drawRegionRects E (clipRegion (current ?s2)) 0x7f0000ff kSrcOver_Mode True ?s2)"
    using "3.IH"(2) [OF _ _ refl refl] by blast
  show ?case
    unfolding setStencilFromClip.simps [of E s] Let_def
    using a b by auto
next
  case (4 E rg color m dirty s)
  then show ?case
    by (simp add: drawRegionRects.simps)
next
  case (5 E rects color m ignoreTransform dirty clip s)
  let ?l = "drawColorRects_loop ignoreTransform s rects (mkRect FLT_MAX FLT_MAX FLT_MIN FLT_MIN, 0)"
  let ?q = "if rects = [] then (True, s)
            else if clip then quickReject E (left (fst ?l)) (topR (fst ?l)) (right (fst ?l)) (bottom (fst ?l)) s
            else (False, s)"
  have q: "mDirtyClip (snd ?q) = mDirtyClip s"
    by simp
  have a: "\<not> fst ?q \<Longrightarrow> mDirtyClip (setupDraw E True (snd ?q)) \<longrightarrow> mDirtyClip s"
    using "5.IH" [OF prod.collapse prod.collapse] q by simp
  show ?case
    unfolding drawColorRects.simps [of E rects color m ignoreTransform dirty clip s] Let_def
      case_prod_beta
    using a q by (cases "fst ?q") simp_all
qed

text \<open>
  \<^verbatim>\<open>setupDraw\<close> and \<^verbatim>\<open>setStencilFromClip\<close> as the source has them, without the two
  tests added for the termination argument.
\<close>

lemma setupDraw_source:
  "setupDraw E cl s =
     (let s1 = (if cl then clearLayerRegions E s else s);
          s2 = (if mDirtyClip s1 then
                  setStencilFromClip E
                    (if scissorEnabled (caches s1) then setScissorFromClip E s1 else s1)
                else s1)
      in resetDrawState E s2)"
  using dcl_setupDraw_group(2) [of E s]
  by (subst setupDraw.simps) (auto simp: Let_def)

lemma setStencilFromClip_source:
  "setStencilFromClip E s =
     (if \<not> debugOverdrawFlag (caches s) then
        if clipRegion (current s) \<noteq> [] then
          let s1 = drawRegionRects E (clipRegion (current s)) 0xff000000 kSrc_Mode False
                     (stencilPrepare E s);
              s2 = doCaches E Caches_stencil_enableTest s1
          in if debugStencilClip (caches s2) = kStencilShowRegion
             then drawRegionRects E (clipRegion (current s2)) 0x7f0000ff kSrcOver_Mode True s2
             else s2
        else doCaches E Caches_stencil_disable s
      else s)"
  using dcl_setupDraw_group(4)
    [of E "clipRegion (current s)" "0xff000000" kSrc_Mode False "stencilPrepare E s"]
  by (subst setStencilFromClip.simps) (auto simp: Let_def)

section \<open>A cache that returns null\<close>

lemma floor_half: "\<lfloor>rat_of_int n + 1 / 2\<rfloor> = n"
  by linarith

lemma snap_of_int:
  "snapToPixelBoundaries (mkRect (of_int a) (of_int b) (of_int c) (of_int d))
     = mkRect (of_int a) (of_int b) (of_int c) (of_int d)"
  by (simp add: snapToPixelBoundaries_def mkRect_def floor_half)

lemma snap_demo:
  "snapToPixelBoundaries (mkRect 0 0 100 100) = mkRect 0 0 100 100"
  "snapToPixelBoundaries (mkRect 10 10 42 42) = mkRect 10 10 42 42"
  "snapToPixelBoundaries (mkRect 10 10 40 40) = mkRect 10 10 40 40"
  "snapToPixelBoundaries (mkRect 200 200 232 232) = mkRect 200 200 232 232"
  using snap_of_int [of 0 0 100 100] snap_of_int [of 10 10 42 42] snap_of_int [of 10 10 40 40]
    snap_of_int [of 200 200 232 232]
  by simp_all

lemma current_preparedFrame:
  "clipRect (current preparedFrame) = mkRect 0 0 100 100"
  "mapRect (transform (current preparedFrame)) r = r"
  "\<not> isIgnored (current preparedFrame)"
  "mScissorOptimizationDisabled preparedFrame = False"
  by (simp_all add: current_def demoSnapshot_def demoMat_def isIgnored_def preparedFrame_eq
      demoRenderer_def)

lemma quickReject_demo:
  "quickReject demoEnv 10 10 42 42 preparedFrame
     = (False, doCaches demoEnv (Caches_setScissorEnabled False) preparedFrame)"
  "quickReject nullTextureEnv 10 10 42 42 preparedFrame
     = (False, doCaches nullTextureEnv (Caches_setScissorEnabled False) preparedFrame)"
  "quickReject demoEnv 10 10 40 40 preparedFrame
     = (False, doCaches demoEnv (Caches_setScissorEnabled False) preparedFrame)"
  unfolding quickReject_def Let_def current_preparedFrame snap_demo
  by (simp_all add: mkRect_def intersects_def containsRect_def isDeferred_def
      isEmptyRect_def intersectWith_def current_preparedFrame)

lemma drawBitmapData_null:
  assumes "mSnapshot s \<noteq> []"
    and "quickReject E l t (l + of_int (bitmap_width bitmap)) (t + of_int (bitmap_height bitmap)) s
           = (False, s1)"
    and "fst (textureCache_getTransient E bitmap (world (doCaches E (Caches_activeTexture 0) s1)))
           = None"
  shows "drawBitmapData E bitmap l t paint s = Inl NullDereference"
  using assms
  by (simp add: drawBitmapData_def withSnapshot_def fetch_def drawAlphaBitmap_def
      drawTextureRect_def Let_def case_prod_beta finish_op_def)

lemma drawBitmap_null:
  assumes "mSnapshot s \<noteq> []"
    and "quickReject E l t (l + of_int (bitmap_width bitmap)) (t + of_int (bitmap_height bitmap)) s
           = (False, s1)"
    and "fault s1 = None"
    and "fst (textureCache_get E bitmap (world (doCaches E (Caches_activeTexture 0) s1))) = None"
  shows "drawBitmap E bitmap l t paint s =
     Inr (kStatusDone,
          (doCaches E (Caches_activeTexture 0) s1)
            \<lparr>world := snd (textureCache_get E bitmap (world (doCaches E (Caches_activeTexture 0) s1)))\<rparr>)"
  using assms
  by (simp add: drawBitmap_def withSnapshot_def fetch_def Let_def case_prod_beta finish_op_def)

lemma drawPatch_null:
  assumes "mSnapshot s \<noteq> []"
    and "quickReject E l t r b s = (False, s1)"
    and "fault s1 = None"
    and "fst (patchCache_get E bitmap (r - l) (b - t) (world s1)) = None"
  shows "drawPatch E bitmap l t r b alpha0 m s =
     Inr (kStatusDrew, s1\<lparr>world := snd (patchCache_get E bitmap (r - l) (b - t) (world s1))\<rparr>)"
  using assms
  by (simp add: drawPatch_def withSnapshot_def fetch_def Let_def case_prod_beta finish_op_def)

lemma demo_caches_null:
  "textureCache_getTransient demoEnv b w = (None, w)"
  "patchCache_get demoEnv b wd ht w = (None, w)"
  "textureCache_get nullTextureEnv b w = (None, w)"
  "bitmap_width demoBitmap = 32" "bitmap_height demoBitmap = 32"
  by (simp_all add: demoEnv_def nullTextureEnv_def demoBitmap_def)

lemma calls_preparedFrame:
  "calls preparedFrame =
     [CachesCall Caches_clearGarbage, GL (glViewport 0 0 100 100), GL (glDisable GL_BLEND),
      CachesCall Caches_startTiling, CachesCall Caches_resetScissor]"
  by (simp add: preparedFrame_eq)

text \<open>
  C5. \<^verbatim>\<open>drawBitmap\<close> tests the texture it gets from the cache and returns
  \<^verbatim>\<open>kStatusDone\<close> without drawing when it is null. \<^verbatim>\<open>drawBitmapData\<close> does not test
  the texture it gets from \<^verbatim>\<open>getTransient\<close>: with a null texture it goes on to
  \<^verbatim>\<open>drawTextureRect\<close>, which dereferences it. \<^verbatim>\<open>drawPatch\<close> does not dereference a
  null mesh and draws nothing, but returns \<^verbatim>\<open>kStatusDrew\<close>. The three calls are made on
  the concrete prepared frame; in the first two the cache of the concrete environment
  returns null, in the third the texture cache does.
\<close>

theorem null_cache_result_unchecked:
  "drawBitmapData demoEnv demoBitmap 10 10 None preparedFrame = Inl NullDereference
   \<and> map_sum id fst (drawPatch demoEnv demoBitmap 10 10 40 40 255 kSrcOver_Mode preparedFrame)
       = Inr kStatusDrew
   \<and> map_sum id (list_ex isDrawCommand \<circ> calls \<circ> snd)
        (drawPatch demoEnv demoBitmap 10 10 40 40 255 kSrcOver_Mode preparedFrame) = Inr False
   \<and> map_sum id fst (drawBitmap nullTextureEnv demoBitmap 10 10 None preparedFrame)
       = Inr kStatusDone
   \<and> map_sum id (list_ex isDrawCommand \<circ> calls \<circ> snd)
        (drawBitmap nullTextureEnv demoBitmap 10 10 None preparedFrame) = Inr False"
proof (intro conjI)
  have ne: "mSnapshot preparedFrame \<noteq> []"
    by simp
  have q: "quickReject demoEnv 10 10 (10 + of_int (bitmap_width demoBitmap))
      (10 + of_int (bitmap_height demoBitmap)) preparedFrame
     = (False, doCaches demoEnv (Caches_setScissorEnabled False) preparedFrame)"
    by (simp add: demo_caches_null quickReject_demo)
  have qn: "quickReject nullTextureEnv 10 10 (10 + of_int (bitmap_width demoBitmap))
      (10 + of_int (bitmap_height demoBitmap)) preparedFrame
     = (False, doCaches nullTextureEnv (Caches_setScissorEnabled False) preparedFrame)"
    by (simp add: demo_caches_null quickReject_demo)
  show "drawBitmapData demoEnv demoBitmap 10 10 None preparedFrame = Inl NullDereference"
    using drawBitmapData_null [OF ne q] by (simp add: demo_caches_null)
  have patch: "drawPatch demoEnv demoBitmap 10 10 40 40 255 kSrcOver_Mode preparedFrame =
      Inr (kStatusDrew, (doCaches demoEnv (Caches_setScissorEnabled False) preparedFrame)
        \<lparr>world := snd (patchCache_get demoEnv demoBitmap (40 - 10) (40 - 10)
            (world (doCaches demoEnv (Caches_setScissorEnabled False) preparedFrame)))\<rparr>)"
    using drawPatch_null [OF ne quickReject_demo(3)] by (simp add: demo_caches_null)
  show "map_sum id fst (drawPatch demoEnv demoBitmap 10 10 40 40 255 kSrcOver_Mode preparedFrame)
       = Inr kStatusDrew"
    unfolding patch by simp
  show "map_sum id (list_ex isDrawCommand \<circ> calls \<circ> snd)
        (drawPatch demoEnv demoBitmap 10 10 40 40 255 kSrcOver_Mode preparedFrame) = Inr False"
    unfolding patch by (simp add: calls_preparedFrame)
  have bitmap: "drawBitmap nullTextureEnv demoBitmap 10 10 None preparedFrame =
      Inr (kStatusDone,
        (doCaches nullTextureEnv (Caches_activeTexture 0)
           (doCaches nullTextureEnv (Caches_setScissorEnabled False) preparedFrame))
        \<lparr>world := snd (textureCache_get nullTextureEnv demoBitmap
            (world (doCaches nullTextureEnv (Caches_activeTexture 0)
               (doCaches nullTextureEnv (Caches_setScissorEnabled False) preparedFrame))))\<rparr>)"
    using drawBitmap_null [OF ne qn] by (simp add: demo_caches_null)
  show "map_sum id fst (drawBitmap nullTextureEnv demoBitmap 10 10 None preparedFrame)
       = Inr kStatusDone"
    unfolding bitmap by simp
  show "map_sum id (list_ex isDrawCommand \<circ> calls \<circ> snd)
        (drawBitmap nullTextureEnv demoBitmap 10 10 None preparedFrame) = Inr False"
    unfolding bitmap by (simp add: calls_preparedFrame)
qed

section \<open>Quick rejection\<close>

lemma quickReject_rejects:
  assumes "isIgnored (current s) \<or> r \<le> l \<or> b \<le> t
      \<or> \<not> intersects (snapToPixelBoundaries (clipRect (current s)))
            (snapToPixelBoundaries (mapRect (transform (current s)) (mkRect l t r b)))"
  shows "quickReject E l t r b s = (True, s)"
  using assms by (auto simp: quickReject_def Let_def)

lemma fst_drawPoints_loop:
  "fst (drawPoints_loop E hw points g s) = g + int (length points)"
  by (induction E hw points g s rule: drawPoints_loop.induct) simp_all

lemma drawPoints_Inr:
  assumes "drawPoints E points paint s = Inr (st, s')" and "\<not> isIgnored (current s)"
  shows "st = kStatusDrew
       \<and> (\<exists>pre. calls s' = pre @ [GL (glDrawArrays GL_POINTS 0 (int (length points)))])"
proof -
  have ne: "mSnapshot s \<noteq> []"
    using assms(1) by (auto simp: drawPoints_def withSnapshot_def split: if_splits)
  have "\<exists>s15. drawPoints E points paint s
      = finish_op (gl (glDrawArrays GL_POINTS 0 (int (length points))) s15)
          (kStatusDrew, gl (glDrawArrays GL_POINTS 0 (int (length points))) s15)"
    unfolding drawPoints_def withSnapshot_def Let_def case_prod_beta
    using ne assms(2)
    apply (simp add: fst_drawPoints_loop split del: if_split)
    apply (rule exI)
    apply (rule refl)
    done
  then obtain s15 where body: "drawPoints E points paint s
      = finish_op (gl (glDrawArrays GL_POINTS 0 (int (length points))) s15)
          (kStatusDrew, gl (glDrawArrays GL_POINTS 0 (int (length points))) s15)"
    by blast
  have "finish_op (gl (glDrawArrays GL_POINTS 0 (int (length points))) s15)
          (kStatusDrew, gl (glDrawArrays GL_POINTS 0 (int (length points))) s15) = Inr (st, s')"
    using assms(1) body by simp
  then have "(st, s') = (kStatusDrew, gl (glDrawArrays GL_POINTS 0 (int (length points))) s15)"
    by (rule finish_op_InrD(2))
  then show ?thesis
    by auto
qed

lemma isl_finish_op: "isl (finish_op s x) \<longleftrightarrow> fault s \<noteq> None"
  by (simp add: finish_op_def split: option.splits)

section \<open>Evaluating a draw on the concrete frame\<close>

lemmas model_defs =
  kStatusDone_def kStatusDraw_def kStatusInvoke_def kStatusDrew_def mkRect_def 
  isEmptyRect_def setEmptyRect_def getWidth_def getHeight_def intersectWith_def 
  intersects_def intersectRect_def containsRect_def unionWith_def snapToPixelBoundaries_def 
  float_to_int_def mkBlender_def gBlends_def gBlendsSwap_def isIgnored_def newSnapshot_def 
  description_reset_def gl_def objectCall_def callCaches_def doCaches_def dirtyClip_def 
  debugOverdraw_def program_remove_def program_use_def setCurrentProgram_def interrupt_def 
  currentOrFirst_def resume_def sortedVector_add_def sortedVector_remove_def 
  detachFunctor_def attachFunctor_def invokeFunctor_def localDirty_def initialInfo_def 
  invokeFunctors_def current_def setFault_def updateCurrent_def hasLayer_def 
  updateLayerAt_def dirtyLayerUnchecked_def dirtyLayer_mapped_def dirtyLayer_def 
  startTiling_def endTiling_def setScissorFromClip_def attachStencilBufferToLayer_def 
  ensureStencilBuffer_def quickRejectNoScissor_def quickReject_def updateDescription_def 
  setupDrawWithTexture_def setupDrawWithTextureAndColor_def 
  setupDrawWithExternalTexture_def setupDrawNoTexture_def setupDrawAA_def 
  setupDrawPoint_def colorComponent_def setColorFields_def setupDrawColor_float_def 
  setupDrawColor_def setupDrawAlpha8Color_def setupDrawShader_def setupDrawColorFilter_def 
  accountForClear_def setBlend_def setLastModes_def chooseBlending_def shaderBlends_def 
  colorFilterBlends_def setupDrawBlending_mode_def setupDrawBlending_def useProgram_def 
  setupDrawProgram_def setupDrawDirtyRegionsDisabled_def withProgram_def 
  setupDrawModelViewTranslate_def setupDrawModelViewIdentity_def setupDrawModelView_def 
  setupDrawPointUniforms_def programSetColor_def setupDrawColorUniforms_def 
  setupDrawPureColorUniforms_def setupDrawShaderUniforms_def 
  setupDrawShaderIdentityUniforms_def setupDrawColorFilterUniforms_def 
  setupDrawSimpleMesh_def setupDrawTexture_def setupDrawExternalTexture_def 
  setupDrawTextureTransform_def setupDrawTextureTransformUniforms_def 
  bindTexCoordsIfUsed_def setupDrawMesh_def setupDrawMesh_colors_def 
  setupDrawMeshIndices_def setupDrawVertices_def finishDrawTexture_def FLT_MAX_def 
  FLT_MIN_def resetDrawState_def stencilPrepare_def pendingWork_def gMeshCount_def 
  requireSnapshot_def resetDrawTextureTexCoords_def getAlphaAndModeDirect_def 
  getAlphaAndMode_def FILTER_def drawColorRect_def drawTextureMesh_def 
  drawAlpha8TextureMesh_def pixelSnap_def drawTextureRect_def drawAlphaBitmap_def 
  layerSetFilter_def drawTextureLayer_def composeLayerRect_def composeLayerRegion_def 
  setupColorFilter_def resetColorFilter_def composeLayer_def getSaveCount_def 
  saveSnapshot_def restoreSnapshot_def finish_op_def save_def restore_def 
  restoreToCount_def snapshot_setClip_def resumeAfterLayer_def updateLayer_def 
  updateLayers_def discardFramebuffer_def syncState_def clear_def prepareDirty_def 
  prepare_def withSnapshot_def fetch_def drawBitmap_def drawBitmapData_def drawPatch_def 
  drawPoints_def drawColor_def regionBounds_def skRegion_setRect_def clipAsRegion_def 
  snapshot_clipRegionTransformed_def snapshot_clip_def clipResult_def withSnapshot_bool_def 
  clipRegion_op_def clipPath_body_def clipPath_op_def clipRect_op_def rectWithin_def 
  demoMat_def demoSnapshot_def demoLayer_def demoCaches_def demoEnv_def demoRenderer_def 
  demoBitmap_def demoPaint_def 

lemmas draw_simps =
  setupDraw.simps clearLayerRegions.simps setStencilFromClip.simps drawRegionRects.simps
  drawColorRects.simps

lemma getAlphaAndMode_demo:
  "getAlphaAndMode (Some demoPaint) preparedFrame = (255, kSrcOver_Mode)"
  by (simp add: model_defs preparedFrame_eq)

lemma drawPoints_demo_returns:
  "\<not> isl (drawPoints demoEnv [(200, 200)] demoPaint preparedFrame)"
  unfolding drawPoints_def withSnapshot_def
  apply (simp only: preparedFrame_fields current_preparedFrame if_False list.simps
      getAlphaAndMode_demo prod.case Let_def)
  apply (simp only: case_prod_beta isl_finish_op snd_conv fst_conv)
  apply (simp add: model_defs draw_simps preparedFrame_eq Let_def
      cong: prod.case_cong_weak option.case_cong_weak list.case_cong_weak)
  done

section \<open>Quick rejection of a draw\<close>



lemma rejected_demo:
  "mSnapshot preparedFrame \<noteq> []" "fault preparedFrame = None"
  "\<not> intersects (snapToPixelBoundaries (clipRect (current preparedFrame)))
       (snapToPixelBoundaries (mapRect (transform (current preparedFrame))
          (mkRect 200 200 232 232)))"
  "(232 :: rat) = 200 + of_int (bitmap_width demoBitmap)"
  "(232 :: rat) = 200 + of_int (bitmap_height demoBitmap)"
  "mSnapshot ignoredFrame \<noteq> []" "fault ignoredFrame = None"
  "isIgnored (current ignoredFrame)"
  unfolding current_preparedFrame snap_demo
  by (simp_all add: mkRect_def intersects_def isEmptyRect_def intersectWith_def
      demo_caches_null ignoredFrame_def current_def isIgnored_def)


end
